theory Spec2Isabelle
  imports Complex_Main
begin

section \<open>JavaScript values\<close>

text \<open>
  The repository holds two servers for the same dashboard: the TypeScript server
  (\<^verbatim>\<open>server/storage.ts\<close> with the class \<open>MemStorage\<close>, \<^verbatim>\<open>server/routes.ts\<close> with
  \<open>registerRoutes\<close>, \<^verbatim>\<open>server/honeypot/services.ts\<close>, \<^verbatim>\<open>server/ml/phishing-detector.ts\<close>)
  and the single-file server \<^verbatim>\<open>cybershield-complete.js\<close> with the class
  \<open>MemoryStorage\<close>. Both are embedded here. Where the two use one name, the single-file
  version carries the suffix \<open>_complete\<close>.

  JavaScript numbers are modelled by \<open>int\<close> where the code only counts (identifiers,
  counters, sizes) and by \<open>real\<close> where it measures (scores, confidences); the model is
  exact below \<open>2 ^ 53\<close> and has no NaN. The detectors of deepfakes compute with
  random floating-point numbers; they are not embedded, and their verdict is an
  argument of the routes.

  The storage methods never wait for anything: an \<open>await\<close> of one of them goes on
  before any other request, timer or answer of the network is looked at. So a handler
  is one atomic step from one wait for the network to the next. The geolocation
  service is asked before \<open>logAttack\<close> writes anything, the detectors before the routes
  write anything; the one wait that stands between two writes is the wait of \<open>logAttack\<close>
  for the mail service, where the run of a handler is cut in two.
\<close>

datatype json =
    JNull
  | JBool bool
  | JNum real
  | JStr string
  | JArr "json list"
  | JObj "(string \<times> json) list"

text \<open>JavaScript truthiness, as \<open>!x\<close> and \<open>x || y\<close> read it.\<close>

fun truthy :: "json \<Rightarrow> bool" where
  "truthy JNull = False"
| "truthy (JBool b) = b"
| "truthy (JNum x) = (x \<noteq> 0)"
| "truthy (JStr s) = (s \<noteq> [])"
| "truthy (JArr xs) = True"
| "truthy (JObj kvs) = True"

text \<open>\<open>x || null\<close> for an optional property \<open>x\<close> (\<open>None\<close> is \<open>undefined\<close>).\<close>

fun or_null :: "json option \<Rightarrow> json" where
  "or_null None = JNull"
| "or_null (Some j) = (if truthy j then j else JNull)"

text \<open>\<open>s || null\<close> for an optional string: the empty string is falsy.\<close>

fun str_or_null :: "string option \<Rightarrow> string option" where
  "str_or_null None = None"
| "str_or_null (Some s) = (if s = [] then None else Some s)"

text \<open>
  A template literal that interpolates a number or a value of any type is kept as its
  parts, so that the model does not have to fix how the runtime prints it.
\<close>

datatype piece = Lit string | Num real | Fixed1 real | Text json

text \<open>
  A JavaScript \<open>Map\<close> keyed by numbers: an association list in insertion order.
  \<open>set\<close> overwrites the value of a key in place and appends a new key at the end.
\<close>

type_synonym 'v jsmap = "(int \<times> 'v) list"

definition map_get :: "'v jsmap \<Rightarrow> int \<Rightarrow> 'v option" where
  "map_get m k = map_of m k"

fun map_set :: "int \<Rightarrow> 'v \<Rightarrow> 'v jsmap \<Rightarrow> 'v jsmap" where
  "map_set k v [] = [(k, v)]"
| "map_set k v ((k', v') # m) =
     (if k' = k then (k, v) # m else (k', v') # map_set k v m)"

definition map_values :: "'v jsmap \<Rightarrow> 'v list" where
  "map_values m = map snd m"

section \<open>The data model (shared/schema.ts)\<close>

record Threat =
  threat_id :: int
  threat_type :: string
  threat_severity :: string
  threat_source :: string
  threat_description :: "piece list"
  threat_metadata :: json
  threat_status :: string
  threat_detectedAt :: nat

record InsertThreat =
  new_threat_type :: string
  new_threat_severity :: string
  new_threat_source :: string
  new_threat_description :: "piece list"
  new_threat_metadata :: "json option"
  new_threat_status :: "string option"

record PhishingAnalysis =
  phishing_id :: int
  phishing_content :: string
  phishing_score :: real
  phishing_confidence :: real
  phishing_suspiciousLinks :: int
  phishing_indicators :: "string list option"
  phishing_analyzedAt :: nat

record InsertPhishingAnalysis =
  new_phishing_content :: string
  new_phishing_score :: real
  new_phishing_confidence :: real
  new_phishing_suspiciousLinks :: "int option"
  new_phishing_indicators :: "string list option"

record DeepfakeAnalysis =
  deepfake_id :: int
  deepfake_fileName :: json
  deepfake_fileType :: string
  deepfake_fileSize :: int
  deepfake_isDeepfake :: bool
  deepfake_confidence :: real
  deepfake_processingTime :: real
  deepfake_anomalies :: "string list option"
  deepfake_analyzedAt :: nat

record InsertDeepfakeAnalysis =
  new_deepfake_fileName :: json
  new_deepfake_fileType :: string
  new_deepfake_fileSize :: int
  new_deepfake_isDeepfake :: bool
  new_deepfake_confidence :: real
  new_deepfake_processingTime :: real
  new_deepfake_anomalies :: "string list option"

record HoneypotLog =
  log_id :: int
  log_service :: string
  log_sourceIp :: string
  log_attackType :: string
  log_severity :: string
  log_port :: int
  log_payload :: "string option"
  log_location :: json
  log_detectedAt :: nat

record InsertHoneypotLog =
  new_log_service :: string
  new_log_sourceIp :: string
  new_log_attackType :: string
  new_log_severity :: string
  new_log_port :: int
  new_log_payload :: "string option"
  new_log_location :: "json option"

record Alert =
  alert_id :: int
  alert_title :: string
  alert_description :: "piece list"
  alert_severity :: string
  alert_category :: string
  alert_isRead :: bool
  alert_metadata :: json
  alert_createdAt :: nat

record InsertAlert =
  new_alert_title :: string
  new_alert_description :: "piece list"
  new_alert_severity :: string
  new_alert_category :: string
  new_alert_isRead :: "bool option"
  new_alert_metadata :: "json option"

record SystemStats =
  stats_id :: int
  activeThreats :: int
  phishingBlocked :: int
  deepfakesDetected :: int
  honeypotHits :: int
  updatedAt :: nat

text \<open>\<open>Partial<InsertSystemStats>\<close>: every property may be absent.\<close>

record PartialSystemStats =
  set_activeThreats :: "int option"
  set_phishingBlocked :: "int option"
  set_deepfakesDetected :: "int option"
  set_honeypotHits :: "int option"

definition no_stats :: PartialSystemStats where
  "no_stats = \<lparr>set_activeThreats = None, set_phishingBlocked = None,
     set_deepfakesDetected = None, set_honeypotHits = None\<rparr>"

section \<open>Attacks, messages and sockets\<close>

text \<open>\<open>HoneypotAttack\<close> of \<^verbatim>\<open>server/honeypot/services.ts\<close>.\<close>

record HoneypotAttack =
  service :: string
  sourceIp :: string
  attackType :: string
  severity :: string
  port :: int
  payload :: "string option"

text \<open>\<open>EmailAlertData\<close> of \<^verbatim>\<open>server/services/email-alerts.ts\<close>.\<close>

record EmailAlertData =
  attackerIp :: string
  country :: string
  city :: string
  email_attackType :: string
  email_timestamp :: nat
  attempts :: "int option"

text \<open>
  The objects handed to \<open>broadcast\<close>. The first three are the TypeScript server's,
  \<open>NewAlertLog\<close> is the single file's \<open>{type: 'new_alert', alert, honeypotLog}\<close>.
\<close>

datatype message =
    NewAlert Alert Threat
  | HoneypotAttackMsg HoneypotAttack "Alert option"
  | StatsUpdate SystemStats
  | NewAlertLog Alert HoneypotLog

fun message_type :: "message \<Rightarrow> string" where
  "message_type (NewAlert a t) = ''new_alert''"
| "message_type (HoneypotAttackMsg a al) = ''honeypot_attack''"
| "message_type (StatsUpdate st) = ''stats_update''"
| "message_type (NewAlertLog a l) = ''new_alert''"

text \<open>
  A connection of the \<open>ws\<close> library, which is not part of the sources. The code reads
  \<open>readyState\<close> and calls \<open>send\<close>; \<open>sent\<close> collects what \<open>send\<close> accepted. On an open
  socket the \<open>send\<close> of the library returns, and a delivery that fails is reported
  through the \<open>close\<close> event. The code has no \<open>try\<close> around \<open>send\<close>; what it does if a
  \<open>send\<close> should throw all the same is kept in the model, with the input
  \<open>send_throws\<close>.
\<close>

record WebSocket =
  readyState :: nat
  sent :: "message list"
  send_throws :: bool

definition CONNECTING :: nat where "CONNECTING = 0"
definition OPEN :: nat where "OPEN = 1"
definition CLOSING :: nat where "CLOSING = 2"

text \<open>
  What a handler did to the outside, in program order: the records it created, the
  statistics it wrote, the calls of \<open>broadcast\<close> and of the e-mail service. The list is
  only written, never read, by the model of the code.
\<close>

datatype effect =
    CreatePhishingAnalysis int
  | CreateDeepfakeAnalysis int
  | CreateThreat int
  | CreateAlert int
  | CreateHoneypotLog int
  | UpdateSystemStats SystemStats
  | Broadcast message
  | SendAttackAlert EmailAlertData

text \<open>
  The state of a server process: the fields of the storage object, the set of
  connected sockets (a \<open>Set\<close>, in insertion order, each socket under a handle), the
  clock that \<open>new Date()\<close> reads, and the effects so far.
\<close>

record server =
  threats :: "Threat jsmap"
  phishingAnalyses :: "PhishingAnalysis jsmap"
  deepfakeAnalyses :: "DeepfakeAnalysis jsmap"
  honeypotLogs :: "HoneypotLog jsmap"
  alerts :: "Alert jsmap"
  systemStats :: "SystemStats option"
  currentThreatId :: int
  currentPhishingId :: int
  currentDeepfakeId :: int
  currentHoneypotId :: int
  currentAlertId :: int
  wsClients :: "(nat \<times> WebSocket) list"
  now :: nat
  history :: "effect list"

section \<open>MemStorage (server/storage.ts)\<close>

text \<open>The constructor; the argument is the time at which the process starts.\<close>

definition MemStorage_constructor :: "nat \<Rightarrow> server" where
  "MemStorage_constructor t =
     \<lparr>threats = [], phishingAnalyses = [], deepfakeAnalyses = [], honeypotLogs = [],
      alerts = [],
      systemStats = Some \<lparr>stats_id = 1, activeThreats = 7, phishingBlocked = 142,
        deepfakesDetected = 23, honeypotHits = 89, updatedAt = t\<rparr>,
      currentThreatId = 1, currentPhishingId = 1, currentDeepfakeId = 1,
      currentHoneypotId = 1, currentAlertId = 1,
      wsClients = [], now = t, history = []\<rparr>"

definition MemStorage_createThreat :: "server \<Rightarrow> InsertThreat \<Rightarrow> server \<times> Threat" where
  "MemStorage_createThreat s insertThreat =
     (let threat = \<lparr>threat_id = currentThreatId s,
            threat_type = new_threat_type insertThreat,
            threat_severity = new_threat_severity insertThreat,
            threat_source = new_threat_source insertThreat,
            threat_description = new_threat_description insertThreat,
            threat_metadata = or_null (new_threat_metadata insertThreat),
            threat_status = (case str_or_null (new_threat_status insertThreat) of
                               None \<Rightarrow> ''active'' | Some st \<Rightarrow> st),
            threat_detectedAt = now s\<rparr>
      in (s\<lparr>currentThreatId := currentThreatId s + 1,
            threats := map_set (threat_id threat) threat (threats s),
            history := history s @ [CreateThreat (threat_id threat)]\<rparr>, threat))"

definition MemStorage_createPhishingAnalysis ::
  "server \<Rightarrow> InsertPhishingAnalysis \<Rightarrow> server \<times> PhishingAnalysis" where
  "MemStorage_createPhishingAnalysis s insertAnalysis =
     (let analysis = \<lparr>phishing_id = currentPhishingId s,
            phishing_content = new_phishing_content insertAnalysis,
            phishing_score = new_phishing_score insertAnalysis,
            phishing_confidence = new_phishing_confidence insertAnalysis,
            phishing_suspiciousLinks =
              (case new_phishing_suspiciousLinks insertAnalysis of None \<Rightarrow> 0 | Some n \<Rightarrow> n),
            phishing_indicators = new_phishing_indicators insertAnalysis,
            phishing_analyzedAt = now s\<rparr>
      in (s\<lparr>currentPhishingId := currentPhishingId s + 1,
            phishingAnalyses := map_set (phishing_id analysis) analysis (phishingAnalyses s),
            history := history s @ [CreatePhishingAnalysis (phishing_id analysis)]\<rparr>,
          analysis))"

definition MemStorage_createDeepfakeAnalysis ::
  "server \<Rightarrow> InsertDeepfakeAnalysis \<Rightarrow> server \<times> DeepfakeAnalysis" where
  "MemStorage_createDeepfakeAnalysis s insertAnalysis =
     (let analysis = \<lparr>deepfake_id = currentDeepfakeId s,
            deepfake_fileName = new_deepfake_fileName insertAnalysis,
            deepfake_fileType = new_deepfake_fileType insertAnalysis,
            deepfake_fileSize = new_deepfake_fileSize insertAnalysis,
            deepfake_isDeepfake = new_deepfake_isDeepfake insertAnalysis,
            deepfake_confidence = new_deepfake_confidence insertAnalysis,
            deepfake_processingTime = new_deepfake_processingTime insertAnalysis,
            deepfake_anomalies = new_deepfake_anomalies insertAnalysis,
            deepfake_analyzedAt = now s\<rparr>
      in (s\<lparr>currentDeepfakeId := currentDeepfakeId s + 1,
            deepfakeAnalyses := map_set (deepfake_id analysis) analysis (deepfakeAnalyses s),
            history := history s @ [CreateDeepfakeAnalysis (deepfake_id analysis)]\<rparr>,
          analysis))"

definition MemStorage_createHoneypotLog ::
  "server \<Rightarrow> InsertHoneypotLog \<Rightarrow> server \<times> HoneypotLog" where
  "MemStorage_createHoneypotLog s insertLog =
     (let log = \<lparr>log_id = currentHoneypotId s,
            log_service = new_log_service insertLog,
            log_sourceIp = new_log_sourceIp insertLog,
            log_attackType = new_log_attackType insertLog,
            log_severity = new_log_severity insertLog,
            log_port = new_log_port insertLog,
            log_payload = str_or_null (new_log_payload insertLog),
            log_location = or_null (new_log_location insertLog),
            log_detectedAt = now s\<rparr>
      in (s\<lparr>currentHoneypotId := currentHoneypotId s + 1,
            honeypotLogs := map_set (log_id log) log (honeypotLogs s),
            history := history s @ [CreateHoneypotLog (log_id log)]\<rparr>, log))"

definition MemStorage_createAlert :: "server \<Rightarrow> InsertAlert \<Rightarrow> server \<times> Alert" where
  "MemStorage_createAlert s insertAlert =
     (let alert = \<lparr>alert_id = currentAlertId s,
            alert_title = new_alert_title insertAlert,
            alert_description = new_alert_description insertAlert,
            alert_severity = new_alert_severity insertAlert,
            alert_category = new_alert_category insertAlert,
            alert_isRead = (case new_alert_isRead insertAlert of None \<Rightarrow> False | Some b \<Rightarrow> b),
            alert_metadata = or_null (new_alert_metadata insertAlert),
            alert_createdAt = now s\<rparr>
      in (s\<lparr>currentAlertId := currentAlertId s + 1,
            alerts := map_set (alert_id alert) alert (alerts s),
            history := history s @ [CreateAlert (alert_id alert)]\<rparr>, alert))"

definition MemStorage_markAlertAsRead :: "server \<Rightarrow> int \<Rightarrow> server" where
  "MemStorage_markAlertAsRead s i =
     (case map_get (alerts s) i of
        Some alert \<Rightarrow> s\<lparr>alerts := map_set i (alert\<lparr>alert_isRead := True\<rparr>) (alerts s)\<rparr>
      | None \<Rightarrow> s)"

definition MemStorage_markAllAlertsAsRead :: "server \<Rightarrow> server" where
  "MemStorage_markAllAlertsAsRead s =
     fold (\<lambda>alert s'. s'\<lparr>alerts :=
               map_set (alert_id alert) (alert\<lparr>alert_isRead := True\<rparr>) (alerts s')\<rparr>)
       (map_values (alerts s)) s"

record AlertCounts =
  critical :: nat
  high :: nat
  medium :: nat
  low :: nat

definition MemStorage_getAlertCounts :: "server \<Rightarrow> AlertCounts" where
  "MemStorage_getAlertCounts s =
     (let unreadAlerts = filter (\<lambda>alert. \<not> alert_isRead alert) (map_values (alerts s))
      in \<lparr>critical = length (filter (\<lambda>alert. alert_severity alert = ''critical'') unreadAlerts),
          high = length (filter (\<lambda>alert. alert_severity alert = ''high'') unreadAlerts),
          medium = length (filter (\<lambda>alert. alert_severity alert = ''medium'') unreadAlerts),
          low = length (filter (\<lambda>alert. alert_severity alert = ''low'') unreadAlerts)\<rparr>)"

definition MemStorage_getSystemStats :: "server \<Rightarrow> SystemStats option" where
  "MemStorage_getSystemStats s = systemStats s"

text \<open>The object spread \<open>{...base, ...stats}\<close>: a property of \<open>stats\<close> that is present wins.\<close>

definition spread_stats :: "SystemStats \<Rightarrow> PartialSystemStats \<Rightarrow> SystemStats" where
  "spread_stats base stats =
     base\<lparr>activeThreats :=
            (case set_activeThreats stats of None \<Rightarrow> activeThreats base | Some n \<Rightarrow> n),
          phishingBlocked :=
            (case set_phishingBlocked stats of None \<Rightarrow> phishingBlocked base | Some n \<Rightarrow> n),
          deepfakesDetected :=
            (case set_deepfakesDetected stats of None \<Rightarrow> deepfakesDetected base | Some n \<Rightarrow> n),
          honeypotHits :=
            (case set_honeypotHits stats of None \<Rightarrow> honeypotHits base | Some n \<Rightarrow> n)\<rparr>"

definition MemStorage_updateSystemStats ::
  "server \<Rightarrow> PartialSystemStats \<Rightarrow> server \<times> SystemStats" where
  "MemStorage_updateSystemStats s stats =
     (let st = (case systemStats s of
                  Some cur \<Rightarrow> (spread_stats cur stats)\<lparr>updatedAt := now s\<rparr>
                | None \<Rightarrow>
                    (spread_stats \<lparr>stats_id = 1, activeThreats = 0, phishingBlocked = 0,
                       deepfakesDetected = 0, honeypotHits = 0, updatedAt = now s\<rparr> stats)
                    \<lparr>updatedAt := now s\<rparr>)
      in (s\<lparr>systemStats := Some st, history := history s @ [UpdateSystemStats st]\<rparr>, st))"

section \<open>The routes of the TypeScript server (server/routes.ts)\<close>

text \<open>How a statement ends: it returns, or an exception leaves it.\<close>

datatype completion = Returns | Throws

text \<open>
  \<open>wsClients.forEach(client => { if (client.readyState === WebSocket.OPEN)
  client.send(JSON.stringify(data)) })\<close>. There is no \<open>try\<close> around \<open>send\<close>: an exception
  leaves the loop, and the sockets after the throwing one are not visited.
\<close>

fun forEach_send ::
  "(nat \<times> WebSocket) list \<Rightarrow> message \<Rightarrow> (nat \<times> WebSocket) list \<times> completion" where
  "forEach_send [] data = ([], Returns)"
| "forEach_send ((h, client) # rest) data =
     (if readyState client = OPEN then
        (if send_throws client then ((h, client) # rest, Throws)
         else (case forEach_send rest data of
                 (rest', c) \<Rightarrow> ((h, client\<lparr>sent := sent client @ [data]\<rparr>) # rest', c)))
      else (case forEach_send rest data of (rest', c) \<Rightarrow> ((h, client) # rest', c)))"

definition broadcast :: "server \<Rightarrow> message \<Rightarrow> server \<times> completion" where
  "broadcast s data =
     (case forEach_send (wsClients s) data of
        (clients, c) \<Rightarrow> (s\<lparr>wsClients := clients, history := history s @ [Broadcast data]\<rparr>, c))"

text \<open>
  \<open>wss.on('connection', ...)\<close> adds the socket to the set and registers the \<open>close\<close>
  listener, which deletes it. A \<open>Set\<close> keeps one copy of a member.
\<close>

definition on_connection :: "server \<Rightarrow> nat \<Rightarrow> WebSocket \<Rightarrow> server" where
  "on_connection s h ws =
     (if h \<in> fst ` set (wsClients s) then s else s\<lparr>wsClients := wsClients s @ [(h, ws)]\<rparr>)"

definition on_close :: "server \<Rightarrow> nat \<Rightarrow> server" where
  "on_close s h = s\<lparr>wsClients := filter (\<lambda>(h', ws). h' \<noteq> h) (wsClients s)\<rparr>"

text \<open>
  The detectors are called with the request's data and their result is used as it
  comes: the result is an argument of the route. The phishing detectors come after the
  routes; the detectors of deepfakes compute with random floating-point numbers, which
  the model does not have, and are not embedded.
\<close>

record PhishingDetectionResult =
  score :: real
  confidence :: real
  suspiciousLinks :: int
  indicators :: "string list"

record DeepfakeDetectionResult =
  isDeepfake :: bool
  detection_confidence :: real
  processingTime :: real
  anomalies :: "string list"

text \<open>\<open>req.file\<close> of the upload middleware (the buffer goes to the detector only).\<close>

record UploadedFile =
  originalname :: string
  mimetype :: string
  file_size :: int

text \<open>
  What a route answers: \<open>res.json(...)\<close> with the value given, or
  \<open>res.status(n).json({message: ...})\<close>.
\<close>

datatype response =
    JsonPhishingResult PhishingDetectionResult
  | JsonDeepfakeResult DeepfakeDetectionResult
  | JsonSuccess
  | JsonPhishingAnalysis PhishingAnalysis PhishingDetectionResult
  | JsonDeepfakeAnalysis DeepfakeAnalysis DeepfakeDetectionResult
  | Status nat string

subsection \<open>POST /api/analyze/email\<close>

text \<open>The object literals of the route, each under a name.\<close>

definition email_analysis :: "string \<Rightarrow> PhishingDetectionResult \<Rightarrow> InsertPhishingAnalysis" where
  "email_analysis content result =
     \<lparr>new_phishing_content = content, new_phishing_score = score result,
      new_phishing_confidence = confidence result,
      new_phishing_suspiciousLinks = Some (suspiciousLinks result),
      new_phishing_indicators = Some (indicators result)\<rparr>"

definition email_threat :: "PhishingDetectionResult \<Rightarrow> PhishingAnalysis \<Rightarrow> InsertThreat" where
  "email_threat result analysis =
     \<lparr>new_threat_type = ''phishing'',
      new_threat_severity = (if score result \<ge> 90 then ''critical'' else ''high''),
      new_threat_source = ''email_analysis'',
      new_threat_description =
        [Lit ''High-risk phishing email detected with '', Num (score result),
         Lit ''% confidence''],
      new_threat_metadata = Some (JObj
        [(''analysisId'', JNum (of_int (phishing_id analysis))),
         (''indicators'', JArr (map JStr (indicators result)))]),
      new_threat_status = Some ''active''\<rparr>"

definition email_alert ::
  "PhishingDetectionResult \<Rightarrow> PhishingAnalysis \<Rightarrow> Threat \<Rightarrow> InsertAlert" where
  "email_alert result analysis threat =
     \<lparr>new_alert_title = ''High-Risk Phishing Email Detected'',
      new_alert_description =
        [Lit ''Suspicious email content with '', Num (score result),
         Lit ''% phishing probability''],
      new_alert_severity = threat_severity threat,
      new_alert_category = ''email'',
      new_alert_isRead = Some False,
      new_alert_metadata = Some (JObj
        [(''threatId'', JNum (of_int (threat_id threat))),
         (''analysisId'', JNum (of_int (phishing_id analysis)))])\<rparr>"

definition email_stats :: "SystemStats \<Rightarrow> PartialSystemStats" where
  "email_stats stats =
     no_stats\<lparr>set_phishingBlocked := Some (phishingBlocked stats + 1),
              set_activeThreats := Some (activeThreats stats + 1)\<rparr>"

text \<open>
  The route. \<open>content\<close> is \<open>req.body.content\<close>: any JSON value, or absent. An exception
  of \<open>broadcast\<close> reaches the \<open>catch\<close> of the route, which answers 500.
\<close>

definition analyze_email ::
  "server \<Rightarrow> json option \<Rightarrow> PhishingDetectionResult \<Rightarrow> server \<times> response" where
  "analyze_email s content result =
     (case content of
        Some (JStr c) \<Rightarrow>
          if c = [] then (s, Status 400 ''Email content is required'')
          else
            (case MemStorage_createPhishingAnalysis s (email_analysis c result) of
               (s1, analysis) \<Rightarrow>
                 if score result \<ge> 70 then
                   (case MemStorage_createThreat s1 (email_threat result analysis) of
                      (s2, threat) \<Rightarrow>
                        (case MemStorage_createAlert s2 (email_alert result analysis threat) of
                           (s3, alert) \<Rightarrow>
                             (case broadcast s3 (NewAlert alert threat) of
                                (s4, Throws) \<Rightarrow> (s4, Status 500 ''Failed to analyze email'')
                              | (s4, Returns) \<Rightarrow>
                                  (case MemStorage_getSystemStats s4 of
                                     Some stats \<Rightarrow>
                                       (fst (MemStorage_updateSystemStats s4 (email_stats stats)),
                                        JsonPhishingResult result)
                                   | None \<Rightarrow> (s4, JsonPhishingResult result)))))
                 else (s1, JsonPhishingResult result))
      | _ \<Rightarrow> (s, Status 400 ''Email content is required''))"

subsection \<open>POST /api/analyze/deepfake\<close>

definition startsWith :: "string \<Rightarrow> string \<Rightarrow> bool" where
  "startsWith str p = (take (length p) str = p)"

definition media_analysis :: "UploadedFile \<Rightarrow> DeepfakeDetectionResult \<Rightarrow> InsertDeepfakeAnalysis" where
  "media_analysis f result =
     \<lparr>new_deepfake_fileName = JStr (originalname f), new_deepfake_fileType = mimetype f,
      new_deepfake_fileSize = file_size f,
      new_deepfake_isDeepfake = isDeepfake result,
      new_deepfake_confidence = detection_confidence result,
      new_deepfake_processingTime = processingTime result,
      new_deepfake_anomalies = Some (anomalies result)\<rparr>"

definition media_threat :: "DeepfakeDetectionResult \<Rightarrow> DeepfakeAnalysis \<Rightarrow> InsertThreat" where
  "media_threat result analysis =
     \<lparr>new_threat_type = ''deepfake'',
      new_threat_severity =
        (if detection_confidence result \<ge> 95 then ''critical'' else ''high''),
      new_threat_source = ''media_analysis'',
      new_threat_description =
        [Lit ''Deepfake content detected with '', Num (detection_confidence result),
         Lit ''% confidence''],
      new_threat_metadata = Some (JObj
        [(''analysisId'', JNum (of_int (deepfake_id analysis))),
         (''anomalies'', JArr (map JStr (anomalies result)))]),
      new_threat_status = Some ''active''\<rparr>"

definition media_alert ::
  "DeepfakeDetectionResult \<Rightarrow> DeepfakeAnalysis \<Rightarrow> Threat \<Rightarrow> InsertAlert" where
  "media_alert result analysis threat =
     \<lparr>new_alert_title = ''Deepfake Content Detected'',
      new_alert_description =
        [Lit ''AI-generated media detected with '', Num (detection_confidence result),
         Lit ''% confidence level''],
      new_alert_severity = threat_severity threat,
      new_alert_category = ''media'',
      new_alert_isRead = Some False,
      new_alert_metadata = Some (JObj
        [(''threatId'', JNum (of_int (threat_id threat))),
         (''analysisId'', JNum (of_int (deepfake_id analysis)))])\<rparr>"

definition media_stats :: "SystemStats \<Rightarrow> PartialSystemStats" where
  "media_stats stats =
     no_stats\<lparr>set_deepfakesDetected := Some (deepfakesDetected stats + 1),
              set_activeThreats := Some (activeThreats stats + 1)\<rparr>"

text \<open>
  The route. \<open>result\<close> is what \<open>analyzeImage\<close> (for \<open>image/\<close>) or \<open>analyzeVideo\<close> (for
  \<open>video/\<close>) returned.
\<close>

definition analyze_deepfake ::
  "server \<Rightarrow> UploadedFile option \<Rightarrow> DeepfakeDetectionResult \<Rightarrow> server \<times> response" where
  "analyze_deepfake s file result =
     (case file of
        None \<Rightarrow> (s, Status 400 ''File is required'')
      | Some f \<Rightarrow>
          if \<not> startsWith (mimetype f) ''image/'' \<and> \<not> startsWith (mimetype f) ''video/''
          then (s, Status 400 ''Unsupported file type'')
          else
            (case MemStorage_createDeepfakeAnalysis s (media_analysis f result) of
               (s1, analysis) \<Rightarrow>
                 if isDeepfake result \<and> detection_confidence result \<ge> 80 then
                   (case MemStorage_createThreat s1 (media_threat result analysis) of
                      (s2, threat) \<Rightarrow>
                        (case MemStorage_createAlert s2 (media_alert result analysis threat) of
                           (s3, alert) \<Rightarrow>
                             (case broadcast s3 (NewAlert alert threat) of
                                (s4, Throws) \<Rightarrow> (s4, Status 500 ''Failed to analyze file'')
                              | (s4, Returns) \<Rightarrow>
                                  (case MemStorage_getSystemStats s4 of
                                     Some stats \<Rightarrow>
                                       (fst (MemStorage_updateSystemStats s4 (media_stats stats)),
                                        JsonDeepfakeResult result)
                                   | None \<Rightarrow> (s4, JsonDeepfakeResult result)))))
                 else (s1, JsonDeepfakeResult result)))"

subsection \<open>The other routes and the timer\<close>

text \<open>
  \<open>app.patch('/api/alerts/:id/read')\<close> and \<open>app.patch('/api/alerts/read-all')\<close>. The
  argument is what \<open>parseInt\<close> made of the path parameter; \<open>None\<close> is \<open>NaN\<close>, which is the
  key of no alert.
\<close>

definition alerts_read :: "server \<Rightarrow> int option \<Rightarrow> server \<times> response" where
  "alerts_read s i =
     (case i of
        Some n \<Rightarrow> (MemStorage_markAlertAsRead s n, JsonSuccess)
      | None \<Rightarrow> (s, JsonSuccess))"

definition alerts_read_all :: "server \<Rightarrow> server \<times> response" where
  "alerts_read_all s = (MemStorage_markAllAlertsAsRead s, JsonSuccess)"

text \<open>
  The timer of \<open>setInterval(..., 30000)\<close>: broadcast the statistics. An exception of
  \<open>broadcast\<close> is caught and logged.
\<close>

definition stats_tick :: "server \<Rightarrow> server" where
  "stats_tick s =
     (case MemStorage_getSystemStats s of
        Some stats \<Rightarrow> fst (broadcast s (StatsUpdate stats))
      | None \<Rightarrow> s)"

section \<open>The phishing detector of the TypeScript server (server/ml/phishing-detector.ts)\<close>

text \<open>
  Strings are lists of 8-bit characters and \<open>toLowerCase\<close> works on the ASCII letters:
  the detector is modelled on texts of ASCII characters. It counts in whole numbers,
  which are exact.
\<close>

definition lower_char :: "char \<Rightarrow> char" where
  "lower_char c =
     (case map_of (zip ''ABCDEFGHIJKLMNOPQRSTUVWXYZ'' ''abcdefghijklmnopqrstuvwxyz'') c of
        Some l \<Rightarrow> l | None \<Rightarrow> c)"

definition toLowerCase :: "string \<Rightarrow> string" where
  "toLowerCase str = map lower_char str"

text \<open>\<open>String.prototype.includes\<close>.\<close>

fun str_includes :: "string \<Rightarrow> string \<Rightarrow> bool" where
  "str_includes [] p = (p = [])"
| "str_includes (c # cs) p = (startsWith (c # cs) p \<or> str_includes cs p)"

definition phishingKeywords :: "string list" where
  "phishingKeywords =
     [''urgent'', ''verify'', ''suspend'', ''click here'', ''act now'', ''limited time'',
      ''confirm identity'', ''update payment'', ''security alert'', ''account locked'',
      ''winner'', ''congratulations'', ''claim now'', ''free'', ''prize'']"

definition urgentPhrases :: "string list" where
  "urgentPhrases =
     [''immediate action required'', ''within 24 hours'', ''expires today'',
      ''act immediately'', ''time sensitive'', ''last chance'']"

definition suspiciousDomains :: "string list" where
  "suspiciousDomains =
     [''bit.ly'', ''tinyurl.com'', ''shortened.link'', ''temp-mail.org'',
      ''fake-bank.com'', ''secure-verify.net'', ''phishing.net'']"

text \<open>\<open>Array.prototype.join\<close>.\<close>

fun join :: "string list \<Rightarrow> string \<Rightarrow> string" where
  "join [] sep = []"
| "join [x] sep = x"
| "join (x # y # ys) sep = x @ sep @ join (y # ys) sep"

text \<open>
  \<open>str.match(re)\<close> for a regular expression with the flag \<open>g\<close>: the matches from left to
  right, each search starting where the last match ended. The expression is given as
  a function that tells how long its match at the start of a text is, if there is
  one; no expression here matches the empty text. \<open>k\<close> counts the characters of the
  last match that are still to be skipped.
\<close>

fun matches_from :: "(string \<Rightarrow> nat option) \<Rightarrow> nat \<Rightarrow> string \<Rightarrow> string list" where
  "matches_from re k [] = []"
| "matches_from re k (c # cs) =
     (if k > 0 then matches_from re (k - 1) cs
      else (case re (c # cs) of
              Some n \<Rightarrow> take n (c # cs) # matches_from re (n - 1) cs
            | None \<Rightarrow> matches_from re 0 cs))"

definition match_all :: "string \<Rightarrow> (string \<Rightarrow> nat option) \<Rightarrow> string list" where
  "match_all str re = matches_from re 0 str"

text \<open>
  \<open>/(bit\.ly|tinyurl|t\.co|goo\.gl|short\.link)/gi\<close>: the first alternative that fits,
  its letters in either case.
\<close>

fun fits_ignoring_case :: "string \<Rightarrow> string \<Rightarrow> bool" where
  "fits_ignoring_case [] str = True"
| "fits_ignoring_case (p # ps) [] = False"
| "fits_ignoring_case (p # ps) (c # cs) =
     (if lower_char c = p then fits_ignoring_case ps cs else False)"

definition urlShortenerPattern :: "string \<Rightarrow> nat option" where
  "urlShortenerPattern str =
     map_option length
       (find (\<lambda>alternative. fits_ignoring_case alternative str)
          [''bit.ly'', ''tinyurl'', ''t.co'', ''goo.gl'', ''short.link''])"

definition extractSuspiciousLinks :: "string \<Rightarrow> nat" where
  "extractSuspiciousLinks content =
     (let count = 0;
          count = foldl (\<lambda>count domain.
                     if str_includes (toLowerCase content) domain then count + 1 else count)
                   count suspiciousDomains;
          matches = match_all content urlShortenerPattern
      in count + length matches)"

text \<open>
  \<open>content.split(/[.!?]+/)\<close>: the pieces between the runs of separators; \<open>prev\<close> tells
  that the character before was a separator.
\<close>

fun split_runs :: "(char \<Rightarrow> bool) \<Rightarrow> bool \<Rightarrow> string \<Rightarrow> string list" where
  "split_runs sep prev [] = [[]]"
| "split_runs sep prev (c # cs) =
     (if sep c then (if prev then split_runs sep True cs else [] # split_runs sep True cs)
      else (case split_runs sep False cs of
              p # ps \<Rightarrow> (c # p) # ps
            | [] \<Rightarrow> [[c]]))"

text \<open>The class \<open>\s\<close> among the 8-bit characters, and the ASCII letters.\<close>

definition is_space :: "char \<Rightarrow> bool" where
  "is_space c =
     (c \<in> set [CHR '' '', CHR 0x09, CHR 0x0A, CHR 0x0B, CHR 0x0C, CHR 0x0D, CHR 0xA0])"

definition is_lower :: "char \<Rightarrow> bool" where
  "is_lower c = (c \<in> set ''abcdefghijklmnopqrstuvwxyz'')"

definition is_upper :: "char \<Rightarrow> bool" where
  "is_upper c = (c \<in> set ''ABCDEFGHIJKLMNOPQRSTUVWXYZ'')"

text \<open>
  \<open>/\s{2,}/\<close> and \<open>/[a-z][A-Z]/\<close> match where two characters in a row are of the given
  kinds.
\<close>

fun adjacent :: "(char \<Rightarrow> bool) \<Rightarrow> (char \<Rightarrow> bool) \<Rightarrow> string \<Rightarrow> bool" where
  "adjacent P Q (a # b # cs) = (P a \<and> Q b \<or> adjacent P Q (b # cs))"
| "adjacent P Q cs = False"

definition sentence_issues :: "string \<Rightarrow> nat" where
  "sentence_issues sentence =
     (if str_includes sentence '' i '' \<and> \<not> str_includes sentence '' I '' then 1 else 0) +
     (if adjacent is_space is_space sentence then 1 else 0) +
     (if adjacent is_lower is_upper sentence then 1 else 0)"

definition hasPoorGrammar :: "string \<Rightarrow> bool" where
  "hasPoorGrammar content =
     (let sentences = split_runs (\<lambda>c. c \<in> set ''.!?'') False content;
          issues = sum_list (map sentence_issues sentences)
      in issues > 2)"

definition hasFakeSender :: "string \<Rightarrow> bool" where
  "hasFakeSender content =
     list_ex (\<lambda>pattern. str_includes (toLowerCase content) pattern)
       [''fake-bank'', ''secure-verify'', ''account-update'',
        ''security-alert'', ''urgent-notice'', ''verify-account'']"

text \<open>\<open>PhishingDetector.analyzeEmail\<close>: the score and the indicators grow check by check.\<close>

definition analyzeEmail :: "string \<Rightarrow> PhishingDetectionResult" where
  "analyzeEmail content =
     (let lowerContent = toLowerCase content;
          keywordMatches =
            filter (\<lambda>keyword. str_includes lowerContent (toLowerCase keyword)) phishingKeywords;
          (score, indicators) =
            (if length keywordMatches > 0
             then (real (length keywordMatches) * 15,
                   [''Suspicious keywords detected: '' @ join keywordMatches '', ''])
             else (0, []));
          urgentMatches =
            filter (\<lambda>phrase. str_includes lowerContent (toLowerCase phrase)) urgentPhrases;
          (score, indicators) =
            (if length urgentMatches > 0
             then (score + real (length urgentMatches) * 25,
                   indicators @ [''Urgent language patterns detected''])
             else (score, indicators));
          suspiciousLinks = extractSuspiciousLinks content;
          (score, indicators) =
            (if suspiciousLinks > 0
             then (score + real suspiciousLinks * 20,
                   indicators @ [''Suspicious URL redirects found''])
             else (score, indicators));
          (score, indicators) =
            (if hasPoorGrammar content
             then (score + 10, indicators @ [''Poor grammar or spelling detected''])
             else (score, indicators));
          (score, indicators) =
            (if hasFakeSender content
             then (score + 30, indicators @ [''Suspicious sender domain detected''])
             else (score, indicators));
          score = min score 100;
          confidence = min (70 + real (length indicators) * 8) 99
      in \<lparr>score = score, confidence = confidence,
          suspiciousLinks = int suspiciousLinks, indicators = indicators\<rparr>)"

section \<open>The honeypot manager of the TypeScript server (server/honeypot/services.ts)\<close>

text \<open>Reading a property of an object; \<open>None\<close> is \<open>undefined\<close>.\<close>

fun get_prop :: "json \<Rightarrow> string \<Rightarrow> json option" where
  "get_prop (JObj kvs) k = map_of kvs k"
| "get_prop j k = None"

text \<open>
  \<open>location?.country || 'Unknown'\<close>. The geolocation service types \<open>country\<close> and \<open>city\<close>
  as strings; a value of another type counts as absent here.
\<close>

definition str_prop_or :: "json \<Rightarrow> string \<Rightarrow> string \<Rightarrow> string" where
  "str_prop_or j k d = (case get_prop j k of Some (JStr v) \<Rightarrow> (if v = [] then d else v) | _ \<Rightarrow> d)"

text \<open>\<open>parseInt(attack.payload?.match(/\d+/)?.[0] || '1')\<close>: the first run of digits, or 1.\<close>

definition is_digit :: "char \<Rightarrow> bool" where
  "is_digit c = (c \<in> set ''0123456789'')"

definition first_digits :: "string \<Rightarrow> string" where
  "first_digits str = takeWhile is_digit (dropWhile (\<lambda>c. \<not> is_digit c) str)"

definition digit_value :: "char \<Rightarrow> int" where
  "digit_value c =
     (case map_of (zip ''0123456789'' [0, 1, 2, 3, 4, 5, 6, 7, 8, 9]) c of
        Some d \<Rightarrow> d | None \<Rightarrow> 0)"

definition parseInt_digits :: "string \<Rightarrow> int" where
  "parseInt_digits ds = foldl (\<lambda>n c. 10 * n + digit_value c) 0 ds"

text \<open>
  A run of up to 15 digits is a number below \<open>2 ^ 53\<close>, which \<open>parseInt\<close> gives exactly.
  A longer run is rounded by the runtime; the model does not compute it and answers
  \<open>None\<close>.
\<close>

definition payload_attempts :: "string option \<Rightarrow> int option" where
  "payload_attempts p =
     (case p of
        None \<Rightarrow> Some 1
      | Some str \<Rightarrow>
          (if first_digits str = [] then Some 1
           else if length (first_digits str) \<le> 15 then Some (parseInt_digits (first_digits str))
           else None))"

text \<open>
  \<open>EmailAlertService.sendAttackAlert\<close>: without an API key the e-mail is only printed and
  the result is \<open>true\<close>; with one, the result tells whether the mail service took the
  message. It never throws.
\<close>

datatype mail = NotConfigured | Accepted | Rejected

definition sendAttackAlert :: "server \<Rightarrow> EmailAlertData \<Rightarrow> mail \<Rightarrow> server \<times> bool" where
  "sendAttackAlert s alertData m =
     (s\<lparr>history := history s @ [SendAttackAlert alertData]\<rparr>, m \<noteq> Rejected)"

text \<open>The object literals of \<open>logAttack\<close>.\<close>

definition attack_log :: "HoneypotAttack \<Rightarrow> json \<Rightarrow> InsertHoneypotLog" where
  "attack_log attack location =
     \<lparr>new_log_service = service attack, new_log_sourceIp = sourceIp attack,
      new_log_attackType = attackType attack, new_log_severity = severity attack,
      new_log_port = port attack,
      new_log_payload = Some (case payload attack of None \<Rightarrow> [] | Some p \<Rightarrow> p),
      new_log_location = Some location\<rparr>"

definition attack_email :: "HoneypotAttack \<Rightarrow> json \<Rightarrow> nat \<Rightarrow> EmailAlertData" where
  "attack_email attack location t =
     \<lparr>attackerIp = sourceIp attack,
      country = str_prop_or location ''country'' ''Unknown'',
      city = str_prop_or location ''city'' ''Unknown'',
      email_attackType = attackType attack,
      email_timestamp = t,
      attempts = payload_attempts (payload attack)\<rparr>"

definition hits_stats :: "SystemStats \<Rightarrow> PartialSystemStats" where
  "hits_stats stats = no_stats\<lparr>set_honeypotHits := Some (honeypotHits stats + 1)\<rparr>"

text \<open>
  \<open>HoneypotManager.logAttack\<close>. \<open>location\<close> is what the geolocation service returned
  (\<open>JNull\<close> when it failed), \<open>m\<close> what the mail service will do. The method is given in
  two parts: up to \<open>await emailAlertService.sendAttackAlert(emailData)\<close>, and from there
  on. With an API key that \<open>await\<close> waits for the network, and other handlers run before
  the second part; \<open>sendAttackAlert\<close> never throws, so the second part always follows.
\<close>

definition logAttack_until_mail :: "server \<Rightarrow> HoneypotAttack \<Rightarrow> json \<Rightarrow> mail \<Rightarrow> server" where
  "logAttack_until_mail s attack location m =
     (case MemStorage_createHoneypotLog s (attack_log attack location) of
        (s1, honeypotLog) \<Rightarrow>
          (if service attack = ''ssh'' \<and>
              (severity attack = ''high'' \<or> severity attack = ''critical'')
           then fst (sendAttackAlert s1 (attack_email attack location (now s1)) m)
           else s1))"

definition logAttack_after_mail :: "server \<Rightarrow> server" where
  "logAttack_after_mail s =
     (case MemStorage_getSystemStats s of
        Some stats \<Rightarrow> fst (MemStorage_updateSystemStats s (hits_stats stats))
      | None \<Rightarrow> s)"

text \<open>The whole method, when nothing runs between its two parts.\<close>

definition logAttack :: "server \<Rightarrow> HoneypotAttack \<Rightarrow> json \<Rightarrow> mail \<Rightarrow> server" where
  "logAttack s attack location m = logAttack_after_mail (logAttack_until_mail s attack location m)"

text \<open>\<open>toUpperCase\<close>, on the ASCII letters.\<close>

definition upper_char :: "char \<Rightarrow> char" where
  "upper_char c =
     (case map_of (zip ''abcdefghijklmnopqrstuvwxyz'' ''ABCDEFGHIJKLMNOPQRSTUVWXYZ'') c of
        Some u \<Rightarrow> u | None \<Rightarrow> c)"

definition toUpperCase :: "string \<Rightarrow> string" where
  "toUpperCase str = map upper_char str"

definition attack_json :: "HoneypotAttack \<Rightarrow> json" where
  "attack_json attack =
     JObj ([(''service'', JStr (service attack)), (''sourceIp'', JStr (sourceIp attack)),
            (''attackType'', JStr (attackType attack)), (''severity'', JStr (severity attack)),
            (''port'', JNum (of_int (port attack)))] @
           (case payload attack of None \<Rightarrow> [] | Some p \<Rightarrow> [(''payload'', JStr p)]))"

definition attack_alert :: "HoneypotAttack \<Rightarrow> InsertAlert" where
  "attack_alert attack =
     \<lparr>new_alert_title = toUpperCase (service attack) @ '' Honeypot Attack'',
      new_alert_description = [Lit (attackType attack @ '' from IP '' @ sourceIp attack)],
      new_alert_severity = severity attack,
      new_alert_category = ''honeypot'',
      new_alert_isRead = Some False,
      new_alert_metadata = Some (JObj [(''attack'', attack_json attack)])\<rparr>"

text \<open>
  The listener of \<open>routes.ts\<close>: \<open>honeypotManager.on('attack', async (attack) => ...)\<close>.
  It looks at the severity only.
\<close>

definition on_attack :: "server \<Rightarrow> HoneypotAttack \<Rightarrow> server \<times> completion" where
  "on_attack s attack =
     (if severity attack = ''high'' \<or> severity attack = ''critical'' then
        (case MemStorage_createAlert s (attack_alert attack) of
           (s1, alert) \<Rightarrow> broadcast s1 (HoneypotAttackMsg attack (Some alert)))
      else broadcast s (HoneypotAttackMsg attack None))"

text \<open>
  What \<open>simulateSSHAttack\<close>, \<open>simulateHTTPAttack\<close> and \<open>simulateFTPAttack\<close> do with the
  attack they made up: \<open>await this.logAttack(attack); this.emit('attack', attack)\<close>. An
  exception of \<open>broadcast\<close> in the listener is a rejected promise that nobody handles;
  the store stays as the listener left it. \<open>submitHoneypotAttack\<close> is the whole of it when
  nothing runs in between; \<open>resumeHoneypotAttack\<close> is what is left to do when the mail
  service has answered.
\<close>

definition submitHoneypotAttack :: "server \<Rightarrow> HoneypotAttack \<Rightarrow> json \<Rightarrow> mail \<Rightarrow> server" where
  "submitHoneypotAttack s attack location m = fst (on_attack (logAttack s attack location m) attack)"

definition resumeHoneypotAttack :: "server \<Rightarrow> HoneypotAttack \<Rightarrow> server" where
  "resumeHoneypotAttack s attack = fst (on_attack (logAttack_after_mail s) attack)"

text \<open>
  Whether \<open>logAttack\<close> waits for the network: the mail service is configured and the attack
  is one that is mailed.
\<close>

definition awaits_mail :: "HoneypotAttack \<Rightarrow> mail \<Rightarrow> bool" where
  "awaits_mail attack m \<longleftrightarrow>
     m \<noteq> NotConfigured \<and> service attack = ''ssh'' \<and>
     (severity attack = ''high'' \<or> severity attack = ''critical'')"

text \<open>
  The attacks the manager makes up. \<open>rnd k\<close> is the value of the \<open>k\<close>-th call of
  \<open>Math.random()\<close> in the simulation, counted from 0, each in \<open>[0, 1)\<close>;
  \<open>random_below u n\<close> is \<open>Math.floor(u * n)\<close>.
\<close>

definition random_below :: "real \<Rightarrow> nat \<Rightarrow> nat" where
  "random_below u n = nat \<lfloor>u * real n\<rfloor>"

text \<open>A natural number in a template literal: its decimal digits.\<close>

fun decimal :: "nat \<Rightarrow> string" where
  "decimal n =
     (if n < 10 then [''0123456789'' ! n]
      else decimal (n div 10) @ [''0123456789'' ! (n mod 10)])"

declare decimal.simps [simp del]

definition generateRandomIPs :: "nat \<Rightarrow> (nat \<Rightarrow> real) \<Rightarrow> string list" where
  "generateRandomIPs count rnd =
     map (\<lambda>i. decimal (random_below (rnd (4 * i)) 255) @ ''.'' @
              decimal (random_below (rnd (4 * i + 1)) 255) @ ''.'' @
              decimal (random_below (rnd (4 * i + 2)) 255) @ ''.'' @
              decimal (random_below (rnd (4 * i + 3)) 255)) [0..<count]"

definition getRandomSeverity :: "string list \<Rightarrow> real \<Rightarrow> string" where
  "getRandomSeverity severities u = severities ! random_below u (length severities)"

definition getRandomUserAgent :: "real \<Rightarrow> string" where
  "getRandomUserAgent u =
     (let userAgents =
        [''Mozilla/5.0 (compatible; Baiduspider/2.0)'',
         ''Mozilla/5.0 (compatible; Googlebot/2.1)'',
         ''curl/7.68.0'', ''python-requests/2.25.1'', ''Wget/1.20.3'', ''sqlmap/1.4.7'']
      in userAgents ! random_below u (length userAgents))"

text \<open>The attack objects of \<open>simulateSSHAttack\<close>, \<open>simulateHTTPAttack\<close> and \<open>simulateFTPAttack\<close>.\<close>

definition ssh_attack :: "(nat \<Rightarrow> real) \<Rightarrow> HoneypotAttack" where
  "ssh_attack rnd =
     (let attackTypes = [''Brute Force'', ''Dictionary Attack'', ''Credential Stuffing''];
          sourceIps = generateRandomIPs 5 rnd
      in \<lparr>service = ''ssh'',
          sourceIp = sourceIps ! random_below (rnd 20) (length sourceIps),
          attackType = attackTypes ! random_below (rnd 21) (length attackTypes),
          severity = getRandomSeverity [''medium'', ''high''] (rnd 22),
          port = 22,
          payload = Some (''Failed login attempts: '' @ decimal (random_below (rnd 23) 50 + 1))\<rparr>)"

definition http_attack :: "(nat \<Rightarrow> real) \<Rightarrow> HoneypotAttack" where
  "http_attack rnd =
     (let attackTypes =
            [''Web Crawler'', ''SQL Injection'', ''XSS Attempt'', ''Directory Traversal''];
          sourceIps = generateRandomIPs 10 rnd
      in \<lparr>service = ''http'',
          sourceIp = sourceIps ! random_below (rnd 40) (length sourceIps),
          attackType = attackTypes ! random_below (rnd 41) (length attackTypes),
          severity = getRandomSeverity [''low'', ''medium''] (rnd 42),
          port = (if rnd 43 < 0.5 then 80 else 8080),
          payload = Some (''User-Agent: '' @ getRandomUserAgent (rnd 44))\<rparr>)"

definition ftp_attack :: "(nat \<Rightarrow> real) \<Rightarrow> HoneypotAttack" where
  "ftp_attack rnd =
     (let attackTypes = [''Login Attempt'', ''Anonymous Access'', ''File Enumeration''];
          sourceIps = generateRandomIPs 3 rnd
      in \<lparr>service = ''ftp'',
          sourceIp = sourceIps ! random_below (rnd 12) (length sourceIps),
          attackType = attackTypes ! random_below (rnd 13) (length attackTypes),
          severity = getRandomSeverity [''low'', ''medium''] (rnd 14),
          port = 21,
          payload = Some (''Connection attempts: '' @ decimal (random_below (rnd 15) 10 + 1))\<rparr>)"

text \<open>
  The three timers of \<open>start\<close>. Nothing else in the server calls \<open>logAttack\<close> or emits
  \<open>attack\<close>.
\<close>

definition simulateSSHAttack :: "server \<Rightarrow> (nat \<Rightarrow> real) \<Rightarrow> json \<Rightarrow> mail \<Rightarrow> server" where
  "simulateSSHAttack s rnd location m = submitHoneypotAttack s (ssh_attack rnd) location m"

definition simulateHTTPAttack :: "server \<Rightarrow> (nat \<Rightarrow> real) \<Rightarrow> json \<Rightarrow> mail \<Rightarrow> server" where
  "simulateHTTPAttack s rnd location m = submitHoneypotAttack s (http_attack rnd) location m"

definition simulateFTPAttack :: "server \<Rightarrow> (nat \<Rightarrow> real) \<Rightarrow> json \<Rightarrow> mail \<Rightarrow> server" where
  "simulateFTPAttack s rnd location m = submitHoneypotAttack s (ftp_attack rnd) location m"

section \<open>The runs of the TypeScript server\<close>

text \<open>
  The process: the store, and the attacks whose \<open>logAttack\<close> waits for the mail service,
  oldest first.
\<close>

record process =
  store :: server
  awaiting :: "HoneypotAttack list"

text \<open>
  One step of the process: a request, a timer, a honeypot attack, the answer of the mail
  service to the call at place \<open>i\<close> of those that wait, or the \<open>ws\<close> library reporting a
  connection, closing one, or changing a socket's state. The clock moves forward
  between steps. An attack that waits for the mail service runs up to the wait and is
  put with those that wait; the answer of the mail service, whatever it is, lets it run
  to its end.
\<close>

datatype event =
    AnalyzeEmail "json option" PhishingDetectionResult
  | AnalyzeDeepfake "UploadedFile option" DeepfakeDetectionResult
  | AlertsRead "int option"
  | AlertsReadAll
  | StatsTick
  | Attack HoneypotAttack json mail
  | MailAnswered nat
  | Connection nat WebSocket
  | Close nat
  | SocketChanged nat WebSocket
  | ClockTick nat

fun step :: "process \<Rightarrow> event \<Rightarrow> process" where
  "step p (AnalyzeEmail content result) =
     p\<lparr>store := fst (analyze_email (store p) content result)\<rparr>"
| "step p (AnalyzeDeepfake file result) =
     p\<lparr>store := fst (analyze_deepfake (store p) file result)\<rparr>"
| "step p (AlertsRead i) = p\<lparr>store := fst (alerts_read (store p) i)\<rparr>"
| "step p AlertsReadAll = p\<lparr>store := fst (alerts_read_all (store p))\<rparr>"
| "step p StatsTick = p\<lparr>store := stats_tick (store p)\<rparr>"
| "step p (Attack attack location m) =
     (if awaits_mail attack m
      then p\<lparr>store := logAttack_until_mail (store p) attack location m,
             awaiting := awaiting p @ [attack]\<rparr>
      else p\<lparr>store := submitHoneypotAttack (store p) attack location m\<rparr>)"
| "step p (MailAnswered i) =
     (if i < length (awaiting p)
      then p\<lparr>store := resumeHoneypotAttack (store p) (awaiting p ! i),
             awaiting := take i (awaiting p) @ drop (Suc i) (awaiting p)\<rparr>
      else p)"
| "step p (Connection h ws) = p\<lparr>store := on_connection (store p) h ws\<rparr>"
| "step p (Close h) = p\<lparr>store := on_close (store p) h\<rparr>"
| "step p (SocketChanged h ws) =
     p\<lparr>store := (store p)\<lparr>wsClients :=
        map (\<lambda>(h', ws'). if h' = h then (h', ws) else (h', ws')) (wsClients (store p))\<rparr>\<rparr>"
| "step p (ClockTick d) = p\<lparr>store := (store p)\<lparr>now := now (store p) + d\<rparr>\<rparr>"

definition run :: "nat \<Rightarrow> event list \<Rightarrow> process" where
  "run t events = foldl step \<lparr>store = MemStorage_constructor t, awaiting = []\<rparr> events"

fun is_Attack :: "event \<Rightarrow> bool" where
  "is_Attack (Attack attack location m) = True"
| "is_Attack e = False"

section \<open>The single-file server (cybershield-complete.js)\<close>

text \<open>
  \<open>MemoryStorage\<close> builds a record as \<open>{id: counter++, ...given, date: new Date()}\<close>: the
  properties are stored as given, with no defaults. The records of the data model
  have no absent property; the handlers of the file give every property but the
  payload of an attack, and the model stores \<open>JNull\<close>, \<open>None\<close>, \<open>False\<close> or the empty
  string for a property that is not given. The file never leaves \<open>systemStats\<close>
  undefined.
\<close>

definition MemoryStorage_constructor :: "nat \<Rightarrow> server" where
  "MemoryStorage_constructor t =
     \<lparr>threats = [], phishingAnalyses = [], deepfakeAnalyses = [], honeypotLogs = [],
      alerts = [],
      systemStats = Some \<lparr>stats_id = 1, activeThreats = 7, phishingBlocked = 142,
        deepfakesDetected = 23, honeypotHits = 1847, updatedAt = t\<rparr>,
      currentThreatId = 1, currentPhishingId = 1, currentDeepfakeId = 1,
      currentHoneypotId = 1, currentAlertId = 1,
      wsClients = [], now = t, history = []\<rparr>"

definition MemoryStorage_getSystemStats :: "server \<Rightarrow> SystemStats option" where
  "MemoryStorage_getSystemStats s = systemStats s"

definition MemoryStorage_updateSystemStats :: "server \<Rightarrow> PartialSystemStats \<Rightarrow> server" where
  "MemoryStorage_updateSystemStats s stats =
     (case systemStats s of
        Some cur \<Rightarrow>
          (let st = (spread_stats cur stats)\<lparr>updatedAt := now s\<rparr>
           in s\<lparr>systemStats := Some st, history := history s @ [UpdateSystemStats st]\<rparr>)
      | None \<Rightarrow> s)"

definition MemoryStorage_createThreat :: "server \<Rightarrow> InsertThreat \<Rightarrow> server \<times> Threat" where
  "MemoryStorage_createThreat s threat =
     (let newThreat = \<lparr>threat_id = currentThreatId s,
            threat_type = new_threat_type threat,
            threat_severity = new_threat_severity threat,
            threat_source = new_threat_source threat,
            threat_description = new_threat_description threat,
            threat_metadata = (case new_threat_metadata threat of None \<Rightarrow> JNull | Some j \<Rightarrow> j),
            threat_status = (case new_threat_status threat of None \<Rightarrow> [] | Some st \<Rightarrow> st),
            threat_detectedAt = now s\<rparr>
      in (s\<lparr>currentThreatId := currentThreatId s + 1,
            threats := map_set (threat_id newThreat) newThreat (threats s),
            history := history s @ [CreateThreat (threat_id newThreat)]\<rparr>, newThreat))"

definition MemoryStorage_createPhishingAnalysis ::
  "server \<Rightarrow> InsertPhishingAnalysis \<Rightarrow> server \<times> PhishingAnalysis" where
  "MemoryStorage_createPhishingAnalysis s analysis =
     (let newAnalysis = \<lparr>phishing_id = currentPhishingId s,
            phishing_content = new_phishing_content analysis,
            phishing_score = new_phishing_score analysis,
            phishing_confidence = new_phishing_confidence analysis,
            phishing_suspiciousLinks =
              (case new_phishing_suspiciousLinks analysis of None \<Rightarrow> 0 | Some n \<Rightarrow> n),
            phishing_indicators = new_phishing_indicators analysis,
            phishing_analyzedAt = now s\<rparr>
      in (s\<lparr>currentPhishingId := currentPhishingId s + 1,
            phishingAnalyses :=
              map_set (phishing_id newAnalysis) newAnalysis (phishingAnalyses s),
            history := history s @ [CreatePhishingAnalysis (phishing_id newAnalysis)]\<rparr>,
          newAnalysis))"

definition MemoryStorage_createDeepfakeAnalysis ::
  "server \<Rightarrow> InsertDeepfakeAnalysis \<Rightarrow> server \<times> DeepfakeAnalysis" where
  "MemoryStorage_createDeepfakeAnalysis s analysis =
     (let newAnalysis = \<lparr>deepfake_id = currentDeepfakeId s,
            deepfake_fileName = new_deepfake_fileName analysis,
            deepfake_fileType = new_deepfake_fileType analysis,
            deepfake_fileSize = new_deepfake_fileSize analysis,
            deepfake_isDeepfake = new_deepfake_isDeepfake analysis,
            deepfake_confidence = new_deepfake_confidence analysis,
            deepfake_processingTime = new_deepfake_processingTime analysis,
            deepfake_anomalies = new_deepfake_anomalies analysis,
            deepfake_analyzedAt = now s\<rparr>
      in (s\<lparr>currentDeepfakeId := currentDeepfakeId s + 1,
            deepfakeAnalyses :=
              map_set (deepfake_id newAnalysis) newAnalysis (deepfakeAnalyses s),
            history := history s @ [CreateDeepfakeAnalysis (deepfake_id newAnalysis)]\<rparr>,
          newAnalysis))"

definition MemoryStorage_createHoneypotLog ::
  "server \<Rightarrow> InsertHoneypotLog \<Rightarrow> server \<times> HoneypotLog" where
  "MemoryStorage_createHoneypotLog s entry =
     (let newLog = \<lparr>log_id = currentHoneypotId s,
            log_service = new_log_service entry,
            log_sourceIp = new_log_sourceIp entry,
            log_attackType = new_log_attackType entry,
            log_severity = new_log_severity entry,
            log_port = new_log_port entry,
            log_payload = new_log_payload entry,
            log_location = (case new_log_location entry of None \<Rightarrow> JNull | Some j \<Rightarrow> j),
            log_detectedAt = now s\<rparr>
      in (s\<lparr>currentHoneypotId := currentHoneypotId s + 1,
            honeypotLogs := map_set (log_id newLog) newLog (honeypotLogs s),
            history := history s @ [CreateHoneypotLog (log_id newLog)]\<rparr>, newLog))"

definition MemoryStorage_createAlert :: "server \<Rightarrow> InsertAlert \<Rightarrow> server \<times> Alert" where
  "MemoryStorage_createAlert s alert =
     (let newAlert = \<lparr>alert_id = currentAlertId s,
            alert_title = new_alert_title alert,
            alert_description = new_alert_description alert,
            alert_severity = new_alert_severity alert,
            alert_category = new_alert_category alert,
            alert_isRead = (case new_alert_isRead alert of None \<Rightarrow> False | Some b \<Rightarrow> b),
            alert_metadata = (case new_alert_metadata alert of None \<Rightarrow> JNull | Some j \<Rightarrow> j),
            alert_createdAt = now s\<rparr>
      in (s\<lparr>currentAlertId := currentAlertId s + 1,
            alerts := map_set (alert_id newAlert) newAlert (alerts s),
            history := history s @ [CreateAlert (alert_id newAlert)]\<rparr>, newAlert))"

definition MemoryStorage_markAlertAsRead :: "server \<Rightarrow> int \<Rightarrow> server" where
  "MemoryStorage_markAlertAsRead s i =
     (case map_get (alerts s) i of
        Some alert \<Rightarrow> s\<lparr>alerts := map_set i (alert\<lparr>alert_isRead := True\<rparr>) (alerts s)\<rparr>
      | None \<Rightarrow> s)"

text \<open>The single file counts every alert, read or not.\<close>

definition MemoryStorage_getAlertCounts :: "server \<Rightarrow> AlertCounts" where
  "MemoryStorage_getAlertCounts s =
     (let all_alerts = map_values (alerts s)
      in \<lparr>critical = length (filter (\<lambda>a. alert_severity a = ''critical'') all_alerts),
          high = length (filter (\<lambda>a. alert_severity a = ''high'') all_alerts),
          medium = length (filter (\<lambda>a. alert_severity a = ''medium'') all_alerts),
          low = length (filter (\<lambda>a. alert_severity a = ''low'') all_alerts)\<rparr>)"

text \<open>
  \<open>broadcast\<close>, and the listeners of a connection: \<open>close\<close> and \<open>error\<close> both delete the
  socket from the set.
\<close>

definition broadcast_complete :: "server \<Rightarrow> message \<Rightarrow> server \<times> completion" where
  "broadcast_complete s data =
     (case forEach_send (wsClients s) data of
        (clients, c) \<Rightarrow> (s\<lparr>wsClients := clients, history := history s @ [Broadcast data]\<rparr>, c))"

definition on_connection_complete :: "server \<Rightarrow> nat \<Rightarrow> WebSocket \<Rightarrow> server" where
  "on_connection_complete s h ws =
     (if h \<in> fst ` set (wsClients s) then s else s\<lparr>wsClients := wsClients s @ [(h, ws)]\<rparr>)"



text \<open>\<open>EmailAlertService.sendAttackAlert\<close> of the single file always answers \<open>true\<close>.\<close>

definition sendAttackAlert_complete :: "server \<Rightarrow> EmailAlertData \<Rightarrow> server \<times> bool" where
  "sendAttackAlert_complete s alertData =
     (s\<lparr>history := history s @ [SendAttackAlert alertData]\<rparr>, True)"

text \<open>
  \<open>${location?.city}\<close> in a template literal. The mock geolocation service of the file
  always gives strings; a value of another type is printed as \<open>undefined\<close> here.
\<close>

definition str_prop_text :: "json \<Rightarrow> string \<Rightarrow> string" where
  "str_prop_text j k = (case get_prop j k of Some (JStr v) \<Rightarrow> v | _ \<Rightarrow> ''undefined'')"

text \<open>The object literals of \<open>logAttack\<close>.\<close>

definition attack_log_complete :: "HoneypotAttack \<Rightarrow> json \<Rightarrow> InsertHoneypotLog" where
  "attack_log_complete attack location =
     \<lparr>new_log_service = service attack, new_log_sourceIp = sourceIp attack,
      new_log_attackType = attackType attack, new_log_severity = severity attack,
      new_log_port = port attack, new_log_payload = payload attack,
      new_log_location = Some location\<rparr>"

definition attack_alert_complete :: "HoneypotAttack \<Rightarrow> json \<Rightarrow> HoneypotLog \<Rightarrow> InsertAlert" where
  "attack_alert_complete attack location honeypotLog =
     \<lparr>new_alert_title = ''SSH Honeypot Attack'',
      new_alert_description =
        [Lit (attackType attack @ '' attack from '' @ sourceIp attack @ '' ('' @
              str_prop_text location ''city'' @ '', '' @
              str_prop_text location ''country'' @ '')'')],
      new_alert_severity = severity attack,
      new_alert_category = ''honeypot'',
      new_alert_isRead = Some False,
      new_alert_metadata = Some (JObj
        [(''honeypotLogId'', JNum (of_int (log_id honeypotLog))),
         (''location'', location)])\<rparr>"

definition attack_email_complete :: "HoneypotAttack \<Rightarrow> json \<Rightarrow> nat \<Rightarrow> int \<Rightarrow> EmailAlertData" where
  "attack_email_complete attack location t n =
     \<lparr>attackerIp = sourceIp attack,
      country = str_prop_or location ''country'' ''Unknown'',
      city = str_prop_or location ''city'' ''Unknown'',
      email_attackType = attackType attack,
      email_timestamp = t,
      attempts = Some n\<rparr>"

text \<open>
  \<open>HoneypotManager.logAttack\<close> of the single file. \<open>n\<close> is the random number of
  attempts put into the e-mail. The whole body stands in a \<open>try\<close>: an exception of
  \<open>broadcast\<close> is logged and ends the method. The \<open>attack\<close> event it emits last has no
  listener in the file. The mail service of the single file
  sends nothing over the network, so the method never waits and runs as a whole.
\<close>

definition logAttack_complete :: "server \<Rightarrow> HoneypotAttack \<Rightarrow> json \<Rightarrow> int \<Rightarrow> server" where
  "logAttack_complete s attack location n =
     (case MemoryStorage_createHoneypotLog s (attack_log_complete attack location) of
        (s1, honeypotLog) \<Rightarrow>
          (case (if service attack = ''ssh'' \<and> severity attack \<in> set [''high'', ''critical'']
                 then
                   (case MemoryStorage_createAlert s1
                           (attack_alert_complete attack location honeypotLog) of
                      (s2, alert) \<Rightarrow>
                        broadcast_complete
                          (fst (sendAttackAlert_complete s2
                                  (attack_email_complete attack location (now s2) n)))
                          (NewAlertLog alert honeypotLog))
                 else (s1, Returns)) of
             (s3, Throws) \<Rightarrow> s3
           | (s3, Returns) \<Rightarrow>
               (case MemoryStorage_getSystemStats s3 of
                  Some stats \<Rightarrow> MemoryStorage_updateSystemStats s3 (hits_stats stats)
                | None \<Rightarrow> s3)))"

text \<open>
  The attacks the single file makes up: the severities are drawn from longer lists
  than in the TypeScript server, and the payload carries \<open>Date.now()\<close>, here \<open>t\<close>.
\<close>

definition ssh_attack_complete :: "(nat \<Rightarrow> real) \<Rightarrow> nat \<Rightarrow> HoneypotAttack" where
  "ssh_attack_complete rnd t =
     (let attackTypes = [''Brute Force'', ''Dictionary Attack'', ''Credential Stuffing''];
          severities = [''low'', ''medium'', ''high'', ''critical''];
          ips = generateRandomIPs 1 rnd
      in \<lparr>service = ''ssh'',
          sourceIp = ips ! 0,
          attackType = attackTypes ! random_below (rnd 4) (length attackTypes),
          severity = getRandomSeverity severities (rnd 5),
          port = 22,
          payload = Some (''ssh-login-attempt-'' @ decimal t)\<rparr>)"

definition http_attack_complete :: "(nat \<Rightarrow> real) \<Rightarrow> nat \<Rightarrow> HoneypotAttack" where
  "http_attack_complete rnd t =
     (let attackTypes = [''SQL Injection'', ''XSS'', ''Directory Traversal'', ''CSRF''];
          severities = [''low'', ''medium'', ''high''];
          ips = generateRandomIPs 1 rnd
      in \<lparr>service = ''http'',
          sourceIp = ips ! 0,
          attackType = attackTypes ! random_below (rnd 4) (length attackTypes),
          severity = getRandomSeverity severities (rnd 5),
          port = 80,
          payload = Some (''http-request-'' @ decimal t)\<rparr>)"

definition ftp_attack_complete :: "(nat \<Rightarrow> real) \<Rightarrow> HoneypotAttack" where
  "ftp_attack_complete rnd =
     (let attackTypes = [''Anonymous Login'', ''Brute Force'', ''Buffer Overflow''];
          severities = [''low'', ''medium'', ''high''];
          ips = generateRandomIPs 1 rnd
      in \<lparr>service = ''ftp'',
          sourceIp = ips ! 0,
          attackType = attackTypes ! random_below (rnd 4) (length attackTypes),
          severity = getRandomSeverity severities (rnd 5),
          port = 21,
          payload = None\<rparr>)"

subsection \<open>POST /api/phishing/analyze\<close>

definition phishing_threat_complete ::
  "PhishingDetectionResult \<Rightarrow> PhishingAnalysis \<Rightarrow> InsertThreat" where
  "phishing_threat_complete result analysis =
     \<lparr>new_threat_type = ''phishing'',
      new_threat_severity = (if score result > 90 then ''critical'' else ''high''),
      new_threat_source = ''email-analysis'',
      new_threat_description =
        [Lit ''Phishing email detected with '', Num (score result), Lit ''% confidence''],
      new_threat_metadata = Some (JObj
        [(''analysisId'', JNum (of_int (phishing_id analysis)))]),
      new_threat_status = Some ''active''\<rparr>"

text \<open>
  The route. The detector starts with \<open>content.toLowerCase()\<close>, which throws a
  \<open>TypeError\<close> for a value that is no string; the \<open>catch\<close> of the route answers 500 with
  the message of the error.
\<close>

definition phishing_analyze ::
  "server \<Rightarrow> json option \<Rightarrow> PhishingDetectionResult \<Rightarrow> server \<times> response" where
  "phishing_analyze s content result =
     (case content of
        None \<Rightarrow> (s, Status 400 ''Content is required'')
      | Some j \<Rightarrow>
          if \<not> truthy j then (s, Status 400 ''Content is required'')
          else
            (case j of
               JStr c \<Rightarrow>
                 (case MemoryStorage_createPhishingAnalysis s (email_analysis c result) of
                    (s1, analysis) \<Rightarrow>
                      if score result > 70 then
                        (fst (MemoryStorage_createThreat s1
                                (phishing_threat_complete result analysis)),
                         JsonPhishingAnalysis analysis result)
                      else (s1, JsonPhishingAnalysis analysis result))
             | _ \<Rightarrow> (s, Status 500 ''content.toLowerCase is not a function'')))"

subsection \<open>The phishing detector of the single file\<close>

text \<open>
  \<open>PhishingDetector\<close> of the single file. \<open>u\<close> is the random number of the confidence; the
  examples take 1/2, where \<open>score + u * 10\<close> is exact in floating point.
\<close>

definition phishingKeywords_complete :: "string list" where
  "phishingKeywords_complete =
     [''urgent'', ''immediate'', ''verify'', ''suspended'', ''click here'', ''act now'',
      ''limited time'', ''congratulations'', ''winner'', ''prize'', ''free money'']"

definition suspiciousDomains_complete :: "string list" where
  "suspiciousDomains_complete = [''bit.ly'', ''tinyurl.com'', ''goo.gl'', ''t.co'', ''ow.ly'']"

definition hasPoorGrammar_complete :: "string \<Rightarrow> bool" where
  "hasPoorGrammar_complete content =
     list_ex (\<lambda>issue. str_includes (toLowerCase content) issue)
       [''recieve'', ''occured'', ''seperate'', ''definately'']"

definition calculatePhishingScore :: "string \<Rightarrow> real" where
  "calculatePhishingScore content =
     (let score = 0;
          lowerContent = toLowerCase content;
          score = foldl (\<lambda>score keyword.
                     if str_includes lowerContent keyword then score + 15 else score)
                   score phishingKeywords_complete;
          score = foldl (\<lambda>score domain.
                     if str_includes lowerContent domain then score + 20 else score)
                   score suspiciousDomains_complete;
          score = (if hasPoorGrammar_complete content then score + 10 else score)
      in min 100 score)"

text \<open>
  \<open>/https?:\/\/[^\s]+/g\<close>: the scheme, then the longest run of characters that are no
  white space, which must not be empty.
\<close>

definition urlRegex :: "string \<Rightarrow> nat option" where
  "urlRegex str =
     (let scheme = (if startsWith str ''https://'' then Some 8
                    else if startsWith str ''http://'' then Some 7 else None)
      in case scheme of
           None \<Rightarrow> None
         | Some n \<Rightarrow>
             (let run = takeWhile (\<lambda>c. \<not> is_space c) (drop n str)
              in if run = [] then None else Some (n + length run)))"

definition extractSuspiciousLinks_complete :: "string \<Rightarrow> nat" where
  "extractSuspiciousLinks_complete content =
     (let matches = match_all content urlRegex
      in length (filter (\<lambda>url. list_ex (\<lambda>domain. str_includes url domain)
                                 suspiciousDomains_complete) matches))"

definition findIndicators :: "string \<Rightarrow> string list" where
  "findIndicators content =
     (let lowerContent = toLowerCase content
      in (if str_includes lowerContent ''urgent'' then [''Urgency tactics''] else []) @
         (if str_includes lowerContent ''verify'' then [''Account verification request'']
          else []) @
         (if extractSuspiciousLinks_complete content > 0 then [''Suspicious shortened URLs'']
          else []) @
         (if hasPoorGrammar_complete content then [''Poor grammar/spelling''] else []))"

definition analyzeEmail_complete :: "string \<Rightarrow> real \<Rightarrow> PhishingDetectionResult" where
  "analyzeEmail_complete content u =
     (let score = calculatePhishingScore content;
          suspiciousLinks = extractSuspiciousLinks_complete content;
          indicators = findIndicators content
      in \<lparr>score = score,
          confidence = min 95 (score + u * 10),
          suspiciousLinks = int suspiciousLinks,
          indicators = indicators\<rparr>)"


subsection \<open>POST /api/deepfake/analyze\<close>

text \<open>
  The body: each property is any JSON value, or absent. \<open>Buffer.from(fileData, 'base64')\<close>
  belongs to the runtime: what it makes of \<open>fileData\<close> is an argument, either the length
  of the buffer or the message of the \<open>TypeError\<close> it throws (as it does for a number;
  for a string it never throws).
\<close>

record DeepfakeBody =
  fileName :: "json option"
  fileType :: "json option"
  fileData :: "json option"

datatype decoded = Buffer int | NoBuffer string

text \<open>\<open>!x\<close> is false: the property is there and truthy.\<close>

fun present :: "json option \<Rightarrow> bool" where
  "present None = False"
| "present (Some j) = truthy j"

definition deepfake_analysis_complete ::
  "json \<Rightarrow> string \<Rightarrow> int \<Rightarrow> DeepfakeDetectionResult \<Rightarrow> InsertDeepfakeAnalysis" where
  "deepfake_analysis_complete name ftype n result =
     \<lparr>new_deepfake_fileName = name, new_deepfake_fileType = ftype,
      new_deepfake_fileSize = n,
      new_deepfake_isDeepfake = isDeepfake result,
      new_deepfake_confidence = detection_confidence result,
      new_deepfake_processingTime = processingTime result,
      new_deepfake_anomalies = Some (anomalies result)\<rparr>"

definition deepfake_threat_complete ::
  "json \<Rightarrow> DeepfakeDetectionResult \<Rightarrow> DeepfakeAnalysis \<Rightarrow> InsertThreat" where
  "deepfake_threat_complete name result analysis =
     \<lparr>new_threat_type = ''deepfake'',
      new_threat_severity =
        (if detection_confidence result > 0.8 then ''high'' else ''medium''),
      new_threat_source = ''deepfake-detection'',
      new_threat_description =
        [Lit ''Deepfake detected in '', Text name, Lit '' with '',
         Fixed1 (detection_confidence result * 100), Lit ''% confidence''],
      new_threat_metadata = Some (JObj
        [(''analysisId'', JNum (of_int (deepfake_id analysis)))]),
      new_threat_status = Some ''active''\<rparr>"

text \<open>
  The route. A \<open>fileType\<close> that is no string has no \<open>startsWith\<close>: the \<open>TypeError\<close> reaches
  the \<open>catch\<close> of the route, which answers 500 with the message of the error, as it does
  when \<open>Buffer.from\<close> throws. The file name is stored as it comes.
\<close>

definition deepfake_analyze ::
  "server \<Rightarrow> DeepfakeBody \<Rightarrow> decoded \<Rightarrow> DeepfakeDetectionResult \<Rightarrow> server \<times> response" where
  "deepfake_analyze s body buffer result =
     (if \<not> present (fileName body) \<or> \<not> present (fileType body) \<or> \<not> present (fileData body)
      then (s, Status 400 ''File data is required'')
      else
        (case buffer of
           NoBuffer msg \<Rightarrow> (s, Status 500 msg)
         | Buffer n \<Rightarrow>
             (case fileType body of
                Some (JStr ftype) \<Rightarrow>
                  (case MemoryStorage_createDeepfakeAnalysis s
                          (deepfake_analysis_complete (or_null (fileName body)) ftype n result) of
                     (s1, analysis) \<Rightarrow>
                       if isDeepfake result then
                         (fst (MemoryStorage_createThreat s1
                                 (deepfake_threat_complete (or_null (fileName body)) result
                                    analysis)),
                          JsonDeepfakeAnalysis analysis result)
                       else (s1, JsonDeepfakeAnalysis analysis result))
              | _ \<Rightarrow> (s, Status 500 ''fileType.startsWith is not a function''))))"

text \<open>\<open>app.patch('/api/alerts/:id/read')\<close> of the single file.\<close>

definition alerts_read_complete :: "server \<Rightarrow> int option \<Rightarrow> server \<times> response" where
  "alerts_read_complete s i =
     (case i of
        Some n \<Rightarrow> (MemoryStorage_markAlertAsRead s n, JsonSuccess)
      | None \<Rightarrow> (s, JsonSuccess))"

section \<open>Observations\<close>

text \<open>The effects between two states of one run: what the later history adds.\<close>

definition effects_of :: "server \<Rightarrow> server \<Rightarrow> effect list" where
  "effects_of s s' = drop (length (history s)) (history s')"

fun is_Broadcast :: "effect \<Rightarrow> bool" where
  "is_Broadcast (Broadcast m) = True"
| "is_Broadcast e = False"

fun is_UpdateSystemStats :: "effect \<Rightarrow> bool" where
  "is_UpdateSystemStats (UpdateSystemStats st) = True"
| "is_UpdateSystemStats e = False"

fun is_CreateAlert :: "effect \<Rightarrow> bool" where
  "is_CreateAlert (CreateAlert i) = True"
| "is_CreateAlert e = False"

fun is_CreateHoneypotLog :: "effect \<Rightarrow> bool" where
  "is_CreateHoneypotLog (CreateHoneypotLog i) = True"
| "is_CreateHoneypotLog e = False"

fun is_SendAttackAlert :: "effect \<Rightarrow> bool" where
  "is_SendAttackAlert (SendAttackAlert d) = True"
| "is_SendAttackAlert e = False"

text \<open>The messages handed to \<open>broadcast\<close>, in order.\<close>

fun broadcasts :: "effect list \<Rightarrow> message list" where
  "broadcasts [] = []"
| "broadcasts (Broadcast m # es) = m # broadcasts es"
| "broadcasts (e # es) = broadcasts es"

text \<open>Some effect with \<open>P\<close> stands before some effect with \<open>Q\<close>.\<close>

fun occurs_before :: "('a \<Rightarrow> bool) \<Rightarrow> ('a \<Rightarrow> bool) \<Rightarrow> 'a list \<Rightarrow> bool" where
  "occurs_before P Q [] = False"
| "occurs_before P Q (x # xs) = ((P x \<and> list_ex Q xs) \<or> occurs_before P Q xs)"

text \<open>The number of stored alerts of one severity that are not read.\<close>

definition unread_with :: "string \<Rightarrow> server \<Rightarrow> nat" where
  "unread_with sev s =
     length (filter (\<lambda>a. alert_severity a = sev \<and> \<not> alert_isRead a) (map_values (alerts s)))"

text \<open>The counters of the statistics, when there are statistics.\<close>

definition hits :: "server \<Rightarrow> int option" where
  "hits s = map_option honeypotHits (systemStats s)"

text \<open>
  What holds of the honeypot data after \<open>n\<close> attacks: the counter, which lacks the
  attacks that wait for the mail service, the number of logs, the number of
  insertions, and that the next identifier is fresh.
\<close>

definition honeypot_inv :: "process \<Rightarrow> nat \<Rightarrow> bool" where
  "honeypot_inv p n \<longleftrightarrow>
     hits (store p) = Some (89 + int n - int (length (awaiting p)))
     \<and> length (awaiting p) \<le> n
     \<and> length (honeypotLogs (store p)) = n
     \<and> length (filter is_CreateHoneypotLog (history (store p))) = n
     \<and> (\<forall>k \<in> fst ` set (honeypotLogs (store p)). k < currentHoneypotId (store p))"

text \<open>
  What a broadcast that meets no exception does to the set of sockets: every open
  socket gets the message, the others stay as they are.
\<close>

definition delivered :: "message \<Rightarrow> (nat \<times> WebSocket) list \<Rightarrow> (nat \<times> WebSocket) list" where
  "delivered data clients =
     map (\<lambda>(h, client). (h, if readyState client = OPEN
                              then client\<lparr>sent := sent client @ [data]\<rparr> else client)) clients"

text \<open>An open socket whose \<open>send\<close> throws.\<close>

definition throwing :: "nat \<times> WebSocket \<Rightarrow> bool" where
  "throwing hc = (readyState (snd hc) = OPEN \<and> send_throws (snd hc))"

section \<open>Example values\<close>

definition open_socket :: WebSocket where
  "open_socket = \<lparr>readyState = OPEN, sent = [], send_throws = False\<rparr>"


text \<open>
  Mails for the detector of the TypeScript server, of the scores 95, 70 and 65, and for
  the detector of the single file, of the scores 95 and 70.
\<close>

definition urgent_mail :: string where
  "urgent_mail =
     ''URGENT: verify your account, click here. Immediate action required within 24 hours''"

definition borderline_mail :: string where
  "borderline_mail = ''Urgent: verify that you are the winner. Last chance''"

definition pressing_mail :: string where
  "pressing_mail = ''Verify today: last chance, expires today''"

definition suspended_mail :: string where
  "suspended_mail =
     ''URGENT! Immediate: verify your suspended account, winner. http://bit.ly/a''"

definition shortener_mail :: string where
  "shortener_mail = ''Urgent: verify your login at http://bit.ly/a or http://tinyurl.com/b''"

definition picture :: UploadedFile where
  "picture = \<lparr>originalname = ''face.png'', mimetype = ''image/png'', file_size = 2048\<rparr>"

definition picture_body :: DeepfakeBody where
  "picture_body = \<lparr>fileName = Some (JStr ''face.png''), fileType = Some (JStr ''image/png''),
     fileData = Some (JStr ''aGVsbG8='')\<rparr>"

text \<open>
  Verdicts as the detector of the TypeScript server gives them on the picture:
  \<open>analyzeImage\<close> finds a deepfake when two of its checks strike, here the first two,
  and answers the confidence \<open>max(70 + Math.random() * 25, 85)\<close> rounded to one decimal,
  which is 95 for the random number 0.999 and 85 for 0.5; when no check strikes it
  answers \<open>70 + Math.random() * 25\<close>, which is 82.5 for 0.5.
\<close>

definition sure_fake :: DeepfakeDetectionResult where
  "sure_fake = \<lparr>isDeepfake = True, detection_confidence = 95, processingTime = 1.5,
     anomalies = [''Face swap artifacts detected'', ''Unusual compression patterns'']\<rparr>"

definition likely_fake :: DeepfakeDetectionResult where
  "likely_fake = \<lparr>isDeepfake = True, detection_confidence = 85, processingTime = 1.5,
     anomalies = [''Face swap artifacts detected'', ''Unusual compression patterns'']\<rparr>"

definition no_fake :: DeepfakeDetectionResult where
  "no_fake = \<lparr>isDeepfake = False, detection_confidence = 82.5, processingTime = 1.5,
     anomalies = []\<rparr>"

text \<open>
  Verdicts as the detector of the single file gives them: \<open>analyzeImage\<close> finds a deepfake
  when its first random number is above 0.7 and answers the confidence
  \<open>Math.random() * 0.3 + 0.7\<close>, which is 0.73 for the random number 0.1 and 0.97 for 0.9,
  up to the rounding of floating point.
\<close>

definition faint_fake :: DeepfakeDetectionResult where
  "faint_fake = \<lparr>isDeepfake = True, detection_confidence = 0.73, processingTime = 2000,
     anomalies = []\<rparr>"

definition clear_fake :: DeepfakeDetectionResult where
  "clear_fake = \<lparr>isDeepfake = True, detection_confidence = 0.97, processingTime = 2000,
     anomalies = []\<rparr>"

text \<open>
  An attack object of the type \<open>HoneypotAttack\<close> with the service http and the severity
  \<open>high\<close>. The simulations of the TypeScript server make no such attack: they draw the
  severity of an http attack from \<open>low\<close> and \<open>medium\<close>.
\<close>

definition http_high_attack :: HoneypotAttack where
  "http_high_attack = \<lparr>service = ''http'', sourceIp = ''203.0.113.7'',
     attackType = ''SQL Injection'', severity = ''high'', port = 80,
     payload = Some ''User-Agent: sqlmap/1.4.7''\<rparr>"

text \<open>Random numbers for the simulated attacks: all 3/4, or all 1/4.\<close>

definition high_draws :: "nat \<Rightarrow> real" where
  "high_draws k = 3 / 4"

definition low_draws :: "nat \<Rightarrow> real" where
  "low_draws k = 1 / 4"

definition an_alert :: Alert where
  "an_alert = \<lparr>alert_id = 1, alert_title = ''SSH Honeypot Attack'',
     alert_description = [], alert_severity = ''high'', alert_category = ''honeypot'',
     alert_isRead = False, alert_metadata = JNull, alert_createdAt = 0\<rparr>"

definition one_alert :: server where
  "one_alert = (MemStorage_constructor 0)\<lparr>alerts := [(1, an_alert)], currentAlertId := 2\<rparr>"

definition listening :: server where
  "listening = (MemStorage_constructor 0)\<lparr>wsClients := [(1, open_socket)]\<rparr>"

definition listening_complete :: server where
  "listening_complete = (MemoryStorage_constructor 0)\<lparr>wsClients := [(1, open_socket)]\<rparr>"



section \<open>Lemmas about strings\<close>

text \<open>\<open>startsWith\<close> letter by letter, for evaluation.\<close>

lemma startsWith_code [code]:
  "startsWith str [] = True"
  "startsWith [] (p # ps) = False"
  "startsWith (c # cs) (p # ps) = (if c = p then startsWith cs ps else False)"
  by (simp_all add: startsWith_def)

section \<open>Lemmas about maps\<close>

lemma map_get_map_set_same [simp]: "map_get (map_set k v m) k = Some v"
  by (induction m) (auto simp: map_get_def)

lemma map_get_map_set_other [simp]: "k' \<noteq> k \<Longrightarrow> map_get (map_set k v m) k' = map_get m k'"
  by (induction m) (auto simp: map_get_def)

lemma map_set_twice [simp]: "map_set k v (map_set k v' m) = map_set k v m"
  by (induction m) auto

lemma map_set_count:
  "map_get m k = Some a \<Longrightarrow>
   length (filter P (map_values (map_set k a' m))) + (if P a then 1 else 0) =
   length (filter P (map_values m)) + (if P a' then 1 else 0)"
  by (induction m) (auto simp: map_get_def map_values_def)

lemma map_set_fresh: "k \<notin> fst ` set m \<Longrightarrow> map_set k v m = m @ [(k, v)]"
  by (induction m) auto

lemma keys_map_set: "fst ` set (map_set k v m) = insert k (fst ` set m)"
  by (induction m) (force split: if_splits)+

section \<open>What each storage method changes\<close>

lemma MemStorage_createThreat_fields [simp]:
  "threats (fst (MemStorage_createThreat s x)) = map_set (currentThreatId s) (snd (MemStorage_createThreat s x)) (threats s)"
  "phishingAnalyses (fst (MemStorage_createThreat s x)) = phishingAnalyses s"
  "deepfakeAnalyses (fst (MemStorage_createThreat s x)) = deepfakeAnalyses s"
  "honeypotLogs (fst (MemStorage_createThreat s x)) = honeypotLogs s"
  "alerts (fst (MemStorage_createThreat s x)) = alerts s"
  "systemStats (fst (MemStorage_createThreat s x)) = systemStats s"
  "currentThreatId (fst (MemStorage_createThreat s x)) = currentThreatId s + 1"
  "currentPhishingId (fst (MemStorage_createThreat s x)) = currentPhishingId s"
  "currentDeepfakeId (fst (MemStorage_createThreat s x)) = currentDeepfakeId s"
  "currentHoneypotId (fst (MemStorage_createThreat s x)) = currentHoneypotId s"
  "currentAlertId (fst (MemStorage_createThreat s x)) = currentAlertId s"
  "wsClients (fst (MemStorage_createThreat s x)) = wsClients s"
  "now (fst (MemStorage_createThreat s x)) = now s"
  "history (fst (MemStorage_createThreat s x)) = history s @ [CreateThreat (currentThreatId s)]"
  by (simp_all add: MemStorage_createThreat_def Let_def)

lemma MemStorage_createPhishingAnalysis_fields [simp]:
  "threats (fst (MemStorage_createPhishingAnalysis s x)) = threats s"
  "phishingAnalyses (fst (MemStorage_createPhishingAnalysis s x)) = map_set (currentPhishingId s) (snd (MemStorage_createPhishingAnalysis s x)) (phishingAnalyses s)"
  "deepfakeAnalyses (fst (MemStorage_createPhishingAnalysis s x)) = deepfakeAnalyses s"
  "honeypotLogs (fst (MemStorage_createPhishingAnalysis s x)) = honeypotLogs s"
  "alerts (fst (MemStorage_createPhishingAnalysis s x)) = alerts s"
  "systemStats (fst (MemStorage_createPhishingAnalysis s x)) = systemStats s"
  "currentThreatId (fst (MemStorage_createPhishingAnalysis s x)) = currentThreatId s"
  "currentPhishingId (fst (MemStorage_createPhishingAnalysis s x)) = currentPhishingId s + 1"
  "currentDeepfakeId (fst (MemStorage_createPhishingAnalysis s x)) = currentDeepfakeId s"
  "currentHoneypotId (fst (MemStorage_createPhishingAnalysis s x)) = currentHoneypotId s"
  "currentAlertId (fst (MemStorage_createPhishingAnalysis s x)) = currentAlertId s"
  "wsClients (fst (MemStorage_createPhishingAnalysis s x)) = wsClients s"
  "now (fst (MemStorage_createPhishingAnalysis s x)) = now s"
  "history (fst (MemStorage_createPhishingAnalysis s x)) = history s @ [CreatePhishingAnalysis (currentPhishingId s)]"
  by (simp_all add: MemStorage_createPhishingAnalysis_def Let_def)

lemma MemStorage_createDeepfakeAnalysis_fields [simp]:
  "threats (fst (MemStorage_createDeepfakeAnalysis s x)) = threats s"
  "phishingAnalyses (fst (MemStorage_createDeepfakeAnalysis s x)) = phishingAnalyses s"
  "deepfakeAnalyses (fst (MemStorage_createDeepfakeAnalysis s x)) = map_set (currentDeepfakeId s) (snd (MemStorage_createDeepfakeAnalysis s x)) (deepfakeAnalyses s)"
  "honeypotLogs (fst (MemStorage_createDeepfakeAnalysis s x)) = honeypotLogs s"
  "alerts (fst (MemStorage_createDeepfakeAnalysis s x)) = alerts s"
  "systemStats (fst (MemStorage_createDeepfakeAnalysis s x)) = systemStats s"
  "currentThreatId (fst (MemStorage_createDeepfakeAnalysis s x)) = currentThreatId s"
  "currentPhishingId (fst (MemStorage_createDeepfakeAnalysis s x)) = currentPhishingId s"
  "currentDeepfakeId (fst (MemStorage_createDeepfakeAnalysis s x)) = currentDeepfakeId s + 1"
  "currentHoneypotId (fst (MemStorage_createDeepfakeAnalysis s x)) = currentHoneypotId s"
  "currentAlertId (fst (MemStorage_createDeepfakeAnalysis s x)) = currentAlertId s"
  "wsClients (fst (MemStorage_createDeepfakeAnalysis s x)) = wsClients s"
  "now (fst (MemStorage_createDeepfakeAnalysis s x)) = now s"
  "history (fst (MemStorage_createDeepfakeAnalysis s x)) = history s @ [CreateDeepfakeAnalysis (currentDeepfakeId s)]"
  by (simp_all add: MemStorage_createDeepfakeAnalysis_def Let_def)

lemma MemStorage_createHoneypotLog_fields [simp]:
  "threats (fst (MemStorage_createHoneypotLog s x)) = threats s"
  "phishingAnalyses (fst (MemStorage_createHoneypotLog s x)) = phishingAnalyses s"
  "deepfakeAnalyses (fst (MemStorage_createHoneypotLog s x)) = deepfakeAnalyses s"
  "honeypotLogs (fst (MemStorage_createHoneypotLog s x)) = map_set (currentHoneypotId s) (snd (MemStorage_createHoneypotLog s x)) (honeypotLogs s)"
  "alerts (fst (MemStorage_createHoneypotLog s x)) = alerts s"
  "systemStats (fst (MemStorage_createHoneypotLog s x)) = systemStats s"
  "currentThreatId (fst (MemStorage_createHoneypotLog s x)) = currentThreatId s"
  "currentPhishingId (fst (MemStorage_createHoneypotLog s x)) = currentPhishingId s"
  "currentDeepfakeId (fst (MemStorage_createHoneypotLog s x)) = currentDeepfakeId s"
  "currentHoneypotId (fst (MemStorage_createHoneypotLog s x)) = currentHoneypotId s + 1"
  "currentAlertId (fst (MemStorage_createHoneypotLog s x)) = currentAlertId s"
  "wsClients (fst (MemStorage_createHoneypotLog s x)) = wsClients s"
  "now (fst (MemStorage_createHoneypotLog s x)) = now s"
  "history (fst (MemStorage_createHoneypotLog s x)) = history s @ [CreateHoneypotLog (currentHoneypotId s)]"
  by (simp_all add: MemStorage_createHoneypotLog_def Let_def)

lemma MemStorage_createAlert_fields [simp]:
  "threats (fst (MemStorage_createAlert s x)) = threats s"
  "phishingAnalyses (fst (MemStorage_createAlert s x)) = phishingAnalyses s"
  "deepfakeAnalyses (fst (MemStorage_createAlert s x)) = deepfakeAnalyses s"
  "honeypotLogs (fst (MemStorage_createAlert s x)) = honeypotLogs s"
  "alerts (fst (MemStorage_createAlert s x)) = map_set (currentAlertId s) (snd (MemStorage_createAlert s x)) (alerts s)"
  "systemStats (fst (MemStorage_createAlert s x)) = systemStats s"
  "currentThreatId (fst (MemStorage_createAlert s x)) = currentThreatId s"
  "currentPhishingId (fst (MemStorage_createAlert s x)) = currentPhishingId s"
  "currentDeepfakeId (fst (MemStorage_createAlert s x)) = currentDeepfakeId s"
  "currentHoneypotId (fst (MemStorage_createAlert s x)) = currentHoneypotId s"
  "currentAlertId (fst (MemStorage_createAlert s x)) = currentAlertId s + 1"
  "wsClients (fst (MemStorage_createAlert s x)) = wsClients s"
  "now (fst (MemStorage_createAlert s x)) = now s"
  "history (fst (MemStorage_createAlert s x)) = history s @ [CreateAlert (currentAlertId s)]"
  by (simp_all add: MemStorage_createAlert_def Let_def)

lemma MemoryStorage_createThreat_fields [simp]:
  "threats (fst (MemoryStorage_createThreat s x)) = map_set (currentThreatId s) (snd (MemoryStorage_createThreat s x)) (threats s)"
  "phishingAnalyses (fst (MemoryStorage_createThreat s x)) = phishingAnalyses s"
  "deepfakeAnalyses (fst (MemoryStorage_createThreat s x)) = deepfakeAnalyses s"
  "honeypotLogs (fst (MemoryStorage_createThreat s x)) = honeypotLogs s"
  "alerts (fst (MemoryStorage_createThreat s x)) = alerts s"
  "systemStats (fst (MemoryStorage_createThreat s x)) = systemStats s"
  "currentThreatId (fst (MemoryStorage_createThreat s x)) = currentThreatId s + 1"
  "currentPhishingId (fst (MemoryStorage_createThreat s x)) = currentPhishingId s"
  "currentDeepfakeId (fst (MemoryStorage_createThreat s x)) = currentDeepfakeId s"
  "currentHoneypotId (fst (MemoryStorage_createThreat s x)) = currentHoneypotId s"
  "currentAlertId (fst (MemoryStorage_createThreat s x)) = currentAlertId s"
  "wsClients (fst (MemoryStorage_createThreat s x)) = wsClients s"
  "now (fst (MemoryStorage_createThreat s x)) = now s"
  "history (fst (MemoryStorage_createThreat s x)) = history s @ [CreateThreat (currentThreatId s)]"
  by (simp_all add: MemoryStorage_createThreat_def Let_def)

lemma MemoryStorage_createPhishingAnalysis_fields [simp]:
  "threats (fst (MemoryStorage_createPhishingAnalysis s x)) = threats s"
  "phishingAnalyses (fst (MemoryStorage_createPhishingAnalysis s x)) = map_set (currentPhishingId s) (snd (MemoryStorage_createPhishingAnalysis s x)) (phishingAnalyses s)"
  "deepfakeAnalyses (fst (MemoryStorage_createPhishingAnalysis s x)) = deepfakeAnalyses s"
  "honeypotLogs (fst (MemoryStorage_createPhishingAnalysis s x)) = honeypotLogs s"
  "alerts (fst (MemoryStorage_createPhishingAnalysis s x)) = alerts s"
  "systemStats (fst (MemoryStorage_createPhishingAnalysis s x)) = systemStats s"
  "currentThreatId (fst (MemoryStorage_createPhishingAnalysis s x)) = currentThreatId s"
  "currentPhishingId (fst (MemoryStorage_createPhishingAnalysis s x)) = currentPhishingId s + 1"
  "currentDeepfakeId (fst (MemoryStorage_createPhishingAnalysis s x)) = currentDeepfakeId s"
  "currentHoneypotId (fst (MemoryStorage_createPhishingAnalysis s x)) = currentHoneypotId s"
  "currentAlertId (fst (MemoryStorage_createPhishingAnalysis s x)) = currentAlertId s"
  "wsClients (fst (MemoryStorage_createPhishingAnalysis s x)) = wsClients s"
  "now (fst (MemoryStorage_createPhishingAnalysis s x)) = now s"
  "history (fst (MemoryStorage_createPhishingAnalysis s x)) = history s @ [CreatePhishingAnalysis (currentPhishingId s)]"
  by (simp_all add: MemoryStorage_createPhishingAnalysis_def Let_def)

lemma MemoryStorage_createDeepfakeAnalysis_fields [simp]:
  "threats (fst (MemoryStorage_createDeepfakeAnalysis s x)) = threats s"
  "phishingAnalyses (fst (MemoryStorage_createDeepfakeAnalysis s x)) = phishingAnalyses s"
  "deepfakeAnalyses (fst (MemoryStorage_createDeepfakeAnalysis s x)) = map_set (currentDeepfakeId s) (snd (MemoryStorage_createDeepfakeAnalysis s x)) (deepfakeAnalyses s)"
  "honeypotLogs (fst (MemoryStorage_createDeepfakeAnalysis s x)) = honeypotLogs s"
  "alerts (fst (MemoryStorage_createDeepfakeAnalysis s x)) = alerts s"
  "systemStats (fst (MemoryStorage_createDeepfakeAnalysis s x)) = systemStats s"
  "currentThreatId (fst (MemoryStorage_createDeepfakeAnalysis s x)) = currentThreatId s"
  "currentPhishingId (fst (MemoryStorage_createDeepfakeAnalysis s x)) = currentPhishingId s"
  "currentDeepfakeId (fst (MemoryStorage_createDeepfakeAnalysis s x)) = currentDeepfakeId s + 1"
  "currentHoneypotId (fst (MemoryStorage_createDeepfakeAnalysis s x)) = currentHoneypotId s"
  "currentAlertId (fst (MemoryStorage_createDeepfakeAnalysis s x)) = currentAlertId s"
  "wsClients (fst (MemoryStorage_createDeepfakeAnalysis s x)) = wsClients s"
  "now (fst (MemoryStorage_createDeepfakeAnalysis s x)) = now s"
  "history (fst (MemoryStorage_createDeepfakeAnalysis s x)) = history s @ [CreateDeepfakeAnalysis (currentDeepfakeId s)]"
  by (simp_all add: MemoryStorage_createDeepfakeAnalysis_def Let_def)

lemma MemoryStorage_createHoneypotLog_fields [simp]:
  "threats (fst (MemoryStorage_createHoneypotLog s x)) = threats s"
  "phishingAnalyses (fst (MemoryStorage_createHoneypotLog s x)) = phishingAnalyses s"
  "deepfakeAnalyses (fst (MemoryStorage_createHoneypotLog s x)) = deepfakeAnalyses s"
  "honeypotLogs (fst (MemoryStorage_createHoneypotLog s x)) = map_set (currentHoneypotId s) (snd (MemoryStorage_createHoneypotLog s x)) (honeypotLogs s)"
  "alerts (fst (MemoryStorage_createHoneypotLog s x)) = alerts s"
  "systemStats (fst (MemoryStorage_createHoneypotLog s x)) = systemStats s"
  "currentThreatId (fst (MemoryStorage_createHoneypotLog s x)) = currentThreatId s"
  "currentPhishingId (fst (MemoryStorage_createHoneypotLog s x)) = currentPhishingId s"
  "currentDeepfakeId (fst (MemoryStorage_createHoneypotLog s x)) = currentDeepfakeId s"
  "currentHoneypotId (fst (MemoryStorage_createHoneypotLog s x)) = currentHoneypotId s + 1"
  "currentAlertId (fst (MemoryStorage_createHoneypotLog s x)) = currentAlertId s"
  "wsClients (fst (MemoryStorage_createHoneypotLog s x)) = wsClients s"
  "now (fst (MemoryStorage_createHoneypotLog s x)) = now s"
  "history (fst (MemoryStorage_createHoneypotLog s x)) = history s @ [CreateHoneypotLog (currentHoneypotId s)]"
  by (simp_all add: MemoryStorage_createHoneypotLog_def Let_def)

lemma MemoryStorage_createAlert_fields [simp]:
  "threats (fst (MemoryStorage_createAlert s x)) = threats s"
  "phishingAnalyses (fst (MemoryStorage_createAlert s x)) = phishingAnalyses s"
  "deepfakeAnalyses (fst (MemoryStorage_createAlert s x)) = deepfakeAnalyses s"
  "honeypotLogs (fst (MemoryStorage_createAlert s x)) = honeypotLogs s"
  "alerts (fst (MemoryStorage_createAlert s x)) = map_set (currentAlertId s) (snd (MemoryStorage_createAlert s x)) (alerts s)"
  "systemStats (fst (MemoryStorage_createAlert s x)) = systemStats s"
  "currentThreatId (fst (MemoryStorage_createAlert s x)) = currentThreatId s"
  "currentPhishingId (fst (MemoryStorage_createAlert s x)) = currentPhishingId s"
  "currentDeepfakeId (fst (MemoryStorage_createAlert s x)) = currentDeepfakeId s"
  "currentHoneypotId (fst (MemoryStorage_createAlert s x)) = currentHoneypotId s"
  "currentAlertId (fst (MemoryStorage_createAlert s x)) = currentAlertId s + 1"
  "wsClients (fst (MemoryStorage_createAlert s x)) = wsClients s"
  "now (fst (MemoryStorage_createAlert s x)) = now s"
  "history (fst (MemoryStorage_createAlert s x)) = history s @ [CreateAlert (currentAlertId s)]"
  by (simp_all add: MemoryStorage_createAlert_def Let_def)

lemma MemStorage_updateSystemStats_fields [simp]:
  "threats (fst (MemStorage_updateSystemStats s x)) = threats s"
  "phishingAnalyses (fst (MemStorage_updateSystemStats s x)) = phishingAnalyses s"
  "deepfakeAnalyses (fst (MemStorage_updateSystemStats s x)) = deepfakeAnalyses s"
  "honeypotLogs (fst (MemStorage_updateSystemStats s x)) = honeypotLogs s"
  "alerts (fst (MemStorage_updateSystemStats s x)) = alerts s"
  "systemStats (fst (MemStorage_updateSystemStats s x)) = Some (snd (MemStorage_updateSystemStats s x))"
  "currentThreatId (fst (MemStorage_updateSystemStats s x)) = currentThreatId s"
  "currentPhishingId (fst (MemStorage_updateSystemStats s x)) = currentPhishingId s"
  "currentDeepfakeId (fst (MemStorage_updateSystemStats s x)) = currentDeepfakeId s"
  "currentHoneypotId (fst (MemStorage_updateSystemStats s x)) = currentHoneypotId s"
  "currentAlertId (fst (MemStorage_updateSystemStats s x)) = currentAlertId s"
  "wsClients (fst (MemStorage_updateSystemStats s x)) = wsClients s"
  "now (fst (MemStorage_updateSystemStats s x)) = now s"
  "history (fst (MemStorage_updateSystemStats s x)) = history s @ [UpdateSystemStats (snd (MemStorage_updateSystemStats s x))]"
  by (simp_all add: MemStorage_updateSystemStats_def Let_def)

lemma broadcast_fields [simp]:
  "threats (fst (broadcast s x)) = threats s"
  "phishingAnalyses (fst (broadcast s x)) = phishingAnalyses s"
  "deepfakeAnalyses (fst (broadcast s x)) = deepfakeAnalyses s"
  "honeypotLogs (fst (broadcast s x)) = honeypotLogs s"
  "alerts (fst (broadcast s x)) = alerts s"
  "systemStats (fst (broadcast s x)) = systemStats s"
  "currentThreatId (fst (broadcast s x)) = currentThreatId s"
  "currentPhishingId (fst (broadcast s x)) = currentPhishingId s"
  "currentDeepfakeId (fst (broadcast s x)) = currentDeepfakeId s"
  "currentHoneypotId (fst (broadcast s x)) = currentHoneypotId s"
  "currentAlertId (fst (broadcast s x)) = currentAlertId s"
  "wsClients (fst (broadcast s x)) = fst (forEach_send (wsClients s) x)"
  "now (fst (broadcast s x)) = now s"
  "history (fst (broadcast s x)) = history s @ [Broadcast x]"
  by (simp_all add: broadcast_def Let_def case_prod_beta)

lemma broadcast_complete_fields [simp]:
  "threats (fst (broadcast_complete s x)) = threats s"
  "phishingAnalyses (fst (broadcast_complete s x)) = phishingAnalyses s"
  "deepfakeAnalyses (fst (broadcast_complete s x)) = deepfakeAnalyses s"
  "honeypotLogs (fst (broadcast_complete s x)) = honeypotLogs s"
  "alerts (fst (broadcast_complete s x)) = alerts s"
  "systemStats (fst (broadcast_complete s x)) = systemStats s"
  "currentThreatId (fst (broadcast_complete s x)) = currentThreatId s"
  "currentPhishingId (fst (broadcast_complete s x)) = currentPhishingId s"
  "currentDeepfakeId (fst (broadcast_complete s x)) = currentDeepfakeId s"
  "currentHoneypotId (fst (broadcast_complete s x)) = currentHoneypotId s"
  "currentAlertId (fst (broadcast_complete s x)) = currentAlertId s"
  "wsClients (fst (broadcast_complete s x)) = fst (forEach_send (wsClients s) x)"
  "now (fst (broadcast_complete s x)) = now s"
  "history (fst (broadcast_complete s x)) = history s @ [Broadcast x]"
  by (simp_all add: broadcast_complete_def Let_def case_prod_beta)

lemma sendAttackAlert_fields [simp]:
  "threats (fst (sendAttackAlert s x m)) = threats s"
  "phishingAnalyses (fst (sendAttackAlert s x m)) = phishingAnalyses s"
  "deepfakeAnalyses (fst (sendAttackAlert s x m)) = deepfakeAnalyses s"
  "honeypotLogs (fst (sendAttackAlert s x m)) = honeypotLogs s"
  "alerts (fst (sendAttackAlert s x m)) = alerts s"
  "systemStats (fst (sendAttackAlert s x m)) = systemStats s"
  "currentThreatId (fst (sendAttackAlert s x m)) = currentThreatId s"
  "currentPhishingId (fst (sendAttackAlert s x m)) = currentPhishingId s"
  "currentDeepfakeId (fst (sendAttackAlert s x m)) = currentDeepfakeId s"
  "currentHoneypotId (fst (sendAttackAlert s x m)) = currentHoneypotId s"
  "currentAlertId (fst (sendAttackAlert s x m)) = currentAlertId s"
  "wsClients (fst (sendAttackAlert s x m)) = wsClients s"
  "now (fst (sendAttackAlert s x m)) = now s"
  "history (fst (sendAttackAlert s x m)) = history s @ [SendAttackAlert x]"
  by (simp_all add: sendAttackAlert_def Let_def)

lemma sendAttackAlert_complete_fields [simp]:
  "threats (fst (sendAttackAlert_complete s x)) = threats s"
  "phishingAnalyses (fst (sendAttackAlert_complete s x)) = phishingAnalyses s"
  "deepfakeAnalyses (fst (sendAttackAlert_complete s x)) = deepfakeAnalyses s"
  "honeypotLogs (fst (sendAttackAlert_complete s x)) = honeypotLogs s"
  "alerts (fst (sendAttackAlert_complete s x)) = alerts s"
  "systemStats (fst (sendAttackAlert_complete s x)) = systemStats s"
  "currentThreatId (fst (sendAttackAlert_complete s x)) = currentThreatId s"
  "currentPhishingId (fst (sendAttackAlert_complete s x)) = currentPhishingId s"
  "currentDeepfakeId (fst (sendAttackAlert_complete s x)) = currentDeepfakeId s"
  "currentHoneypotId (fst (sendAttackAlert_complete s x)) = currentHoneypotId s"
  "currentAlertId (fst (sendAttackAlert_complete s x)) = currentAlertId s"
  "wsClients (fst (sendAttackAlert_complete s x)) = wsClients s"
  "now (fst (sendAttackAlert_complete s x)) = now s"
  "history (fst (sendAttackAlert_complete s x)) = history s @ [SendAttackAlert x]"
  by (simp_all add: sendAttackAlert_complete_def Let_def)

lemma MemoryStorage_updateSystemStats_fields [simp]:
  "threats (MemoryStorage_updateSystemStats s x) = threats s"
  "phishingAnalyses (MemoryStorage_updateSystemStats s x) = phishingAnalyses s"
  "deepfakeAnalyses (MemoryStorage_updateSystemStats s x) = deepfakeAnalyses s"
  "honeypotLogs (MemoryStorage_updateSystemStats s x) = honeypotLogs s"
  "alerts (MemoryStorage_updateSystemStats s x) = alerts s"
  "currentThreatId (MemoryStorage_updateSystemStats s x) = currentThreatId s"
  "currentPhishingId (MemoryStorage_updateSystemStats s x) = currentPhishingId s"
  "currentDeepfakeId (MemoryStorage_updateSystemStats s x) = currentDeepfakeId s"
  "currentHoneypotId (MemoryStorage_updateSystemStats s x) = currentHoneypotId s"
  "currentAlertId (MemoryStorage_updateSystemStats s x) = currentAlertId s"
  "wsClients (MemoryStorage_updateSystemStats s x) = wsClients s"
  "now (MemoryStorage_updateSystemStats s x) = now s"
  by (simp_all add: MemoryStorage_updateSystemStats_def Let_def split: option.splits)

lemma MemoryStorage_updateSystemStats_history [simp]:
  "systemStats s = Some st \<Longrightarrow>
   history (MemoryStorage_updateSystemStats s x) =
     history s @ [UpdateSystemStats ((spread_stats st x)\<lparr>updatedAt := now s\<rparr>)]"
  "systemStats s = Some st \<Longrightarrow>
   systemStats (MemoryStorage_updateSystemStats s x) =
     Some ((spread_stats st x)\<lparr>updatedAt := now s\<rparr>)"
  by (simp_all add: MemoryStorage_updateSystemStats_def Let_def)

lemma snd_broadcast [simp]:
  "snd (broadcast s m) = snd (forEach_send (wsClients s) m)"
  "snd (broadcast_complete s m) = snd (forEach_send (wsClients s) m)"
  by (simp_all add: broadcast_def broadcast_complete_def case_prod_beta)

lemma snd_updateSystemStats:
  "systemStats s = Some st \<Longrightarrow>
   snd (MemStorage_updateSystemStats s x) = (spread_stats st x)\<lparr>updatedAt := now s\<rparr>"
  by (simp add: MemStorage_updateSystemStats_def Let_def)

lemma created_threat [simp]:
  "threat_id (snd (MemStorage_createThreat s x)) = currentThreatId s"
  "threat_type (snd (MemStorage_createThreat s x)) = new_threat_type x"
  "threat_severity (snd (MemStorage_createThreat s x)) = new_threat_severity x"
  "threat_id (snd (MemoryStorage_createThreat s x)) = currentThreatId s"
  "threat_type (snd (MemoryStorage_createThreat s x)) = new_threat_type x"
  "threat_severity (snd (MemoryStorage_createThreat s x)) = new_threat_severity x"
  by (simp_all add: MemStorage_createThreat_def MemoryStorage_createThreat_def Let_def)

lemma created_alert [simp]:
  "alert_id (snd (MemStorage_createAlert s x)) = currentAlertId s"
  "alert_title (snd (MemStorage_createAlert s x)) = new_alert_title x"
  "alert_title (snd (MemoryStorage_createAlert s x)) = new_alert_title x"
  "alert_severity (snd (MemStorage_createAlert s x)) = new_alert_severity x"
  "alert_category (snd (MemStorage_createAlert s x)) = new_alert_category x"
  "alert_id (snd (MemoryStorage_createAlert s x)) = currentAlertId s"
  "alert_severity (snd (MemoryStorage_createAlert s x)) = new_alert_severity x"
  "alert_category (snd (MemoryStorage_createAlert s x)) = new_alert_category x"
  by (simp_all add: MemStorage_createAlert_def MemoryStorage_createAlert_def Let_def)

lemma created_phishing [simp]:
  "phishing_id (snd (MemStorage_createPhishingAnalysis s x)) = currentPhishingId s"
  "phishing_content (snd (MemStorage_createPhishingAnalysis s x)) = new_phishing_content x"
  "phishing_score (snd (MemStorage_createPhishingAnalysis s x)) = new_phishing_score x"
  "phishing_id (snd (MemoryStorage_createPhishingAnalysis s x)) = currentPhishingId s"
  "phishing_content (snd (MemoryStorage_createPhishingAnalysis s x)) = new_phishing_content x"
  "phishing_score (snd (MemoryStorage_createPhishingAnalysis s x)) = new_phishing_score x"
  by (simp_all add: MemStorage_createPhishingAnalysis_def
        MemoryStorage_createPhishingAnalysis_def Let_def)

lemma created_deepfake [simp]:
  "deepfake_id (snd (MemStorage_createDeepfakeAnalysis s x)) = currentDeepfakeId s"
  "deepfake_isDeepfake (snd (MemStorage_createDeepfakeAnalysis s x)) = new_deepfake_isDeepfake x"
  "deepfake_confidence (snd (MemStorage_createDeepfakeAnalysis s x)) = new_deepfake_confidence x"
  "deepfake_id (snd (MemoryStorage_createDeepfakeAnalysis s x)) = currentDeepfakeId s"
  "deepfake_isDeepfake (snd (MemoryStorage_createDeepfakeAnalysis s x)) = new_deepfake_isDeepfake x"
  "deepfake_confidence (snd (MemoryStorage_createDeepfakeAnalysis s x)) = new_deepfake_confidence x"
  by (simp_all add: MemStorage_createDeepfakeAnalysis_def
        MemoryStorage_createDeepfakeAnalysis_def Let_def)

lemma created_log [simp]:
  "log_id (snd (MemStorage_createHoneypotLog s x)) = currentHoneypotId s"
  "log_service (snd (MemStorage_createHoneypotLog s x)) = new_log_service x"
  "log_severity (snd (MemStorage_createHoneypotLog s x)) = new_log_severity x"
  "log_id (snd (MemoryStorage_createHoneypotLog s x)) = currentHoneypotId s"
  "log_service (snd (MemoryStorage_createHoneypotLog s x)) = new_log_service x"
  "log_severity (snd (MemoryStorage_createHoneypotLog s x)) = new_log_severity x"
  by (simp_all add: MemStorage_createHoneypotLog_def MemoryStorage_createHoneypotLog_def Let_def)

lemma object_literals [simp]:
  "new_threat_severity (email_threat result analysis) =
     (if score result \<ge> 90 then ''critical'' else ''high'')"
  "new_threat_type (email_threat result analysis) = ''phishing''"
  "new_alert_severity (email_alert result analysis threat) = threat_severity threat"
  "new_alert_category (email_alert result analysis threat) = ''email''"
  "new_phishing_content (email_analysis c result) = c"
  "new_phishing_score (email_analysis c result) = score result"
  "new_threat_severity (media_threat dresult danalysis) =
     (if detection_confidence dresult \<ge> 95 then ''critical'' else ''high'')"
  "new_threat_type (media_threat dresult danalysis) = ''deepfake''"
  "new_alert_severity (media_alert dresult danalysis threat) = threat_severity threat"
  "new_alert_category (media_alert dresult danalysis threat) = ''media''"
  "new_deepfake_isDeepfake (media_analysis f dresult) = isDeepfake dresult"
  "new_deepfake_confidence (media_analysis f dresult) = detection_confidence dresult"
  "new_threat_severity (phishing_threat_complete result analysis) =
     (if score result > 90 then ''critical'' else ''high'')"
  "new_threat_type (phishing_threat_complete result analysis) = ''phishing''"
  "new_threat_severity (deepfake_threat_complete name dresult danalysis) =
     (if detection_confidence dresult > 0.8 then ''high'' else ''medium'')"
  "new_threat_type (deepfake_threat_complete name dresult danalysis) = ''deepfake''"
  "new_deepfake_isDeepfake (deepfake_analysis_complete name ftype n dresult) = isDeepfake dresult"
  "new_deepfake_confidence (deepfake_analysis_complete name ftype n dresult) =
     detection_confidence dresult"
  "new_alert_severity (attack_alert attack) = severity attack"
  "new_alert_category (attack_alert attack) = ''honeypot''"
  "new_alert_severity (attack_alert_complete attack location honeypotLog) = severity attack"
  "new_alert_category (attack_alert_complete attack location honeypotLog) = ''honeypot''"
  "new_log_service (attack_log attack location) = service attack"
  "new_log_severity (attack_log attack location) = severity attack"
  "new_log_service (attack_log_complete attack location) = service attack"
  "new_log_severity (attack_log_complete attack location) = severity attack"
  by (simp_all add: email_threat_def email_alert_def email_analysis_def media_threat_def
        media_alert_def media_analysis_def phishing_threat_complete_def
        deepfake_threat_complete_def deepfake_analysis_complete_def attack_alert_def
        attack_alert_complete_def attack_log_def attack_log_complete_def)

lemma effects_of_drop [simp]: "effects_of s s' = drop (length (history s)) (history s')"
  by (simp add: effects_of_def)

section \<open>Lemmas about broadcast\<close>


lemma forEach_send_general:
  "forEach_send clients data =
     (delivered data (takeWhile (\<lambda>hc. \<not> throwing hc) clients) @
        dropWhile (\<lambda>hc. \<not> throwing hc) clients,
      if list_ex throwing clients then Throws else Returns)"
  by (induction clients data rule: forEach_send.induct)
     (auto simp: throwing_def delivered_def)


lemma forEach_send_states [simp]:
  "map (\<lambda>hc. readyState (snd hc)) (fst (forEach_send clients data)) =
   map (\<lambda>hc. readyState (snd hc)) clients"
  by (induction clients data rule: forEach_send.induct) (auto simp: case_prod_beta)

lemma snd_forEach_send:
  "snd (forEach_send clients data) = (if list_ex throwing clients then Throws else Returns)"
  by (simp add: forEach_send_general)

lemma broadcasts_append [simp]: "broadcasts (es @ es') = broadcasts es @ broadcasts es'"
  by (induction es rule: broadcasts.induct) auto

section \<open>Lemmas about the honeypot manager\<close>

lemma logAttack_until_mail_fields [simp]:
  "threats (logAttack_until_mail s attack location m) = threats s"
  "alerts (logAttack_until_mail s attack location m) = alerts s"
  "systemStats (logAttack_until_mail s attack location m) = systemStats s"
  "currentAlertId (logAttack_until_mail s attack location m) = currentAlertId s"
  "currentHoneypotId (logAttack_until_mail s attack location m) = currentHoneypotId s + 1"
  "wsClients (logAttack_until_mail s attack location m) = wsClients s"
  "now (logAttack_until_mail s attack location m) = now s"
  "honeypotLogs (logAttack_until_mail s attack location m) =
     map_set (currentHoneypotId s)
       (snd (MemStorage_createHoneypotLog s (attack_log attack location))) (honeypotLogs s)"
  by (simp_all add: logAttack_until_mail_def case_prod_beta)

lemma logAttack_until_mail_history:
  "history (logAttack_until_mail s attack location m) =
     history s @ [CreateHoneypotLog (currentHoneypotId s)] @
     (if service attack = ''ssh'' \<and> (severity attack = ''high'' \<or> severity attack = ''critical'')
      then [SendAttackAlert (attack_email attack location (now s))] else [])"
  by (simp add: logAttack_until_mail_def case_prod_beta)

lemma logAttack_after_mail_fields [simp]:
  "threats (logAttack_after_mail s) = threats s"
  "alerts (logAttack_after_mail s) = alerts s"
  "honeypotLogs (logAttack_after_mail s) = honeypotLogs s"
  "currentAlertId (logAttack_after_mail s) = currentAlertId s"
  "currentHoneypotId (logAttack_after_mail s) = currentHoneypotId s"
  "wsClients (logAttack_after_mail s) = wsClients s"
  "now (logAttack_after_mail s) = now s"
  by (simp_all add: logAttack_after_mail_def MemStorage_getSystemStats_def split: option.splits)

lemma logAttack_after_mail_history:
  "history (logAttack_after_mail s) =
     history s @
     (case systemStats s of
        Some st \<Rightarrow> [UpdateSystemStats (st\<lparr>honeypotHits := honeypotHits st + 1,
                                            updatedAt := now s\<rparr>)]
      | None \<Rightarrow> [])"
  by (simp add: logAttack_after_mail_def MemStorage_getSystemStats_def
        snd_updateSystemStats hits_stats_def spread_stats_def no_stats_def
        split: option.splits)

lemma logAttack_after_mail_stats:
  "systemStats (logAttack_after_mail s) =
     (case systemStats s of
        Some st \<Rightarrow> Some (st\<lparr>honeypotHits := honeypotHits st + 1, updatedAt := now s\<rparr>)
      | None \<Rightarrow> None)"
  by (simp add: logAttack_after_mail_def MemStorage_getSystemStats_def
        snd_updateSystemStats hits_stats_def spread_stats_def no_stats_def
        split: option.splits)

lemma logAttack_fields [simp]:
  "threats (logAttack s attack location m) = threats s"
  "alerts (logAttack s attack location m) = alerts s"
  "currentAlertId (logAttack s attack location m) = currentAlertId s"
  "currentHoneypotId (logAttack s attack location m) = currentHoneypotId s + 1"
  "wsClients (logAttack s attack location m) = wsClients s"
  "now (logAttack s attack location m) = now s"
  "honeypotLogs (logAttack s attack location m) =
     map_set (currentHoneypotId s)
       (snd (MemStorage_createHoneypotLog s (attack_log attack location))) (honeypotLogs s)"
  by (simp_all add: logAttack_def)

lemma logAttack_history:
  "history (logAttack s attack location m) =
     history s @ [CreateHoneypotLog (currentHoneypotId s)] @
     (if service attack = ''ssh'' \<and> (severity attack = ''high'' \<or> severity attack = ''critical'')
      then [SendAttackAlert (attack_email attack location (now s))] else []) @
     (case systemStats s of
        Some st \<Rightarrow> [UpdateSystemStats (st\<lparr>honeypotHits := honeypotHits st + 1,
                                            updatedAt := now s\<rparr>)]
      | None \<Rightarrow> [])"
  by (simp add: logAttack_def logAttack_after_mail_history logAttack_until_mail_history
        split: option.splits)

lemma logAttack_stats:
  "systemStats (logAttack s attack location m) =
     (case systemStats s of
        Some st \<Rightarrow> Some (st\<lparr>honeypotHits := honeypotHits st + 1, updatedAt := now s\<rparr>)
      | None \<Rightarrow> None)"
  by (simp add: logAttack_def logAttack_after_mail_stats split: option.splits)

section \<open>The simulated attacks\<close>

lemma random_below_less:
  assumes "0 \<le> u" and "u < 1" and "0 < n"
  shows "random_below u n < n"
proof -
  have "u * real n < real n"
    using assms by simp
  hence "\<lfloor>u * real n\<rfloor> < int n"
    by (simp add: floor_less_iff)
  moreover have "0 \<le> \<lfloor>u * real n\<rfloor>"
    using assms by simp
  ultimately show ?thesis
    unfolding random_below_def by linarith
qed

lemma getRandomSeverity_member:
  assumes "0 \<le> u" and "u < 1" and "severities \<noteq> []"
  shows "getRandomSeverity severities u \<in> set severities"
  unfolding getRandomSeverity_def
  using random_below_less [OF assms(1,2), of "length severities"] assms(3) by simp

lemma ssh_attack_fields [simp]:
  "service (ssh_attack rnd) = ''ssh''"
  "severity (ssh_attack rnd) = getRandomSeverity [''medium'', ''high''] (rnd 22)"
  "port (ssh_attack rnd) = 22"
  by (simp_all add: ssh_attack_def Let_def)

lemma http_attack_fields [simp]:
  "service (http_attack rnd) = ''http''"
  "severity (http_attack rnd) = getRandomSeverity [''low'', ''medium''] (rnd 42)"
  by (simp_all add: http_attack_def Let_def)

lemma ftp_attack_fields [simp]:
  "service (ftp_attack rnd) = ''ftp''"
  "severity (ftp_attack rnd) = getRandomSeverity [''low'', ''medium''] (rnd 14)"
  "port (ftp_attack rnd) = 21"
  by (simp_all add: ftp_attack_def Let_def)

lemma ssh_attack_complete_fields [simp]:
  "service (ssh_attack_complete rnd t) = ''ssh''"
  "severity (ssh_attack_complete rnd t) =
     getRandomSeverity [''low'', ''medium'', ''high'', ''critical''] (rnd 5)"
  by (simp_all add: ssh_attack_complete_def Let_def)

lemma http_attack_complete_fields [simp]:
  "service (http_attack_complete rnd t) = ''http''"
  "severity (http_attack_complete rnd t) =
     getRandomSeverity [''low'', ''medium'', ''high''] (rnd 5)"
  by (simp_all add: http_attack_complete_def Let_def)

lemma ftp_attack_complete_fields [simp]:
  "service (ftp_attack_complete rnd) = ''ftp''"
  "severity (ftp_attack_complete rnd) =
     getRandomSeverity [''low'', ''medium'', ''high''] (rnd 5)"
  by (simp_all add: ftp_attack_complete_def Let_def)

text \<open>
  In the TypeScript server only the ssh simulation draws from a list with \<open>high\<close> in
  it, and none draws \<open>critical\<close>.
\<close>

lemma simulated_severity:
  assumes "\<forall>k. 0 \<le> rnd k \<and> rnd k < 1"
  shows "severity (ssh_attack rnd) \<in> {''medium'', ''high''}"
    and "severity (http_attack rnd) \<in> {''low'', ''medium''}"
    and "severity (ftp_attack rnd) \<in> {''low'', ''medium''}"
  using getRandomSeverity_member [of "rnd 22" "[''medium'', ''high'']"]
    getRandomSeverity_member [of "rnd 42" "[''low'', ''medium'']"]
    getRandomSeverity_member [of "rnd 14" "[''low'', ''medium'']"] assms
  by simp_all

lemma simulated_high_is_ssh:
  assumes draws: "\<forall>k. 0 \<le> rnd k \<and> rnd k < 1"
      and simulated: "attack = ssh_attack rnd \<or> attack = http_attack rnd \<or> attack = ftp_attack rnd"
      and high: "severity attack = ''high'' \<or> severity attack = ''critical''"
  shows "service attack = ''ssh''"
proof -
  consider "attack = ssh_attack rnd" | "attack = http_attack rnd" | "attack = ftp_attack rnd"
    using simulated by blast
  thus ?thesis
  proof cases
    case 1
    thus ?thesis by simp
  next
    case 2
    hence "severity attack \<in> {''low'', ''medium''}"
      using simulated_severity(2) [OF draws] by simp
    thus ?thesis using high by auto
  next
    case 3
    hence "severity attack \<in> {''low'', ''medium''}"
      using simulated_severity(3) [OF draws] by simp
    thus ?thesis using high by auto
  qed
qed

text \<open>
  What an attack does to the TypeScript server, whatever its service: the listener of
  \<open>routes.ts\<close> looks at the severity only, \<open>logAttack\<close> sends the e-mail for ssh only.
\<close>

lemma submitHoneypotAttack_log:
  "\<exists>entry. map_get (honeypotLogs (submitHoneypotAttack s attack location m))
       (currentHoneypotId s) = Some entry
     \<and> log_service entry = service attack \<and> log_severity entry = severity attack"
  by (simp add: submitHoneypotAttack_def on_attack_def case_prod_beta)

lemma submitHoneypotAttack_creates:
  "filter is_CreateAlert (effects_of s (submitHoneypotAttack s attack location m)) =
     (if severity attack = ''high'' \<or> severity attack = ''critical''
      then [CreateAlert (currentAlertId s)] else [])"
  by (simp add: submitHoneypotAttack_def on_attack_def case_prod_beta logAttack_history
        split: option.splits)

lemma submitHoneypotAttack_alert:
  assumes "severity attack = ''high'' \<or> severity attack = ''critical''"
  shows "\<exists>alert. map_get (alerts (submitHoneypotAttack s attack location m))
           (currentAlertId s) = Some alert
         \<and> alert_title alert = toUpperCase (service attack) @ '' Honeypot Attack''
         \<and> alert_category alert = ''honeypot'' \<and> alert_severity alert = severity attack"
  using assms
  by (auto simp add: submitHoneypotAttack_def on_attack_def case_prod_beta)
     (simp_all add: attack_alert_def)

lemma submitHoneypotAttack_no_alert:
  assumes "severity attack \<noteq> ''high''" and "severity attack \<noteq> ''critical''"
  shows "alerts (submitHoneypotAttack s attack location m) = alerts s"
  using assms by (simp add: submitHoneypotAttack_def on_attack_def case_prod_beta)

lemma submitHoneypotAttack_mail:
  "list_ex is_SendAttackAlert (effects_of s (submitHoneypotAttack s attack location m)) =
     (service attack = ''ssh'' \<and> (severity attack = ''high'' \<or> severity attack = ''critical''))"
  by (simp add: submitHoneypotAttack_def on_attack_def case_prod_beta logAttack_history
        split: option.splits)

text \<open>What an attack does to the single file: \<open>logAttack\<close> looks at service and severity.\<close>

lemma logAttack_complete_log:
  "\<exists>entry. map_get (honeypotLogs (logAttack_complete s attack location n))
       (currentHoneypotId s) = Some entry
     \<and> log_service entry = service attack \<and> log_severity entry = severity attack"
  by (simp add: logAttack_complete_def case_prod_beta MemoryStorage_getSystemStats_def
        split: completion.splits option.splits)

lemma logAttack_complete_creates:
  "filter is_CreateAlert (effects_of s (logAttack_complete s attack location n)) =
     (if service attack = ''ssh'' \<and> (severity attack = ''high'' \<or> severity attack = ''critical'')
      then [CreateAlert (currentAlertId s)] else [])"
  by (simp add: logAttack_complete_def case_prod_beta MemoryStorage_getSystemStats_def
        split: completion.splits option.splits)

lemma logAttack_complete_alert:
  assumes "service attack = ''ssh''"
    and "severity attack = ''high'' \<or> severity attack = ''critical''"
  shows "\<exists>alert. map_get (alerts (logAttack_complete s attack location n))
           (currentAlertId s) = Some alert
         \<and> alert_title alert = ''SSH Honeypot Attack''
         \<and> alert_category alert = ''honeypot'' \<and> alert_severity alert = severity attack"
  using assms
  by (auto simp add: logAttack_complete_def case_prod_beta MemoryStorage_getSystemStats_def
        split: completion.splits option.splits)
     (simp_all add: attack_alert_complete_def)

lemma logAttack_complete_no_alert:
  assumes "service attack \<noteq> ''ssh'' \<or>
           (severity attack \<noteq> ''high'' \<and> severity attack \<noteq> ''critical'')"
  shows "alerts (logAttack_complete s attack location n) = alerts s"
  using assms
  by (auto simp add: logAttack_complete_def case_prod_beta MemoryStorage_getSystemStats_def
        split: completion.splits option.splits)

section \<open>Lemmas about sockets\<close>




lemma fst_forEach_send:
  "fst (forEach_send clients data) =
     delivered data (takeWhile (\<lambda>hc. \<not> throwing hc) clients) @
     dropWhile (\<lambda>hc. \<not> throwing hc) clients"
  by (simp add: forEach_send_general)

section \<open>The honeypot counters along a run\<close>

lemma hits_spread:
  "set_honeypotHits x = None \<Longrightarrow> honeypotHits (spread_stats st x) = honeypotHits st"
  by (simp add: spread_stats_def)

lemma markAlertAsRead_fields [simp]:
  "systemStats (MemStorage_markAlertAsRead s i) = systemStats s"
  "honeypotLogs (MemStorage_markAlertAsRead s i) = honeypotLogs s"
  "currentHoneypotId (MemStorage_markAlertAsRead s i) = currentHoneypotId s"
  "history (MemStorage_markAlertAsRead s i) = history s"
  by (simp_all add: MemStorage_markAlertAsRead_def split: option.splits)

lemma markAll_fold_fields:
  "systemStats (fold (\<lambda>alert s'. s'\<lparr>alerts := g alert s'\<rparr>) xs s) = systemStats s
   \<and> honeypotLogs (fold (\<lambda>alert s'. s'\<lparr>alerts := g alert s'\<rparr>) xs s) = honeypotLogs s
   \<and> currentHoneypotId (fold (\<lambda>alert s'. s'\<lparr>alerts := g alert s'\<rparr>) xs s) = currentHoneypotId s
   \<and> history (fold (\<lambda>alert s'. s'\<lparr>alerts := g alert s'\<rparr>) xs s) = history s"
  by (induction xs arbitrary: s) simp_all

lemma markAllAlertsAsRead_fields [simp]:
  "systemStats (MemStorage_markAllAlertsAsRead s) = systemStats s"
  "honeypotLogs (MemStorage_markAllAlertsAsRead s) = honeypotLogs s"
  "currentHoneypotId (MemStorage_markAllAlertsAsRead s) = currentHoneypotId s"
  "history (MemStorage_markAllAlertsAsRead s) = history s"
  using markAll_fold_fields
    [of "\<lambda>alert s'. map_set (alert_id alert) (alert\<lparr>alert_isRead := True\<rparr>) (alerts s')"
        "map_values (alerts s)" s]
  by (simp_all add: MemStorage_markAllAlertsAsRead_def)

lemma analyze_email_honeypot [simp]:
  "hits (fst (analyze_email s content result)) = hits s"
  "honeypotLogs (fst (analyze_email s content result)) = honeypotLogs s"
  "currentHoneypotId (fst (analyze_email s content result)) = currentHoneypotId s"
  "filter is_CreateHoneypotLog (history (fst (analyze_email s content result))) =
     filter is_CreateHoneypotLog (history s)"
  by (simp_all add: analyze_email_def case_prod_beta hits_def MemStorage_getSystemStats_def
        snd_updateSystemStats email_stats_def hits_spread no_stats_def
        split: option.splits json.splits completion.splits)

lemma analyze_deepfake_honeypot [simp]:
  "hits (fst (analyze_deepfake s file result)) = hits s"
  "honeypotLogs (fst (analyze_deepfake s file result)) = honeypotLogs s"
  "currentHoneypotId (fst (analyze_deepfake s file result)) = currentHoneypotId s"
  "filter is_CreateHoneypotLog (history (fst (analyze_deepfake s file result))) =
     filter is_CreateHoneypotLog (history s)"
  by (simp_all add: analyze_deepfake_def case_prod_beta hits_def MemStorage_getSystemStats_def
        snd_updateSystemStats media_stats_def hits_spread no_stats_def
        split: option.splits completion.splits)

lemma submitHoneypotAttack_honeypot:
  "hits (submitHoneypotAttack s attack location m) = map_option (\<lambda>n. n + 1) (hits s)"
  "honeypotLogs (submitHoneypotAttack s attack location m) =
     map_set (currentHoneypotId s)
       (snd (MemStorage_createHoneypotLog s (attack_log attack location))) (honeypotLogs s)"
  "currentHoneypotId (submitHoneypotAttack s attack location m) = currentHoneypotId s + 1"
  "filter is_CreateHoneypotLog (history (submitHoneypotAttack s attack location m)) =
     filter is_CreateHoneypotLog (history s) @ [CreateHoneypotLog (currentHoneypotId s)]"
  by (simp_all add: submitHoneypotAttack_def on_attack_def case_prod_beta hits_def
        logAttack_stats logAttack_history split: option.splits)

lemma logAttack_until_mail_honeypot:
  "hits (logAttack_until_mail s attack location m) = hits s"
  "filter is_CreateHoneypotLog (history (logAttack_until_mail s attack location m)) =
     filter is_CreateHoneypotLog (history s) @ [CreateHoneypotLog (currentHoneypotId s)]"
  by (simp_all add: hits_def logAttack_until_mail_history)

lemma resumeHoneypotAttack_honeypot:
  "hits (resumeHoneypotAttack s attack) = map_option (\<lambda>n. n + 1) (hits s)"
  "honeypotLogs (resumeHoneypotAttack s attack) = honeypotLogs s"
  "currentHoneypotId (resumeHoneypotAttack s attack) = currentHoneypotId s"
  "filter is_CreateHoneypotLog (history (resumeHoneypotAttack s attack)) =
     filter is_CreateHoneypotLog (history s)"
  by (simp_all add: resumeHoneypotAttack_def on_attack_def case_prod_beta hits_def
        logAttack_after_mail_stats logAttack_after_mail_history split: option.splits)

lemma small_handlers_honeypot [simp]:
  "hits (fst (alerts_read s i)) = hits s"
  "honeypotLogs (fst (alerts_read s i)) = honeypotLogs s"
  "currentHoneypotId (fst (alerts_read s i)) = currentHoneypotId s"
  "history (fst (alerts_read s i)) = history s"
  "hits (fst (alerts_read_all s)) = hits s"
  "honeypotLogs (fst (alerts_read_all s)) = honeypotLogs s"
  "currentHoneypotId (fst (alerts_read_all s)) = currentHoneypotId s"
  "history (fst (alerts_read_all s)) = history s"
  "hits (stats_tick s) = hits s"
  "honeypotLogs (stats_tick s) = honeypotLogs s"
  "currentHoneypotId (stats_tick s) = currentHoneypotId s"
  "filter is_CreateHoneypotLog (history (stats_tick s)) =
     filter is_CreateHoneypotLog (history s)"
  "hits (on_connection s h ws) = hits s"
  "honeypotLogs (on_connection s h ws) = honeypotLogs s"
  "currentHoneypotId (on_connection s h ws) = currentHoneypotId s"
  "history (on_connection s h ws) = history s"
  "hits (on_close s h) = hits s"
  "honeypotLogs (on_close s h) = honeypotLogs s"
  "currentHoneypotId (on_close s h) = currentHoneypotId s"
  "history (on_close s h) = history s"
  by (simp_all add: alerts_read_def alerts_read_all_def stats_tick_def on_connection_def
        on_close_def hits_def MemStorage_getSystemStats_def split: option.splits)


text \<open>
  What a step does to the counter, the logs and the calls that wait. A step counts when
  it is an attack that does not wait, or the answer to a call that waits; it logs when it
  is an attack.
\<close>

lemma step_hits:
  "hits (store (step p e)) =
     (case e of
        Attack attack location m \<Rightarrow>
          if awaits_mail attack m then hits (store p)
          else map_option (\<lambda>n. n + 1) (hits (store p))
      | MailAnswered i \<Rightarrow>
          if i < length (awaiting p) then map_option (\<lambda>n. n + 1) (hits (store p))
          else hits (store p)
      | _ \<Rightarrow> hits (store p))"
  by (cases e)
     (simp_all add: submitHoneypotAttack_honeypot logAttack_until_mail_honeypot
        resumeHoneypotAttack_honeypot, simp_all add: hits_def)

lemma step_awaiting:
  "length (awaiting (step p e)) =
     (case e of
        Attack attack location m \<Rightarrow>
          if awaits_mail attack m then Suc (length (awaiting p)) else length (awaiting p)
      | MailAnswered i \<Rightarrow>
          if i < length (awaiting p) then length (awaiting p) - 1 else length (awaiting p)
      | _ \<Rightarrow> length (awaiting p))"
  by (cases e) auto

lemma step_currentHoneypotId:
  "currentHoneypotId (store (step p e)) =
     (if is_Attack e then currentHoneypotId (store p) + 1 else currentHoneypotId (store p))"
  by (cases e) (simp_all add: submitHoneypotAttack_honeypot resumeHoneypotAttack_honeypot)

lemma step_keys:
  "fst ` set (honeypotLogs (store (step p e))) =
     (if is_Attack e
      then insert (currentHoneypotId (store p)) (fst ` set (honeypotLogs (store p)))
      else fst ` set (honeypotLogs (store p)))"
  by (cases e)
     (simp_all add: submitHoneypotAttack_honeypot resumeHoneypotAttack_honeypot keys_map_set)

lemma step_length:
  "currentHoneypotId (store p) \<notin> fst ` set (honeypotLogs (store p)) \<Longrightarrow>
   length (honeypotLogs (store (step p e))) =
     (if is_Attack e then Suc (length (honeypotLogs (store p)))
      else length (honeypotLogs (store p)))"
  by (cases e)
     (simp_all add: submitHoneypotAttack_honeypot resumeHoneypotAttack_honeypot map_set_fresh)

lemma step_created:
  "length (filter is_CreateHoneypotLog (history (store (step p e)))) =
     (if is_Attack e then Suc (length (filter is_CreateHoneypotLog (history (store p))))
      else length (filter is_CreateHoneypotLog (history (store p))))"
  by (cases e)
     (simp_all add: submitHoneypotAttack_honeypot resumeHoneypotAttack_honeypot
        logAttack_until_mail_honeypot)

lemma honeypot_inv_step:
  assumes "honeypot_inv p n"
  shows "honeypot_inv (step p e) (if is_Attack e then Suc n else n)"
proof -
  have fresh: "currentHoneypotId (store p) \<notin> fst ` set (honeypotLogs (store p))"
    using assms by (auto simp: honeypot_inv_def)
  have counted: "hits (store p) = Some (89 + int n - int (length (awaiting p)))"
    and waiting: "length (awaiting p) \<le> n"
    using assms by (simp_all add: honeypot_inv_def)
  have counter: "hits (store (step p e)) =
      Some (89 + int (if is_Attack e then Suc n else n) - int (length (awaiting (step p e))))
    \<and> length (awaiting (step p e)) \<le> (if is_Attack e then Suc n else n)"
    unfolding step_hits step_awaiting
    using counted waiting by (cases e) auto
  have logs: "length (honeypotLogs (store (step p e))) = (if is_Attack e then Suc n else n)"
    using assms step_length [OF fresh, of e] by (simp add: honeypot_inv_def)
  have made: "length (filter is_CreateHoneypotLog (history (store (step p e)))) =
      (if is_Attack e then Suc n else n)"
    using assms by (simp add: honeypot_inv_def step_created)
  have next_fresh: "\<forall>k \<in> fst ` set (honeypotLogs (store (step p e))).
      k < currentHoneypotId (store (step p e))"
    using assms unfolding step_keys step_currentHoneypotId
    by (auto simp add: honeypot_inv_def)
  show ?thesis
    unfolding honeypot_inv_def using counter logs made next_fresh by blast
qed

lemma honeypot_inv_run:
  "honeypot_inv (foldl step p events) (n + length (filter is_Attack events))"
  if "honeypot_inv p n"
  using that
proof (induction events arbitrary: p n)
  case Nil
  then show ?case by simp
next
  case (Cons e events)
  from honeypot_inv_step [OF Cons.prems, of e]
  have "honeypot_inv (foldl step (step p e) events)
          ((if is_Attack e then Suc n else n) + length (filter is_Attack events))"
    by (rule Cons.IH)
  then show ?case by (simp add: algebra_simps split: if_splits)
qed

lemma honeypot_inv_init:
  "honeypot_inv \<lparr>store = MemStorage_constructor t, awaiting = []\<rparr> 0"
  by (simp add: honeypot_inv_def MemStorage_constructor_def hits_def)

section \<open>What the phishing routes answer\<close>

text \<open>
  The TypeScript route rejects every content that is no non-empty string with 400 and
  stores nothing. The route of the single file rejects the falsy contents with 400, fails
  with 500 on every other value that is no string, and stores nothing in either case.
\<close>

lemma analyze_email_invalid:
  "(\<forall>c. content = Some (JStr c) \<longrightarrow> c = []) \<Longrightarrow>
   analyze_email s content result = (s, Status 400 ''Email content is required'')"
  by (auto simp: analyze_email_def split: option.splits json.splits)

lemma analyze_email_valid:
  "c \<noteq> [] \<Longrightarrow>
   snd (analyze_email s (Some (JStr c)) result) =
     (if score result \<ge> 70 \<and> list_ex throwing (wsClients s)
      then Status 500 ''Failed to analyze email'' else JsonPhishingResult result)"
  by (simp add: analyze_email_def case_prod_beta snd_forEach_send MemStorage_getSystemStats_def
        split: option.splits)

lemma phishing_analyze_invalid:
  "content = None \<or> (\<exists>j. content = Some j \<and> \<not> truthy j) \<Longrightarrow>
   phishing_analyze s content result = (s, Status 400 ''Content is required'')"
  by (auto simp: phishing_analyze_def)

lemma phishing_analyze_type_error:
  "truthy j \<Longrightarrow> (\<forall>c. j \<noteq> JStr c) \<Longrightarrow>
   phishing_analyze s (Some j) result =
     (s, Status 500 ''content.toLowerCase is not a function'')"
  by (cases j) (simp_all add: phishing_analyze_def)

lemma phishing_analyze_valid:
  "c \<noteq> [] \<Longrightarrow>
   snd (phishing_analyze s (Some (JStr c)) result) =
     JsonPhishingAnalysis (snd (MemoryStorage_createPhishingAnalysis s (email_analysis c result)))
       result"
  by (simp add: phishing_analyze_def case_prod_beta)

section \<open>What the deepfake route of the single file rejects\<close>

lemma deepfake_analyze_rejects:
  "\<not> present (fileName body) \<or> \<not> present (fileType body) \<or> \<not> present (fileData body) \<Longrightarrow>
   deepfake_analyze s body buffer r = (s, Status 400 ''File data is required'')"
  "present (fileName body) \<Longrightarrow> present (fileType body) \<Longrightarrow> present (fileData body) \<Longrightarrow>
   deepfake_analyze s body (NoBuffer msg) r = (s, Status 500 msg)"
  "present (fileName body) \<Longrightarrow> present (fileType body) \<Longrightarrow> present (fileData body) \<Longrightarrow>
   \<forall>ftype. fileType body \<noteq> Some (JStr ftype) \<Longrightarrow>
   deepfake_analyze s body (Buffer n) r =
     (s, Status 500 ''fileType.startsWith is not a function'')"
  by (auto simp add: deepfake_analyze_def split: option.splits json.splits)

section \<open>Counting alerts in the single file\<close>

text \<open>\<open>MemoryStorage.getAlertCounts\<close> counts an alert that is read, \<open>MemStorage\<close> does not.\<close>

lemma MemoryStorage_getAlertCounts_counts_read:
  "high (MemoryStorage_getAlertCounts (MemoryStorage_markAlertAsRead one_alert 1)) = 1
   \<and> high (MemStorage_getAlertCounts (MemStorage_markAlertAsRead one_alert 1)) = 0"
  by (simp add: MemoryStorage_getAlertCounts_def MemStorage_getAlertCounts_def
        MemoryStorage_markAlertAsRead_def MemStorage_markAlertAsRead_def one_alert_def
        an_alert_def map_get_def map_values_def Let_def)

section \<open>Evaluating concrete runs\<close>

text \<open>The detectors on the example mails.\<close>

lemma example_mails:
  "analyzeEmail urgent_mail =
     \<lparr>score = 95, confidence = 86, suspiciousLinks = 0,
      indicators = [''Suspicious keywords detected: urgent, verify, click here'',
                    ''Urgent language patterns detected'']\<rparr>"
  "analyzeEmail borderline_mail =
     \<lparr>score = 70, confidence = 86, suspiciousLinks = 0,
      indicators = [''Suspicious keywords detected: urgent, verify, winner'',
                    ''Urgent language patterns detected'']\<rparr>"
  "analyzeEmail pressing_mail =
     \<lparr>score = 65, confidence = 86, suspiciousLinks = 0,
      indicators = [''Suspicious keywords detected: verify'',
                    ''Urgent language patterns detected'']\<rparr>"
  by code_simp+

lemma example_mails_complete:
  "analyzeEmail_complete suspended_mail (1 / 2) =
     \<lparr>score = 95, confidence = 95, suspiciousLinks = 1,
      indicators = [''Urgency tactics'', ''Account verification request'',
                    ''Suspicious shortened URLs'']\<rparr>"
  "analyzeEmail_complete shortener_mail (1 / 2) =
     \<lparr>score = 70, confidence = 75, suspiciousLinks = 2,
      indicators = [''Urgency tactics'', ''Account verification request'',
                    ''Suspicious shortened URLs'']\<rparr>"
  by code_simp+

lemma example_mails_nonempty:
  "urgent_mail \<noteq> []" "borderline_mail \<noteq> []" "pressing_mail \<noteq> []"
  "suspended_mail \<noteq> []" "shortener_mail \<noteq> []"
  by (simp_all add: urgent_mail_def borderline_mail_def pressing_mail_def suspended_mail_def
        shortener_mail_def)

lemmas run_defs = analyze_email_def analyze_deepfake_def phishing_analyze_def
  deepfake_analyze_def case_prod_beta MemStorage_getSystemStats_def
  MemoryStorage_getSystemStats_def listening_def listening_complete_def
  MemStorage_constructor_def MemoryStorage_constructor_def
  example_mails example_mails_complete example_mails_nonempty
  sure_fake_def likely_fake_def no_fake_def faint_fake_def clear_fake_def
  picture_def picture_body_def
  startsWith_def forEach_send_general throwing_def delivered_def open_socket_def OPEN_def
  snd_updateSystemStats email_stats_def media_stats_def spread_stats_def no_stats_def
section \<open>The claims\<close>

subsection \<open>The order of the effects of an escalation\<close>

text \<open>
  Claim C1, as amended. A phishing or deepfake submission of the TypeScript server that
  escalates stores the analysis, creates the threat, creates the alert, broadcasts
  \<open>new_alert\<close> and only then writes the statistics (\<open>phishingBlocked\<close> or
  \<open>deepfakesDetected\<close>, and \<open>activeThreats\<close>, each one more): when the broadcast is sent
  the counters still have their old values, and when \<open>broadcast\<close> throws they are not
  written at all.
\<close>

theorem escalation_effect_order:
  fixes s c result f dresult st
  defines "s' \<equiv> fst (analyze_email s (Some (JStr c)) result)"
      and "d' \<equiv> fst (analyze_deepfake s (Some f) dresult)"
  assumes "systemStats s = Some st"
  shows "(c \<noteq> [] \<and> score result \<ge> 70 \<longrightarrow>
           (\<exists>threat alert.
              map_get (threats s') (currentThreatId s) = Some threat
            \<and> map_get (alerts s') (currentAlertId s) = Some alert
            \<and> effects_of s s' =
                [CreatePhishingAnalysis (currentPhishingId s), CreateThreat (currentThreatId s),
                 CreateAlert (currentAlertId s), Broadcast (NewAlert alert threat)] @
                (if list_ex throwing (wsClients s) then []
                 else [UpdateSystemStats
                         (st\<lparr>activeThreats := activeThreats st + 1,
                             phishingBlocked := phishingBlocked st + 1,
                             updatedAt := now s\<rparr>)]))
         \<and> \<not> occurs_before is_UpdateSystemStats is_Broadcast (effects_of s s'))
     \<and> ((startsWith (mimetype f) ''image/'' \<or> startsWith (mimetype f) ''video/'')
          \<and> isDeepfake dresult \<and> detection_confidence dresult \<ge> 80 \<longrightarrow>
           (\<exists>threat alert.
              map_get (threats d') (currentThreatId s) = Some threat
            \<and> map_get (alerts d') (currentAlertId s) = Some alert
            \<and> effects_of s d' =
                [CreateDeepfakeAnalysis (currentDeepfakeId s), CreateThreat (currentThreatId s),
                 CreateAlert (currentAlertId s), Broadcast (NewAlert alert threat)] @
                (if list_ex throwing (wsClients s) then []
                 else [UpdateSystemStats
                         (st\<lparr>activeThreats := activeThreats st + 1,
                             deepfakesDetected := deepfakesDetected st + 1,
                             updatedAt := now s\<rparr>)]))
         \<and> \<not> occurs_before is_UpdateSystemStats is_Broadcast (effects_of s d'))"
proof -
  have email: "(\<exists>threat alert.
              map_get (threats s') (currentThreatId s) = Some threat
            \<and> map_get (alerts s') (currentAlertId s) = Some alert
            \<and> effects_of s s' =
                [CreatePhishingAnalysis (currentPhishingId s), CreateThreat (currentThreatId s),
                 CreateAlert (currentAlertId s), Broadcast (NewAlert alert threat)] @
                (if list_ex throwing (wsClients s) then []
                 else [UpdateSystemStats
                         (st\<lparr>activeThreats := activeThreats st + 1,
                             phishingBlocked := phishingBlocked st + 1,
                             updatedAt := now s\<rparr>)]))
         \<and> \<not> occurs_before is_UpdateSystemStats is_Broadcast (effects_of s s')"
    if "c \<noteq> []" "score result \<ge> 70"
    using assms(3) that unfolding s'_def
    apply (simp add: analyze_email_def case_prod_beta)
    apply (simp add: MemStorage_getSystemStats_def snd_forEach_send snd_updateSystemStats
        email_stats_def spread_stats_def no_stats_def)
    done
  have media: "(\<exists>threat alert.
              map_get (threats d') (currentThreatId s) = Some threat
            \<and> map_get (alerts d') (currentAlertId s) = Some alert
            \<and> effects_of s d' =
                [CreateDeepfakeAnalysis (currentDeepfakeId s), CreateThreat (currentThreatId s),
                 CreateAlert (currentAlertId s), Broadcast (NewAlert alert threat)] @
                (if list_ex throwing (wsClients s) then []
                 else [UpdateSystemStats
                         (st\<lparr>activeThreats := activeThreats st + 1,
                             deepfakesDetected := deepfakesDetected st + 1,
                             updatedAt := now s\<rparr>)]))
         \<and> \<not> occurs_before is_UpdateSystemStats is_Broadcast (effects_of s d')"
    if "startsWith (mimetype f) ''image/'' \<or> startsWith (mimetype f) ''video/''"
       "isDeepfake dresult" "detection_confidence dresult \<ge> 80"
    using assms(3) that unfolding d'_def
    apply (simp add: analyze_deepfake_def case_prod_beta)
    apply (simp add: MemStorage_getSystemStats_def snd_forEach_send snd_updateSystemStats
        media_stats_def spread_stats_def no_stats_def)
    done
  show ?thesis
    using email media by blast
qed


text \<open>
  The theorem at a fresh server with one open socket, for a mail of score 95 and a
  picture found a deepfake with confidence 95.
\<close>

theorem escalation_effect_order_witness:
  "map is_Broadcast
     (history (fst (analyze_email listening (Some (JStr urgent_mail)) (analyzeEmail urgent_mail)))) =
     [False, False, False, True, False]
   \<and> map is_UpdateSystemStats
     (history (fst (analyze_email listening (Some (JStr urgent_mail)) (analyzeEmail urgent_mail)))) =
     [False, False, False, False, True]
   \<and> map_option phishingBlocked
     (systemStats (fst (analyze_email listening (Some (JStr urgent_mail)) (analyzeEmail urgent_mail)))) =
     Some 143
   \<and> map_option deepfakesDetected
     (systemStats (fst (analyze_deepfake listening (Some picture) sure_fake))) =
     Some 24"
  using escalation_effect_order [where s = listening and c = urgent_mail
      and result = "analyzeEmail urgent_mail" and f = picture and dresult = sure_fake
      and st = "\<lparr>stats_id = 1, activeThreats = 7, phishingBlocked = 142,
        deepfakesDetected = 23, honeypotHits = 89, updatedAt = 0\<rparr>"]
  by (simp add: run_defs)

text \<open>
  Claim C1 as stated fails: in the run of the witness no write of the statistics
  stands before the broadcast; the write comes after it.
\<close>

theorem stats_before_broadcast_counterexample:
  "\<not> occurs_before is_UpdateSystemStats is_Broadcast
       (history (fst (analyze_email listening (Some (JStr urgent_mail)) (analyzeEmail urgent_mail))))
   \<and> occurs_before is_Broadcast is_UpdateSystemStats
       (history (fst (analyze_email listening (Some (JStr urgent_mail)) (analyzeEmail urgent_mail))))
   \<and> \<not> occurs_before is_UpdateSystemStats is_Broadcast
       (history (fst (analyze_deepfake listening (Some picture) sure_fake)))
   \<and> occurs_before is_Broadcast is_UpdateSystemStats
       (history (fst (analyze_deepfake listening (Some picture) sure_fake)))"
  by (simp add: run_defs)


subsection \<open>Phishing submissions\<close>

text \<open>
  Claim C3, as amended. Both servers store the analysis of every phishing submission
  with non-empty content. The TypeScript route \<open>/api/analyze/email\<close> escalates exactly
  when the score is at least 70: it creates a threat, \<open>critical\<close> from 90 on and \<open>high\<close>
  below, an alert of the same severity, and broadcasts one \<open>new_alert\<close>. The route
  \<open>/api/phishing/analyze\<close> of the single file creates a threat exactly when the score
  is above 70, \<open>critical\<close> above 90 and \<open>high\<close> otherwise, and never an alert or a
  broadcast.
\<close>

theorem phishing_escalation:
  fixes s c result
  defines "ts \<equiv> fst (analyze_email s (Some (JStr c)) result)"
      and "js \<equiv> fst (phishing_analyze s (Some (JStr c)) result)"
  assumes "c \<noteq> []"
  shows "map_get (phishingAnalyses ts) (currentPhishingId s) =
           Some \<lparr>phishing_id = currentPhishingId s, phishing_content = c,
                 phishing_score = score result, phishing_confidence = confidence result,
                 phishing_suspiciousLinks = suspiciousLinks result,
                 phishing_indicators = Some (indicators result),
                 phishing_analyzedAt = now s\<rparr>
     \<and> (score result \<ge> 70 \<longrightarrow>
          (\<exists>threat alert.
             map_get (threats ts) (currentThreatId s) = Some threat
           \<and> map_get (alerts ts) (currentAlertId s) = Some alert
           \<and> threat_type threat = ''phishing''
           \<and> threat_severity threat = (if score result \<ge> 90 then ''critical'' else ''high'')
           \<and> alert_severity alert = threat_severity threat
           \<and> alert_category alert = ''email''
           \<and> take 4 (effects_of s ts) =
                [CreatePhishingAnalysis (currentPhishingId s), CreateThreat (currentThreatId s),
                 CreateAlert (currentAlertId s), Broadcast (NewAlert alert threat)]
           \<and> broadcasts (effects_of s ts) = [NewAlert alert threat]))
     \<and> (score result < 70 \<longrightarrow>
          threats ts = threats s \<and> alerts ts = alerts s \<and> broadcasts (effects_of s ts) = [])
     \<and> map_get (phishingAnalyses js) (currentPhishingId s) =
           Some \<lparr>phishing_id = currentPhishingId s, phishing_content = c,
                 phishing_score = score result, phishing_confidence = confidence result,
                 phishing_suspiciousLinks = suspiciousLinks result,
                 phishing_indicators = Some (indicators result),
                 phishing_analyzedAt = now s\<rparr>
     \<and> (score result > 70 \<longrightarrow>
          (\<exists>threat.
             map_get (threats js) (currentThreatId s) = Some threat
           \<and> threat_type threat = ''phishing''
           \<and> threat_severity threat = (if score result > 90 then ''critical'' else ''high'')
           \<and> effects_of s js =
                [CreatePhishingAnalysis (currentPhishingId s), CreateThreat (currentThreatId s)]))
     \<and> (score result \<le> 70 \<longrightarrow>
          threats js = threats s
        \<and> effects_of s js = [CreatePhishingAnalysis (currentPhishingId s)])
     \<and> alerts js = alerts s \<and> wsClients js = wsClients s \<and> systemStats js = systemStats s
     \<and> broadcasts (effects_of s js) = []"
proof -
  have stored: "map_get (phishingAnalyses ts) (currentPhishingId s) =
           Some \<lparr>phishing_id = currentPhishingId s, phishing_content = c,
                 phishing_score = score result, phishing_confidence = confidence result,
                 phishing_suspiciousLinks = suspiciousLinks result,
                 phishing_indicators = Some (indicators result),
                 phishing_analyzedAt = now s\<rparr>"
    using assms(3) unfolding ts_def
    apply (simp add: analyze_email_def case_prod_beta)
    apply (simp add: MemStorage_getSystemStats_def split: completion.splits option.splits)
    apply (simp add: MemStorage_createPhishingAnalysis_def email_analysis_def Let_def)
    done
  have above: "\<exists>threat alert.
             map_get (threats ts) (currentThreatId s) = Some threat
           \<and> map_get (alerts ts) (currentAlertId s) = Some alert
           \<and> threat_type threat = ''phishing''
           \<and> threat_severity threat = (if score result \<ge> 90 then ''critical'' else ''high'')
           \<and> alert_severity alert = threat_severity threat
           \<and> alert_category alert = ''email''
           \<and> take 4 (effects_of s ts) =
                [CreatePhishingAnalysis (currentPhishingId s), CreateThreat (currentThreatId s),
                 CreateAlert (currentAlertId s), Broadcast (NewAlert alert threat)]
           \<and> broadcasts (effects_of s ts) = [NewAlert alert threat]"
    if "score result \<ge> 70"
    using assms(3) that unfolding ts_def
    apply (simp add: analyze_email_def case_prod_beta)
    apply (simp add: MemStorage_getSystemStats_def split: completion.splits option.splits)
    done
  have below: "threats ts = threats s \<and> alerts ts = alerts s \<and> broadcasts (effects_of s ts) = []"
    if "score result < 70"
    using assms(3) that unfolding ts_def by (simp add: analyze_email_def case_prod_beta)
  have js_stored: "map_get (phishingAnalyses js) (currentPhishingId s) =
           Some \<lparr>phishing_id = currentPhishingId s, phishing_content = c,
                 phishing_score = score result, phishing_confidence = confidence result,
                 phishing_suspiciousLinks = suspiciousLinks result,
                 phishing_indicators = Some (indicators result),
                 phishing_analyzedAt = now s\<rparr>"
    using assms(3) unfolding js_def
    apply (simp add: phishing_analyze_def case_prod_beta)
    apply (simp add: MemoryStorage_createPhishingAnalysis_def email_analysis_def Let_def)
    done
  have js_above: "\<exists>threat.
             map_get (threats js) (currentThreatId s) = Some threat
           \<and> threat_type threat = ''phishing''
           \<and> threat_severity threat = (if score result > 90 then ''critical'' else ''high'')
           \<and> effects_of s js =
                [CreatePhishingAnalysis (currentPhishingId s), CreateThreat (currentThreatId s)]"
    if "score result > 70"
    using assms(3) that unfolding js_def by (simp add: phishing_analyze_def case_prod_beta)
  have js_below: "threats js = threats s
        \<and> effects_of s js = [CreatePhishingAnalysis (currentPhishingId s)]"
    if "score result \<le> 70"
    using assms(3) that unfolding js_def by (simp add: phishing_analyze_def case_prod_beta)
  have js_frame: "alerts js = alerts s \<and> wsClients js = wsClients s
      \<and> systemStats js = systemStats s \<and> broadcasts (effects_of s js) = []"
    using assms(3) unfolding js_def by (simp add: phishing_analyze_def case_prod_beta)
  show ?thesis
    using stored above below js_stored js_above js_below js_frame by blast
qed


text \<open>
  The theorem at mails of the scores 95 and 70 (TypeScript) and 95 (single file), each
  score the one the server's own detector gives.
\<close>

theorem phishing_escalation_witness:
  "score (analyzeEmail urgent_mail) = 95 \<and> score (analyzeEmail borderline_mail) = 70
   \<and> map (\<lambda>t. threat_severity (snd t))
     (threats (fst (analyze_email listening (Some (JStr urgent_mail))
        (analyzeEmail urgent_mail)))) = [''critical'']
   \<and> map (\<lambda>a. alert_severity (snd a))
     (alerts (fst (analyze_email listening (Some (JStr urgent_mail))
        (analyzeEmail urgent_mail)))) = [''critical'']
   \<and> map message_type
     (broadcasts (history (fst (analyze_email listening (Some (JStr urgent_mail))
        (analyzeEmail urgent_mail))))) = [''new_alert'']
   \<and> map (\<lambda>t. threat_severity (snd t))
     (threats (fst (analyze_email listening (Some (JStr borderline_mail))
        (analyzeEmail borderline_mail)))) = [''high'']
   \<and> map (\<lambda>t. threat_severity (snd t))
     (threats (fst (phishing_analyze listening_complete (Some (JStr suspended_mail))
        (analyzeEmail_complete suspended_mail (1 / 2))))) = [''critical'']"
  using phishing_escalation [where s = listening and c = urgent_mail
      and result = "analyzeEmail urgent_mail"]
    phishing_escalation [where s = listening and c = borderline_mail
      and result = "analyzeEmail borderline_mail"]
    phishing_escalation [where s = listening_complete and c = suspended_mail
      and result = "analyzeEmail_complete suspended_mail (1 / 2)"]
  by (simp add: run_defs)


text \<open>
  Claim C3 as stated fails on the single file: a mail of score 95 gives a critical
  threat but no alert and no broadcast, and a mail of score 70 gives no threat.
\<close>

theorem phishing_escalation_counterexample:
  "score (analyzeEmail_complete suspended_mail (1 / 2)) = 95
   \<and> map (\<lambda>t. threat_severity (snd t))
     (threats (fst (phishing_analyze listening_complete (Some (JStr suspended_mail))
        (analyzeEmail_complete suspended_mail (1 / 2))))) = [''critical'']
   \<and> alerts (fst (phishing_analyze listening_complete (Some (JStr suspended_mail))
        (analyzeEmail_complete suspended_mail (1 / 2)))) = []
   \<and> broadcasts (history (fst (phishing_analyze listening_complete
        (Some (JStr suspended_mail)) (analyzeEmail_complete suspended_mail (1 / 2))))) = []
   \<and> score (analyzeEmail_complete shortener_mail (1 / 2)) = 70
   \<and> threats (fst (phishing_analyze listening_complete (Some (JStr shortener_mail))
        (analyzeEmail_complete shortener_mail (1 / 2)))) = []"
  by (simp add: run_defs)


text \<open>
  Claim C6. A phishing submission of the TypeScript server whose score is below 70 stores
  the analysis and does nothing else: no threat, no alert, no broadcast, no socket
  written to, the statistics untouched.
\<close>

theorem below_threshold_only_stores:
  fixes s c result
  defines "s' \<equiv> fst (analyze_email s (Some (JStr c)) result)"
  assumes "c \<noteq> []" and "score result < 70"
  shows "map_get (phishingAnalyses s') (currentPhishingId s) =
           Some \<lparr>phishing_id = currentPhishingId s, phishing_content = c,
                 phishing_score = score result, phishing_confidence = confidence result,
                 phishing_suspiciousLinks = suspiciousLinks result,
                 phishing_indicators = Some (indicators result),
                 phishing_analyzedAt = now s\<rparr>
       \<and> threats s' = threats s
       \<and> alerts s' = alerts s
       \<and> systemStats s' = systemStats s
       \<and> wsClients s' = wsClients s
       \<and> effects_of s s' = [CreatePhishingAnalysis (currentPhishingId s)]
       \<and> broadcasts (effects_of s s') = []
       \<and> snd (analyze_email s (Some (JStr c)) result) = JsonPhishingResult result"
  using assms(2,3) unfolding s'_def
  by (simp add: analyze_email_def case_prod_beta)
     (simp add: MemStorage_createPhishingAnalysis_def email_analysis_def Let_def)


text \<open>The theorem at a mail of score 65.\<close>

theorem below_threshold_only_stores_witness:
  "map (\<lambda>a. phishing_score (snd a))
     (phishingAnalyses (fst (analyze_email listening (Some (JStr pressing_mail))
        (analyzeEmail pressing_mail)))) = [65]
   \<and> threats (fst (analyze_email listening (Some (JStr pressing_mail))
        (analyzeEmail pressing_mail))) = []
   \<and> alerts (fst (analyze_email listening (Some (JStr pressing_mail))
        (analyzeEmail pressing_mail))) = []
   \<and> systemStats (fst (analyze_email listening (Some (JStr pressing_mail))
        (analyzeEmail pressing_mail))) = systemStats listening
   \<and> wsClients (fst (analyze_email listening (Some (JStr pressing_mail))
        (analyzeEmail pressing_mail))) = [(1, open_socket)]
   \<and> history (fst (analyze_email listening (Some (JStr pressing_mail))
        (analyzeEmail pressing_mail))) = [CreatePhishingAnalysis 1]"
  using below_threshold_only_stores [of pressing_mail "analyzeEmail pressing_mail" listening]
  by (simp add: example_mails example_mails_nonempty listening_def MemStorage_constructor_def
        analyze_email_def case_prod_beta MemStorage_createPhishingAnalysis_def
        email_analysis_def Let_def)

subsection \<open>Deepfake submissions\<close>

text \<open>
  Claim C5, as amended. Both servers store the analysis of every deepfake submission
  that is well formed. In the TypeScript server the confidence is a percentage, so that
  the 0.80 and 0.95 of the 0-1 scale are 80 and 95 there: the route creates a threat and
  an alert exactly when \<open>isDeepfake\<close> holds and the confidence is at least 0.80 of the
  scale, \<open>critical\<close> from 0.95 on and \<open>high\<close> below. In the single file, whose confidence
  lies between 0 and 1, the route creates a threat exactly when \<open>isDeepfake\<close> holds,
  whatever the confidence, \<open>high\<close> above 0.8 and \<open>medium\<close> otherwise, and never an alert.
  \<open>result\<close> is the verdict of the detector of the TypeScript server, \<open>r\<close> that of the
  detector of the single file.
\<close>

theorem deepfake_escalation:
  fixes s f result body n r
  defines "ts \<equiv> fst (analyze_deepfake s (Some f) result)"
      and "js \<equiv> fst (deepfake_analyze s body (Buffer n) r)"
  assumes "startsWith (mimetype f) ''image/'' \<or> startsWith (mimetype f) ''video/''"
      and "present (fileName body)" and "fileType body = Some (JStr ftype)" and "ftype \<noteq> []"
      and "present (fileData body)"
  shows "(\<exists>analysis.
            map_get (deepfakeAnalyses ts) (currentDeepfakeId s) = Some analysis
          \<and> deepfake_isDeepfake analysis = isDeepfake result
          \<and> deepfake_confidence analysis = detection_confidence result)
     \<and> (isDeepfake result \<and> detection_confidence result / 100 \<ge> 0.80 \<longrightarrow>
          (\<exists>threat alert.
             map_get (threats ts) (currentThreatId s) = Some threat
           \<and> map_get (alerts ts) (currentAlertId s) = Some alert
           \<and> threat_type threat = ''deepfake''
           \<and> threat_severity threat =
               (if detection_confidence result / 100 \<ge> 0.95 then ''critical'' else ''high'')
           \<and> alert_severity alert = threat_severity threat
           \<and> alert_category alert = ''media''
           \<and> broadcasts (effects_of s ts) = [NewAlert alert threat]))
     \<and> (\<not> isDeepfake result \<or> detection_confidence result / 100 < 0.80 \<longrightarrow>
          threats ts = threats s \<and> alerts ts = alerts s \<and> broadcasts (effects_of s ts) = [])
     \<and> (\<exists>analysis.
            map_get (deepfakeAnalyses js) (currentDeepfakeId s) = Some analysis
          \<and> deepfake_isDeepfake analysis = isDeepfake r
          \<and> deepfake_confidence analysis = detection_confidence r)
     \<and> (isDeepfake r \<longrightarrow>
          (\<exists>threat.
             map_get (threats js) (currentThreatId s) = Some threat
           \<and> threat_type threat = ''deepfake''
           \<and> threat_severity threat =
               (if detection_confidence r > 0.8 then ''high'' else ''medium'')))
     \<and> (\<not> isDeepfake r \<longrightarrow> threats js = threats s)
     \<and> alerts js = alerts s \<and> broadcasts (effects_of s js) = []"
proof -
  have percent: "(detection_confidence result / 100 \<ge> 0.80) = (detection_confidence result \<ge> 80)"
    "(detection_confidence result / 100 \<ge> 0.95) = (detection_confidence result \<ge> 95)"
    "(detection_confidence result / 100 < 0.80) = (detection_confidence result < 80)"
    by auto
  have stored: "\<exists>analysis.
            map_get (deepfakeAnalyses ts) (currentDeepfakeId s) = Some analysis
          \<and> deepfake_isDeepfake analysis = isDeepfake result
          \<and> deepfake_confidence analysis = detection_confidence result"
    using assms(3) unfolding ts_def
    apply (simp add: analyze_deepfake_def case_prod_beta)
    apply (auto simp add: MemStorage_getSystemStats_def split: completion.splits option.splits)
    done
  have above: "\<exists>threat alert.
             map_get (threats ts) (currentThreatId s) = Some threat
           \<and> map_get (alerts ts) (currentAlertId s) = Some alert
           \<and> threat_type threat = ''deepfake''
           \<and> threat_severity threat =
               (if detection_confidence result \<ge> 95 then ''critical'' else ''high'')
           \<and> alert_severity alert = threat_severity threat
           \<and> alert_category alert = ''media''
           \<and> broadcasts (effects_of s ts) = [NewAlert alert threat]"
    if "isDeepfake result" "detection_confidence result \<ge> 80"
    using assms(3) that unfolding ts_def
    apply (simp add: analyze_deepfake_def case_prod_beta)
    apply (auto simp add: MemStorage_getSystemStats_def split: completion.splits option.splits)
    done
  have below: "threats ts = threats s \<and> alerts ts = alerts s \<and> broadcasts (effects_of s ts) = []"
    if "\<not> isDeepfake result \<or> detection_confidence result < 80"
    using assms(3) that unfolding ts_def
    by (auto simp add: analyze_deepfake_def case_prod_beta)
  have js_stored: "\<exists>analysis.
            map_get (deepfakeAnalyses js) (currentDeepfakeId s) = Some analysis
          \<and> deepfake_isDeepfake analysis = isDeepfake r
          \<and> deepfake_confidence analysis = detection_confidence r"
    using assms(4-7) unfolding js_def
    by (simp add: deepfake_analyze_def case_prod_beta)
  have js_above: "\<exists>threat.
             map_get (threats js) (currentThreatId s) = Some threat
           \<and> threat_type threat = ''deepfake''
           \<and> threat_severity threat =
               (if detection_confidence r > 0.8 then ''high'' else ''medium'')"
    if "isDeepfake r"
    using assms(4-7) that unfolding js_def
    by (simp add: deepfake_analyze_def case_prod_beta)
  have js_below: "threats js = threats s" if "\<not> isDeepfake r"
    using assms(4-7) that unfolding js_def
    by (simp add: deepfake_analyze_def case_prod_beta)
  have js_frame: "alerts js = alerts s \<and> broadcasts (effects_of s js) = []"
    using assms(4-7) unfolding js_def
    by (simp add: deepfake_analyze_def case_prod_beta)
  show ?thesis
    unfolding percent
    using stored above below js_stored js_above js_below js_frame by blast
qed

text \<open>
  The theorem at verdicts of the confidences 95 and 85, and one that is no deepfake
  (TypeScript), and of the confidence 0.97 (single file).
\<close>

theorem deepfake_escalation_witness:
  "map (\<lambda>t. threat_severity (snd t))
     (threats (fst (analyze_deepfake listening (Some picture) sure_fake))) = [''critical'']
   \<and> map (\<lambda>t. threat_severity (snd t))
     (threats (fst (analyze_deepfake listening (Some picture) likely_fake))) = [''high'']
   \<and> map (\<lambda>a. alert_severity (snd a))
     (alerts (fst (analyze_deepfake listening (Some picture) likely_fake))) = [''high'']
   \<and> threats (fst (analyze_deepfake listening (Some picture) no_fake)) = []
   \<and> map (\<lambda>t. threat_severity (snd t))
     (threats (fst (deepfake_analyze listening_complete picture_body (Buffer 5) clear_fake))) =
     [''high'']"
  using deepfake_escalation [where s = listening and f = picture and result = sure_fake
      and body = picture_body and ftype = "''image/png''" and n = 5 and r = clear_fake]
    deepfake_escalation [where s = listening_complete and f = picture and result = likely_fake
      and body = picture_body and ftype = "''image/png''" and n = 5 and r = clear_fake]
    deepfake_escalation [where s = listening and f = picture and result = no_fake
      and body = picture_body and ftype = "''image/png''" and n = 5 and r = clear_fake]
  by (simp add: run_defs)

text \<open>
  Claim C5 as stated fails on the single file: a picture found a deepfake with
  confidence 0.73 creates a threat, of severity \<open>medium\<close>; one found a deepfake with
  confidence 0.97 creates a threat of severity \<open>high\<close>; and neither creates an alert.
\<close>

theorem deepfake_escalation_counterexample:
  "isDeepfake faint_fake \<and> detection_confidence faint_fake = 0.73
   \<and> map (\<lambda>t. threat_severity (snd t))
     (threats (fst (deepfake_analyze listening_complete picture_body (Buffer 5) faint_fake))) =
     [''medium'']
   \<and> alerts (fst (deepfake_analyze listening_complete picture_body (Buffer 5) faint_fake)) = []
   \<and> isDeepfake clear_fake \<and> detection_confidence clear_fake = 0.97
   \<and> map (\<lambda>t. threat_severity (snd t))
     (threats (fst (deepfake_analyze listening_complete picture_body (Buffer 5) clear_fake))) =
     [''high'']
   \<and> alerts (fst (deepfake_analyze listening_complete picture_body (Buffer 5) clear_fake)) = []"
  by (simp add: run_defs)

subsection \<open>Honeypot hits\<close>

text \<open>
  Claim C2, as amended. The TypeScript server starts with \<open>honeypotHits = 89\<close> and no
  honeypot log. At every state of every run, \<open>honeypotHits\<close> is 89 plus the number of
  honeypot logs in the store, less the number of calls of \<open>logAttack\<close> that have inserted
  their log and wait for the mail service; the number of logs is the number of attacks
  submitted and the number of insertions ever made. When no call waits, \<open>honeypotHits\<close>
  is 89 plus the number of attacks. An attack that does not wait inserts one log and
  adds one to the counter, whatever the mail service does; one that waits inserts its
  log, leaves the counter, and adds one to it when the mail service has answered,
  whatever the answer.
\<close>

theorem honeypotHits_counts_attacks:
  fixes t events s attack location m
  defines "p \<equiv> run t events"
  shows "hits (store p) =
       Some (89 + int (length (honeypotLogs (store p))) - int (length (awaiting p)))
   \<and> length (awaiting p) \<le> length (honeypotLogs (store p))
   \<and> length (honeypotLogs (store p)) = length (filter is_Attack events)
   \<and> length (filter is_CreateHoneypotLog (history (store p))) =
       length (filter is_Attack events)
   \<and> (awaiting p = [] \<longrightarrow>
        hits (store p) = Some (89 + int (length (filter is_Attack events))))
   \<and> hits (submitHoneypotAttack s attack location m) = map_option (\<lambda>n. n + 1) (hits s)
   \<and> filter is_CreateHoneypotLog (effects_of s (submitHoneypotAttack s attack location m)) =
       [CreateHoneypotLog (currentHoneypotId s)]
   \<and> hits (logAttack_until_mail s attack location m) = hits s
   \<and> filter is_CreateHoneypotLog (effects_of s (logAttack_until_mail s attack location m)) =
       [CreateHoneypotLog (currentHoneypotId s)]
   \<and> hits (resumeHoneypotAttack s attack) = map_option (\<lambda>n. n + 1) (hits s)
   \<and> filter is_CreateHoneypotLog (effects_of s (resumeHoneypotAttack s attack)) = []"
proof -
  have inv: "honeypot_inv p (length (filter is_Attack events))"
    using honeypot_inv_run [OF honeypot_inv_init, of t events] by (simp add: run_def p_def)
  have whole: "filter is_CreateHoneypotLog
       (effects_of s (submitHoneypotAttack s attack location m)) =
       [CreateHoneypotLog (currentHoneypotId s)]"
    by (simp add: submitHoneypotAttack_def on_attack_def case_prod_beta logAttack_history
          split: option.splits)
  have first: "filter is_CreateHoneypotLog
       (effects_of s (logAttack_until_mail s attack location m)) =
       [CreateHoneypotLog (currentHoneypotId s)]"
    by (simp add: logAttack_until_mail_history)
  have rest: "filter is_CreateHoneypotLog (effects_of s (resumeHoneypotAttack s attack)) = []"
    by (simp add: resumeHoneypotAttack_def on_attack_def case_prod_beta
          logAttack_after_mail_history split: option.splits)
  show ?thesis
    using inv whole first rest
    by (simp add: honeypot_inv_def submitHoneypotAttack_honeypot
          logAttack_until_mail_honeypot resumeHoneypotAttack_honeypot)
qed


text \<open>
  The theorem at a run with two attacks: an ssh attack of severity \<open>high\<close> that waits for
  the mail service, which rejects the mail in the end, and an http attack.
\<close>

theorem honeypotHits_counts_attacks_witness:
  "hits (store (run 0 [Attack (ssh_attack high_draws) JNull Rejected,
                AnalyzeEmail (Some (JStr urgent_mail)) (analyzeEmail urgent_mail),
                Attack (http_attack high_draws) JNull Rejected])) = Some 90
   \<and> length (honeypotLogs (store (run 0 [Attack (ssh_attack high_draws) JNull Rejected,
                AnalyzeEmail (Some (JStr urgent_mail)) (analyzeEmail urgent_mail),
                Attack (http_attack high_draws) JNull Rejected]))) = 2
   \<and> length (awaiting (run 0 [Attack (ssh_attack high_draws) JNull Rejected,
                AnalyzeEmail (Some (JStr urgent_mail)) (analyzeEmail urgent_mail),
                Attack (http_attack high_draws) JNull Rejected])) = 1
   \<and> hits (store (run 0 [Attack (ssh_attack high_draws) JNull Rejected,
                AnalyzeEmail (Some (JStr urgent_mail)) (analyzeEmail urgent_mail),
                Attack (http_attack high_draws) JNull Rejected,
                MailAnswered 0])) = Some 91"
  using honeypotHits_counts_attacks [of 0
      "[Attack (ssh_attack high_draws) JNull Rejected,
        AnalyzeEmail (Some (JStr urgent_mail)) (analyzeEmail urgent_mail),
        Attack (http_attack high_draws) JNull Rejected]"]
    honeypotHits_counts_attacks [of 0
      "[Attack (ssh_attack high_draws) JNull Rejected,
        AnalyzeEmail (Some (JStr urgent_mail)) (analyzeEmail urgent_mail),
        Attack (http_attack high_draws) JNull Rejected,
        MailAnswered 0]"]
  by (simp add: run_def awaits_mail_def getRandomSeverity_def random_below_def high_draws_def)

text \<open>
  Claim C2 as stated fails: before any insertion the counter is 89, not 0, and after one
  attack that does not wait it is 90 with one log in the store. While an attack waits
  for the mail service, its log is in the store and the counter is as before.
\<close>

theorem honeypotHits_initial_counterexample:
  "hits (store (run 0 [])) = Some 89 \<and> honeypotLogs (store (run 0 [])) = []
   \<and> history (store (run 0 [])) = []
   \<and> hits (store (run 0 [Attack (ssh_attack high_draws) JNull NotConfigured])) = Some 90
   \<and> length (honeypotLogs
        (store (run 0 [Attack (ssh_attack high_draws) JNull NotConfigured]))) = 1
   \<and> hits (store (run 0 [Attack (ssh_attack high_draws) JNull Accepted])) = Some 89
   \<and> length (honeypotLogs
        (store (run 0 [Attack (ssh_attack high_draws) JNull Accepted]))) = 1"
  by (simp add: run_def awaits_mail_def getRandomSeverity_def random_below_def high_draws_def
        submitHoneypotAttack_honeypot logAttack_until_mail_honeypot)
     (simp add: hits_def MemStorage_constructor_def)

subsection \<open>Honeypot alerts\<close>

text \<open>
  Claim C4, as amended. Both servers log every honeypot attack. In the single file an
  alert is created exactly for an ssh attack of severity \<open>high\<close> or \<open>critical\<close>. In the
  TypeScript server the listener creates an alert exactly for an attack of severity
  \<open>high\<close> or \<open>critical\<close>, whatever the service; the service counts for the e-mail only,
  which is sent exactly for an ssh attack of severity \<open>high\<close> or \<open>critical\<close>. An attack of
  severity \<open>low\<close> or \<open>medium\<close> never creates an alert. \<open>ts\<close> is the state after the
  handler of the attack has run to its end, from \<open>s\<close> and with nothing in between.
\<close>

theorem honeypot_escalation:
  fixes s attack location m n
  defines "ts \<equiv> submitHoneypotAttack s attack location m"
      and "js \<equiv> logAttack_complete s attack location n"
  shows "(\<exists>entry. map_get (honeypotLogs ts) (currentHoneypotId s) = Some entry
            \<and> log_service entry = service attack \<and> log_severity entry = severity attack)
     \<and> filter is_CreateAlert (effects_of s ts) =
         (if severity attack = ''high'' \<or> severity attack = ''critical''
          then [CreateAlert (currentAlertId s)] else [])
     \<and> (severity attack = ''high'' \<or> severity attack = ''critical'' \<longrightarrow>
          (\<exists>alert. map_get (alerts ts) (currentAlertId s) = Some alert
             \<and> alert_title alert = toUpperCase (service attack) @ '' Honeypot Attack''
             \<and> alert_category alert = ''honeypot'' \<and> alert_severity alert = severity attack))
     \<and> (severity attack \<noteq> ''high'' \<and> severity attack \<noteq> ''critical'' \<longrightarrow> alerts ts = alerts s)
     \<and> list_ex is_SendAttackAlert (effects_of s ts) =
         (service attack = ''ssh'' \<and> (severity attack = ''high'' \<or> severity attack = ''critical''))
     \<and> (\<exists>entry. map_get (honeypotLogs js) (currentHoneypotId s) = Some entry
            \<and> log_service entry = service attack \<and> log_severity entry = severity attack)
     \<and> filter is_CreateAlert (effects_of s js) =
         (if service attack = ''ssh'' \<and> (severity attack = ''high'' \<or> severity attack = ''critical'')
          then [CreateAlert (currentAlertId s)] else [])
     \<and> (service attack = ''ssh'' \<and> (severity attack = ''high'' \<or> severity attack = ''critical'') \<longrightarrow>
          (\<exists>alert. map_get (alerts js) (currentAlertId s) = Some alert
             \<and> alert_title alert = ''SSH Honeypot Attack''
             \<and> alert_category alert = ''honeypot'' \<and> alert_severity alert = severity attack))
     \<and> (service attack \<noteq> ''ssh'' \<or> (severity attack \<noteq> ''high'' \<and> severity attack \<noteq> ''critical'') \<longrightarrow>
          alerts js = alerts s)"
proof -
  have ts_alert: "\<exists>alert. map_get (alerts ts) (currentAlertId s) = Some alert
             \<and> alert_title alert = toUpperCase (service attack) @ '' Honeypot Attack''
             \<and> alert_category alert = ''honeypot'' \<and> alert_severity alert = severity attack"
    if "severity attack = ''high'' \<or> severity attack = ''critical''"
    unfolding ts_def by (rule submitHoneypotAttack_alert [OF that])
  have ts_none: "alerts ts = alerts s"
    if "severity attack \<noteq> ''high'' \<and> severity attack \<noteq> ''critical''"
    using that submitHoneypotAttack_no_alert [of attack s location m]
    unfolding ts_def by blast
  have js_alert: "\<exists>alert. map_get (alerts js) (currentAlertId s) = Some alert
             \<and> alert_title alert = ''SSH Honeypot Attack''
             \<and> alert_category alert = ''honeypot'' \<and> alert_severity alert = severity attack"
    if "service attack = ''ssh'' \<and> (severity attack = ''high'' \<or> severity attack = ''critical'')"
    using that logAttack_complete_alert [of attack s location n]
    unfolding js_def by blast
  have js_none: "alerts js = alerts s"
    if "service attack \<noteq> ''ssh'' \<or> (severity attack \<noteq> ''high'' \<and> severity attack \<noteq> ''critical'')"
    unfolding js_def by (rule logAttack_complete_no_alert [OF that])
  show ?thesis
    using submitHoneypotAttack_log [of s attack location m]
      submitHoneypotAttack_creates [of s attack location m]
      submitHoneypotAttack_mail [of s attack location m]
      logAttack_complete_log [of s attack location n]
      logAttack_complete_creates [of s attack location n]
      ts_alert ts_none js_alert js_none
    unfolding ts_def js_def by blast
qed

text \<open>
  The theorem at attacks as the simulations make them: the random numbers 3/4 make an
  ssh attack of severity \<open>high\<close> and an http attack of severity \<open>medium\<close> in the TypeScript
  server, and an http attack of severity \<open>high\<close> in the single file; the random numbers
  1/4 make an ssh attack of severity \<open>medium\<close>.
\<close>

theorem honeypot_escalation_witness:
  "severity (ssh_attack high_draws) = ''high''
   \<and> map (\<lambda>a. alert_title (snd a))
       (alerts (simulateSSHAttack listening high_draws JNull NotConfigured)) =
       [''SSH Honeypot Attack'']
   \<and> severity (ssh_attack low_draws) = ''medium''
   \<and> alerts (simulateSSHAttack listening low_draws JNull NotConfigured) = []
   \<and> alerts (simulateHTTPAttack listening high_draws JNull NotConfigured) = []
   \<and> map (\<lambda>a. log_service (snd a))
       (honeypotLogs (simulateHTTPAttack listening high_draws JNull NotConfigured)) = [''http'']
   \<and> severity (http_attack_complete high_draws 0) = ''high''
   \<and> alerts (logAttack_complete listening_complete (http_attack_complete high_draws 0)
        JNull 3) = []
   \<and> map (\<lambda>a. alert_title (snd a))
       (alerts (logAttack_complete listening_complete (ssh_attack_complete high_draws 0)
          JNull 3)) = [''SSH Honeypot Attack'']"
  using honeypot_escalation [where s = listening and attack = "ssh_attack high_draws"
      and location = JNull and m = NotConfigured and n = 3]
    honeypot_escalation [where s = listening and attack = "ssh_attack low_draws"
      and location = JNull and m = NotConfigured and n = 3]
    honeypot_escalation [where s = listening and attack = "http_attack high_draws"
      and location = JNull and m = NotConfigured and n = 3]
    honeypot_escalation [where s = listening_complete
      and attack = "http_attack_complete high_draws 0"
      and location = JNull and m = NotConfigured and n = 3]
  by (simp add: simulateSSHAttack_def simulateHTTPAttack_def submitHoneypotAttack_def
        on_attack_def logAttack_complete_def run_defs getRandomSeverity_def
        random_below_def high_draws_def low_draws_def
        attack_alert_def attack_alert_complete_def attack_log_def
        MemStorage_createAlert_def MemoryStorage_createAlert_def
        MemStorage_createHoneypotLog_def Let_def toUpperCase_def upper_char_def)

text \<open>
  Claim C4 as stated fails on the TypeScript server: an http attack of severity \<open>high\<close>
  creates an alert, which the single file does not.
\<close>

theorem honeypot_escalation_counterexample:
  "service http_high_attack = ''http'' \<and> severity http_high_attack = ''high''
   \<and> map (\<lambda>a. alert_title (snd a))
     (alerts (submitHoneypotAttack listening http_high_attack JNull NotConfigured)) =
     [''HTTP Honeypot Attack'']
   \<and> map (\<lambda>a. alert_category (snd a))
     (alerts (submitHoneypotAttack listening http_high_attack JNull NotConfigured)) =
     [''honeypot'']
   \<and> alerts (logAttack_complete listening_complete http_high_attack JNull 3) = []"
  by (simp add: submitHoneypotAttack_def on_attack_def logAttack_complete_def run_defs
        http_high_attack_def attack_alert_def MemStorage_createAlert_def Let_def
        toUpperCase_def upper_char_def)

subsection \<open>Broadcasting\<close>




subsection \<open>Marking an alert as read\<close>

text \<open>
  Claim C7, as amended. \<open>markAlertAsRead\<close> is idempotent in both servers: a second call
  changes nothing, an alert whose id is in the store has \<open>isRead = true\<close> after two
  calls, and the route answers success both times. For an id that is not in the store
  the call leaves the store as it is and the route answers success as well: there is
  no \<open>NotFound\<close>.
\<close>

theorem markAlertAsRead_idempotent:
  "MemStorage_markAlertAsRead (MemStorage_markAlertAsRead s i) i = MemStorage_markAlertAsRead s i
   \<and> (\<forall>alert. map_get (alerts s) i = Some alert \<longrightarrow>
          map_get (alerts (MemStorage_markAlertAsRead (MemStorage_markAlertAsRead s i) i)) i =
            Some (alert\<lparr>alert_isRead := True\<rparr>))
   \<and> (map_get (alerts s) i = None \<longrightarrow> MemStorage_markAlertAsRead s i = s)
   \<and> snd (alerts_read s (Some i)) = JsonSuccess
   \<and> snd (alerts_read (fst (alerts_read s (Some i))) (Some i)) = JsonSuccess
   \<and> fst (alerts_read s (Some i)) = MemStorage_markAlertAsRead s i
   \<and> MemoryStorage_markAlertAsRead (MemoryStorage_markAlertAsRead s i) i =
       MemoryStorage_markAlertAsRead s i
   \<and> (\<forall>alert. map_get (alerts s) i = Some alert \<longrightarrow>
          map_get (alerts (MemoryStorage_markAlertAsRead (MemoryStorage_markAlertAsRead s i) i)) i =
            Some (alert\<lparr>alert_isRead := True\<rparr>))
   \<and> (map_get (alerts s) i = None \<longrightarrow> MemoryStorage_markAlertAsRead s i = s)
   \<and> snd (alerts_read_complete s (Some i)) = JsonSuccess
   \<and> snd (alerts_read_complete (fst (alerts_read_complete s (Some i))) (Some i)) = JsonSuccess
   \<and> fst (alerts_read_complete s (Some i)) = MemoryStorage_markAlertAsRead s i"
  by (auto simp: MemStorage_markAlertAsRead_def MemoryStorage_markAlertAsRead_def
        alerts_read_def alerts_read_complete_def split: option.splits)

text \<open>The theorem at a store with one alert, for its id 1 and for the absent id 2.\<close>

theorem markAlertAsRead_idempotent_witness:
  "map_get (alerts one_alert) 1 = Some an_alert
   \<and> map_get (alerts (MemStorage_markAlertAsRead (MemStorage_markAlertAsRead one_alert 1) 1)) 1 =
       Some (an_alert\<lparr>alert_isRead := True\<rparr>)
   \<and> map_get (alerts one_alert) 2 = None
   \<and> MemStorage_markAlertAsRead one_alert 2 = one_alert
   \<and> MemoryStorage_markAlertAsRead one_alert 2 = one_alert"
  using markAlertAsRead_idempotent [of one_alert 1] markAlertAsRead_idempotent [of one_alert 2]
  by (simp add: one_alert_def map_get_def MemStorage_markAlertAsRead_def
        MemoryStorage_markAlertAsRead_def)

text \<open>
  Claim C7 as stated fails: on the fresh store no alert has the id 1, and the route
  answers success, with the store unchanged.
\<close>

theorem markAlertAsRead_absent_counterexample:
  "map_get (alerts (MemStorage_constructor 0)) 1 = None
   \<and> alerts_read (MemStorage_constructor 0) (Some 1) = (MemStorage_constructor 0, JsonSuccess)
   \<and> alerts_read_complete (MemoryStorage_constructor 0) (Some 1) =
       (MemoryStorage_constructor 0, JsonSuccess)"
  by (simp add: alerts_read_def alerts_read_complete_def MemStorage_markAlertAsRead_def
        MemoryStorage_markAlertAsRead_def MemStorage_constructor_def
        MemoryStorage_constructor_def map_get_def)

subsection \<open>Counting alerts\<close>

text \<open>
  Claim C10. \<open>MemStorage.getAlertCounts\<close> returns, for each of the four severities, the
  number of stored alerts of that severity that are not read; marking an unread alert
  as read takes one off the count of its severity and leaves the other counts.
\<close>

theorem getAlertCounts_counts_unread:
  "MemStorage_getAlertCounts s =
     \<lparr>critical = unread_with ''critical'' s, high = unread_with ''high'' s,
      medium = unread_with ''medium'' s, low = unread_with ''low'' s\<rparr>
   \<and> (\<forall>alert. map_get (alerts s) i = Some alert \<and> \<not> alert_isRead alert \<longrightarrow>
          unread_with (alert_severity alert) (MemStorage_markAlertAsRead s i) + 1 =
            unread_with (alert_severity alert) s
          \<and> (\<forall>sev. sev \<noteq> alert_severity alert \<longrightarrow>
                 unread_with sev (MemStorage_markAlertAsRead s i) = unread_with sev s))"
proof -
  have counts: "MemStorage_getAlertCounts s =
     \<lparr>critical = unread_with ''critical'' s, high = unread_with ''high'' s,
      medium = unread_with ''medium'' s, low = unread_with ''low'' s\<rparr>"
    by (simp add: MemStorage_getAlertCounts_def unread_with_def Let_def conj_commute)
  have dec: "unread_with sev (MemStorage_markAlertAsRead s i) +
               (if sev = alert_severity alert then 1 else 0) = unread_with sev s"
    if "map_get (alerts s) i = Some alert" "\<not> alert_isRead alert" for alert sev
    using that
      map_set_count [of "alerts s" i alert
        "\<lambda>b. alert_severity b = sev \<and> \<not> alert_isRead b" "alert\<lparr>alert_isRead := True\<rparr>"]
    by (auto simp: unread_with_def MemStorage_markAlertAsRead_def)
  show ?thesis
  proof (intro conjI allI impI, goal_cases)
    case 1
    show ?case by (rule counts)
  next
    case (2 alert)
    then show ?case using dec [of alert "alert_severity alert"] by simp
  next
    case (3 alert sev)
    then show ?case using dec [of alert sev] by simp
  qed
qed

text \<open>The theorem at a store with one unread alert of severity \<open>high\<close>.\<close>

theorem getAlertCounts_counts_unread_witness:
  "MemStorage_getAlertCounts one_alert = \<lparr>critical = 0, high = 1, medium = 0, low = 0\<rparr>
   \<and> MemStorage_getAlertCounts (MemStorage_markAlertAsRead one_alert 1) =
       \<lparr>critical = 0, high = 0, medium = 0, low = 0\<rparr>"
  using getAlertCounts_counts_unread [of one_alert 1]
    getAlertCounts_counts_unread [of "MemStorage_markAlertAsRead one_alert 1" 1]
  by (simp add: one_alert_def an_alert_def map_get_def unread_with_def map_values_def
        MemStorage_markAlertAsRead_def MemStorage_constructor_def)

subsection \<open>Content that is no string\<close>

text \<open>
  Claim C9 at the content \<open>5\<close>: the TypeScript route rejects it as invalid input (400),
  the route of the single file lets it through to the detector, whose \<open>TypeError\<close> the
  route answers with 500. Neither stores anything.
\<close>

theorem phishing_analyze_number_content:
  "phishing_analyze s (Some (JNum 5)) result =
     (s, Status 500 ''content.toLowerCase is not a function'')
   \<and> analyze_email s (Some (JNum 5)) result = (s, Status 400 ''Email content is required'')"
  by (simp add: phishing_analyze_def analyze_email_def)
end
